theory Spec2Isabelle
  imports
    Main
    "HOL-Library.Word"
    "HOL-Library.List_Lexorder"
    "HOL-Library.Char_ord"
begin

section \<open>Pure telemetry classification rules (include/jetstream/backend/telemetry.hh)\<close>

text \<open>
  \<^verbatim>\<open>U32\<close> and \<^verbatim>\<open>U64\<close> are the unsigned 32-bit and 64-bit integers of
  \<^verbatim>\<open>jetstream/types.hh\<close>; they are modelled as machine words, so that every
  conversion of the source is visible.
\<close>

type_synonym U32 = "32 word"
type_synonym U64 = "64 word"

datatype Provider = NONE | NVML | RADEON_SMI | TOOLING_INFO | BROWSER

definition ThermalBucketFromCelsius :: "U32 \<Rightarrow> U64" where
  "ThermalBucketFromCelsius temperatureC =
     (if temperatureC \<ge> 95 then 3
      else if temperatureC \<ge> 85 then 2
      else if temperatureC \<ge> 75 then 1
      else 0)"

definition IsLowPowerFromPState :: "U32 \<Rightarrow> bool" where
  "IsLowPowerFromPState pState = (pState \<ge> 8)"

text \<open>
  \<^verbatim>\<open>currentMilliwatts * 100ull\<close> widens the product to 64 bits, the budget is
  promoted to 64 bits for the division, and \<^verbatim>\<open>static_cast<U32>\<close> keeps the low
  32 bits of the quotient.
\<close>

definition IsLowPowerFromPowerBudget :: "U32 \<Rightarrow> U32 \<Rightarrow> U32 \<Rightarrow> bool" where
  "IsLowPowerFromPowerBudget currentMilliwatts budgetMilliwatts utilizationThresholdPercent =
     (if budgetMilliwatts = 0 then False
      else
        let utilizationPercent =
              (ucast (((ucast currentMilliwatts :: U64) * 100) div (ucast budgetMilliwatts :: U64)) :: U32)
        in utilizationPercent < utilizationThresholdPercent)"

text \<open>The default argument \<^verbatim>\<open>utilizationThresholdPercent = 30\<close>.\<close>

definition IsLowPowerFromPowerBudget_default :: "U32 \<Rightarrow> U32 \<Rightarrow> bool" where
  "IsLowPowerFromPowerBudget_default currentMilliwatts budgetMilliwatts =
     IsLowPowerFromPowerBudget currentMilliwatts budgetMilliwatts 30"


section \<open>The logger and the native status codes\<close>

text \<open>
  The logger (\<^verbatim>\<open>jetstream/logger.hh\<close>) is an external collaborator; only its call
  contract matters. Every \<^verbatim>\<open>JST_DEBUG/INFO/WARN/ERROR/FATAL\<close> call of the modelled
  code appends one entry, its level and its message, to the log carried by the state. A
  message is named after what the format string of the call site says and carries the
  arguments of the call.
\<close>

datatype level = LOG_DEBUG | LOG_INFO | LOG_WARN | LOG_ERROR | LOG_FATAL

datatype message =
    NvmlPowerStateFailed nat
  | NvmlTemperatureFailed nat
  | NvmlPowerBudgetFailed nat
  | ToolPropertiesCountFailed int
  | ToolPropertiesFailed int
  | NvmlInitFailed nat
  | NvmlCannotAccessDevice nat nat
  | TelemetryUnavailable string
  | TelemetryProviderIs string
  | BrowserNoPowerHints
  | BrowserNoThermalHints

type_synonym log_entry = "level \<times> message"

text \<open>
  \<^verbatim>\<open>nvmlReturn_t\<close> and \<^verbatim>\<open>VkResult\<close>: the code only compares them with the
  success value and prints the others.
\<close>

datatype nvmlReturn_t = NVML_SUCCESS | NVML_ERROR nat

datatype VkResult = VK_SUCCESS | VK_ERROR int


section \<open>Vulkan telemetry (src/backend/devices/vulkan/base.cc, lines 628-810)\<close>

text \<open>
  The part of the \<^verbatim>\<open>Vulkan\<close> object that telemetry reads and writes: the fields of
  \<^verbatim>\<open>cache\<close> and of \<^verbatim>\<open>telemetryRuntime\<close> as \<^verbatim>\<open>base.cc\<close> uses them. Pointers are
  natural numbers with 0 for \<^verbatim>\<open>nullptr\<close>; \<^verbatim>\<open>toolingInfoFn\<close> records whether the
  function pointer is non-null. \<open>worker_joinable\<close> is \<^verbatim>\<open>telemetryRuntime.worker.joinable()\<close>.
  Three fields are not in the source and only observe it: \<open>live_workers\<close> counts the
  worker threads that were spawned and have not exited, \<open>worker_polls\<close> the polls the
  worker began, and \<open>logger\<close> is the log.
\<close>

record vulkan =
  deviceName :: string
  telemetryProviderType :: Provider
  telemetryProviderName :: string
  telemetryHandle :: nat
  telemetryLibraryInitialized :: bool
  toolingInfoFn :: bool
  lowPowerStatus :: bool
  getThermalState :: U64
  running :: bool
  providerErrorLogged :: bool
  worker_joinable :: bool
  live_workers :: nat
  worker_polls :: nat
  logger :: "log_entry list"

text \<open>
  What the vendor library and the driver answer during one poll: each NVML query is its
  status and the value it wrote; the two calls of \<^verbatim>\<open>vkGetPhysicalDeviceToolPropertiesEXT\<close>
  are their status and, for the second, one flag per tool that says whether
  \<^verbatim>\<open>tool.purposes & VK_TOOL_PURPOSE_MONITORING_BIT_EXT\<close> is non-zero.
\<close>

record queries =
  nvmlDeviceGetPowerState :: "nvmlReturn_t \<times> U32"
  nvmlDeviceGetTemperature :: "nvmlReturn_t \<times> U32"
  nvmlDeviceGetPowerUsage :: "nvmlReturn_t \<times> U32"
  nvmlDeviceGetEnforcedPowerLimit :: "nvmlReturn_t \<times> U32"
  toolProperties_count :: "VkResult \<times> U32"
  toolProperties_tools :: "VkResult \<times> bool list"

text \<open>Lines 737-744: the power state.\<close>

definition nvml_power_state :: "queries \<Rightarrow> vulkan \<Rightarrow> vulkan" where
  "nvml_power_state q s =
     (case nvmlDeviceGetPowerState q of
        (NVML_SUCCESS, powerState) \<Rightarrow> s\<lparr>lowPowerStatus := IsLowPowerFromPState powerState\<rparr>
      | (NVML_ERROR powerStateStatus, _) \<Rightarrow>
          if \<not> providerErrorLogged s
          then s\<lparr>logger := logger s @ [(LOG_WARN, NvmlPowerStateFailed powerStateStatus)],
                 providerErrorLogged := True\<rparr>
          else s)"

text \<open>Lines 746-753: the temperature.\<close>

definition nvml_temperature :: "queries \<Rightarrow> vulkan \<Rightarrow> vulkan" where
  "nvml_temperature q s =
     (case nvmlDeviceGetTemperature q of
        (NVML_SUCCESS, temperature) \<Rightarrow> s\<lparr>getThermalState := ThermalBucketFromCelsius temperature\<rparr>
      | (NVML_ERROR temperatureStatus, _) \<Rightarrow>
          if \<not> providerErrorLogged s
          then s\<lparr>logger := logger s @ [(LOG_WARN, NvmlTemperatureFailed temperatureStatus)],
                 providerErrorLogged := True\<rparr>
          else s)"

text \<open>
  Lines 755-766: power usage and budget. Both queries are made; the failed status that
  is printed is the usage's when it failed, else the budget's.
\<close>

definition nvml_power_budget :: "queries \<Rightarrow> vulkan \<Rightarrow> vulkan" where
  "nvml_power_budget q s =
     (case (nvmlDeviceGetPowerUsage q, nvmlDeviceGetEnforcedPowerLimit q) of
        ((NVML_SUCCESS, powerUsageMw), (NVML_SUCCESS, powerBudgetMw)) \<Rightarrow>
          s\<lparr>lowPowerStatus := IsLowPowerFromPowerBudget_default powerUsageMw powerBudgetMw\<rparr>
      | ((usageStatus, _), (budgetStatus, _)) \<Rightarrow>
          if \<not> providerErrorLogged s
          then
            let failedStatus = (case usageStatus of NVML_ERROR e \<Rightarrow> e
                                | NVML_SUCCESS \<Rightarrow> (case budgetStatus of NVML_ERROR e \<Rightarrow> e | NVML_SUCCESS \<Rightarrow> 0))
            in s\<lparr>logger := logger s @ [(LOG_WARN, NvmlPowerBudgetFailed failedStatus)],
                  providerErrorLogged := True\<rparr>
          else s)"

text \<open>
  \<^verbatim>\<open>updateTelemetryFromNvml\<close>. The first argument is the build-time macro
  \<^verbatim>\<open>JST_BACKEND_HAS_NVML\<close>: without the vendor header the body is empty.
\<close>

definition updateTelemetryFromNvml :: "bool \<Rightarrow> queries \<Rightarrow> vulkan \<Rightarrow> vulkan" where
  "updateTelemetryFromNvml JST_BACKEND_HAS_NVML q s =
     (if \<not> JST_BACKEND_HAS_NVML then s
      else if telemetryHandle s = 0 then s
      else nvml_power_budget q (nvml_temperature q (nvml_power_state q s)))"

definition updateTelemetryFromToolingInfo :: "queries \<Rightarrow> vulkan \<Rightarrow> vulkan" where
  "updateTelemetryFromToolingInfo q s =
     (if \<not> toolingInfoFn s then s
      else
        case toolProperties_count q of
          (VK_ERROR countResult, _) \<Rightarrow>
            if \<not> providerErrorLogged s
            then s\<lparr>logger := logger s @ [(LOG_WARN, ToolPropertiesCountFailed countResult)],
                   providerErrorLogged := True\<rparr>
            else s
        | (VK_SUCCESS, toolCount) \<Rightarrow>
            (case toolProperties_tools q of
               (VK_ERROR toolsResult, _) \<Rightarrow>
                 if \<not> providerErrorLogged s
                 then s\<lparr>logger := logger s @ [(LOG_WARN, ToolPropertiesFailed toolsResult)],
                        providerErrorLogged := True\<rparr>
                 else s
             | (VK_SUCCESS, tools) \<Rightarrow>
                 let monitoringToolPresent = list_ex (\<lambda>monitoring. monitoring) tools
                 in s\<lparr>lowPowerStatus := \<not> monitoringToolPresent,
                       getThermalState := (if monitoringToolPresent then 1 else 0)\<rparr>))"

definition pollTelemetry :: "bool \<Rightarrow> queries \<Rightarrow> vulkan \<Rightarrow> vulkan" where
  "pollTelemetry JST_BACKEND_HAS_NVML q s =
     (case telemetryProviderType s of
        NVML \<Rightarrow> updateTelemetryFromNvml JST_BACKEND_HAS_NVML q s
      | TOOLING_INFO \<Rightarrow> updateTelemetryFromToolingInfo q s
      | _ \<Rightarrow> s)"

text \<open>
  \<^verbatim>\<open>startTelemetryPolling\<close>. Move-assigning a new \<^verbatim>\<open>std::thread\<close> to a worker that is
  still joinable calls \<^verbatim>\<open>std::terminate\<close>: that outcome is \<open>None\<close>. The body of the
  spawned thread is \<open>worker_iteration\<close> below.
\<close>

definition startTelemetryPolling :: "vulkan \<Rightarrow> vulkan option" where
  "startTelemetryPolling s =
     (if running s then Some s
      else if worker_joinable s then None
      else Some (s\<lparr>running := True, providerErrorLogged := False,
                    worker_joinable := True, live_workers := live_workers s + 1\<rparr>))"

text \<open>
  \<^verbatim>\<open>stopTelemetryPolling\<close>: \<^verbatim>\<open>running.exchange(false)\<close>, then the join, which returns
  when the worker has seen the flag and left its loop.
\<close>

definition stopTelemetryPolling :: "vulkan \<Rightarrow> vulkan" where
  "stopTelemetryPolling s =
     (let wasRunning = running s;
          s1 = s\<lparr>running := False\<rparr>
      in if wasRunning \<and> worker_joinable s1
         then s1\<lparr>worker_joinable := False, live_workers := live_workers s1 - 1\<rparr>
         else s1)"

text \<open>
  One turn of the worker's loop \<^verbatim>\<open>while (running.load()) { pollTelemetry(); sleep_for(interval); }\<close>:
  with the flag set it polls, with the flag cleared the thread exits without polling.
\<close>

definition worker_iteration :: "bool \<Rightarrow> queries \<Rightarrow> vulkan \<Rightarrow> vulkan" where
  "worker_iteration JST_BACKEND_HAS_NVML q s =
     (if live_workers s = 0 then s
      else if running s
      then (pollTelemetry JST_BACKEND_HAS_NVML q s)\<lparr>worker_polls := worker_polls s + 1\<rparr>
      else s\<lparr>live_workers := live_workers s - 1\<rparr>)"

text \<open>
  What \<^verbatim>\<open>initializeTelemetry\<close> finds: the build-time macro, the vendor of the selected
  device, the answers of \<^verbatim>\<open>nvmlInit_v2\<close> and \<^verbatim>\<open>nvmlDeviceGetHandleByIndex\<close> (status
  and handle), the negotiated instance extensions, whether \<^verbatim>\<open>vkGetInstanceProcAddr\<close>
  finds the tooling function, the selected physical device, and the answers to the first
  poll.
\<close>

record telemetry_env =
  JST_BACKEND_HAS_NVML :: bool
  vendorID :: U32
  nvmlInit_v2 :: nvmlReturn_t
  nvmlDeviceGetHandleByIndex :: "nvmlReturn_t \<times> nat"
  supportedInstanceExtensions :: "string set"
  toolingFn_found :: bool
  selected_physical_device :: nat
  config_deviceId :: nat
  first_poll :: queries

text \<open>The name the Vulkan headers give to \<^verbatim>\<open>VK_EXT_TOOLING_INFO_EXTENSION_NAME\<close>.\<close>

definition VK_EXT_TOOLING_INFO_EXTENSION_NAME :: string where
  "VK_EXT_TOOLING_INFO_EXTENSION_NAME = ''VK_EXT_tooling_info''"

definition setupNvmlTelemetry :: "telemetry_env \<Rightarrow> vulkan \<Rightarrow> bool \<times> vulkan" where
  "setupNvmlTelemetry env s =
     (if \<not> JST_BACKEND_HAS_NVML env then (False, s)
      else
        case nvmlInit_v2 env of
          NVML_ERROR initStatus \<Rightarrow>
            (False, s\<lparr>logger := logger s @ [(LOG_ERROR, NvmlInitFailed initStatus)]\<rparr>)
        | NVML_SUCCESS \<Rightarrow>
            (case nvmlDeviceGetHandleByIndex env of
               (NVML_ERROR nvmlStatus, _) \<Rightarrow>
                 (False, s\<lparr>logger := logger s @
                              [(LOG_ERROR, NvmlCannotAccessDevice (config_deviceId env) nvmlStatus)]\<rparr>)
             | (NVML_SUCCESS, deviceHandle) \<Rightarrow>
                 (True, s\<lparr>telemetryProviderType := NVML,
                          telemetryProviderName := ''NVML'',
                          telemetryHandle := deviceHandle,
                          telemetryLibraryInitialized := True,
                          toolingInfoFn := False\<rparr>)))"

definition initializeTelemetry :: "telemetry_env \<Rightarrow> vulkan \<Rightarrow> vulkan option" where
  "initializeTelemetry env s =
     (let s0 = s\<lparr>telemetryProviderType := NONE,
                  telemetryProviderName := ''Unavailable'',
                  telemetryHandle := 0,
                  telemetryLibraryInitialized := False,
                  toolingInfoFn := False\<rparr>;
          (telemetryReady1, s1) =
            (if JST_BACKEND_HAS_NVML env \<and> vendorID env = 0x10DE
             then setupNvmlTelemetry env s0
             else (False, s0));
          (telemetryReady, s2) =
            (if \<not> telemetryReady1
                \<and> VK_EXT_TOOLING_INFO_EXTENSION_NAME \<in> supportedInstanceExtensions env
                \<and> toolingFn_found env
             then (True, s1\<lparr>telemetryProviderType := TOOLING_INFO,
                            telemetryProviderName := ''VK_EXT_tooling_info'',
                            telemetryHandle := selected_physical_device env,
                            toolingInfoFn := True\<rparr>)
             else (telemetryReady1, s1))
      in if \<not> telemetryReady
         then Some (s2\<lparr>logger := logger s2 @ [(LOG_WARN, TelemetryUnavailable (deviceName s2))]\<rparr>)
         else
           case startTelemetryPolling (pollTelemetry (JST_BACKEND_HAS_NVML env) (first_poll env) s2) of
             None \<Rightarrow> None
           | Some s3 \<Rightarrow>
               Some (s3\<lparr>logger := logger s3 @ [(LOG_INFO, TelemetryProviderIs (telemetryProviderName s3))]\<rparr>))"

text \<open>
  Lines 364-368 of the constructor, which run before \<^verbatim>\<open>initializeTelemetry\<close> (line 418):
  the telemetry fields get their defaults.
\<close>

definition populate_information_cache :: "string \<Rightarrow> vulkan \<Rightarrow> vulkan" where
  "populate_information_cache properties_deviceName s =
     s\<lparr>deviceName := properties_deviceName,
       getThermalState := 0,
       lowPowerStatus := False,
       telemetryProviderName := ''Unavailable''\<rparr>"

text \<open>
  Modelled from the spec: the declaration of \<^verbatim>\<open>telemetryRuntime\<close> is in
  \<^verbatim>\<open>jetstream/backend/devices/vulkan/base.hh\<close>, which is not among the sources; the
  scheduler's initial state is \<open>Stopped\<close> (section 4.5), with no worker and nothing
  logged or suppressed yet. The cache is value-initialised by \<^verbatim>\<open>cache({})\<close>.
\<close>

definition vulkan_initial :: vulkan where
  "vulkan_initial =
     \<lparr>deviceName = [], telemetryProviderType = NONE, telemetryProviderName = [],
      telemetryHandle = 0, telemetryLibraryInitialized = False, toolingInfoFn = False,
      lowPowerStatus = False, getThermalState = 0,
      running = False, providerErrorLogged = False,
      worker_joinable = False, live_workers = 0, worker_polls = 0, logger = []\<rparr>"

text \<open>A run of polls, each with the answers the providers give at that moment.\<close>

fun poll_all :: "bool \<Rightarrow> queries list \<Rightarrow> vulkan \<Rightarrow> vulkan" where
  "poll_all nv [] s = s"
| "poll_all nv (q # qs) s = poll_all nv qs (pollTelemetry nv q s)"

text \<open>
  The scheduler as a machine: the calls of \<^verbatim>\<open>startTelemetryPolling\<close> and
  \<^verbatim>\<open>stopTelemetryPolling\<close> and the turns of the worker's loop, one at a time.
\<close>

datatype scheduler_event = Start | Stop | Worker queries

fun scheduler_step :: "bool \<Rightarrow> scheduler_event \<Rightarrow> vulkan \<Rightarrow> vulkan option" where
  "scheduler_step nv Start s = startTelemetryPolling s"
| "scheduler_step nv Stop s = Some (stopTelemetryPolling s)"
| "scheduler_step nv (Worker q) s = Some (worker_iteration nv q s)"

fun scheduler_run :: "bool \<Rightarrow> scheduler_event list \<Rightarrow> vulkan \<Rightarrow> vulkan option" where
  "scheduler_run nv [] s = Some s"
| "scheduler_run nv (e # es) s =
     (case scheduler_step nv e s of None \<Rightarrow> None | Some s' \<Rightarrow> scheduler_run nv es s')"

text \<open>
  \<^verbatim>\<open>initializeTelemetry\<close> as the two threads run it. The worker is spawned by line 702,
  the last statement of \<^verbatim>\<open>startTelemetryPolling\<close> (called at line 663), and from then
  on it runs beside the constructing thread: the turns \<open>early\<close> of its loop come before
  line 664 logs the name of the provider, the others after \<^verbatim>\<open>initializeTelemetry\<close> has
  returned. Lines 629-662 are those of \<open>initializeTelemetry\<close>; with no early turn the two
  agree (lemma \<open>initializeTelemetry_no_early_turn\<close>).
\<close>

definition initializeTelemetry_with_worker :: "telemetry_env \<Rightarrow> queries list \<Rightarrow> vulkan \<Rightarrow> vulkan option" where
  "initializeTelemetry_with_worker env early s =
     (let s0 = s\<lparr>telemetryProviderType := NONE,
                  telemetryProviderName := ''Unavailable'',
                  telemetryHandle := 0,
                  telemetryLibraryInitialized := False,
                  toolingInfoFn := False\<rparr>;
          (telemetryReady1, s1) =
            (if JST_BACKEND_HAS_NVML env \<and> vendorID env = 0x10DE
             then setupNvmlTelemetry env s0
             else (False, s0));
          (telemetryReady, s2) =
            (if \<not> telemetryReady1
                \<and> VK_EXT_TOOLING_INFO_EXTENSION_NAME \<in> supportedInstanceExtensions env
                \<and> toolingFn_found env
             then (True, s1\<lparr>telemetryProviderType := TOOLING_INFO,
                            telemetryProviderName := ''VK_EXT_tooling_info'',
                            telemetryHandle := selected_physical_device env,
                            toolingInfoFn := True\<rparr>)
             else (telemetryReady1, s1))
      in if \<not> telemetryReady
         then Some (s2\<lparr>logger := logger s2 @ [(LOG_WARN, TelemetryUnavailable (deviceName s2))]\<rparr>)
         else
           case startTelemetryPolling (pollTelemetry (JST_BACKEND_HAS_NVML env) (first_poll env) s2) of
             None \<Rightarrow> None
           | Some s3 \<Rightarrow>
               (case scheduler_run (JST_BACKEND_HAS_NVML env) (map Worker early) s3 of
                  None \<Rightarrow> None
                | Some s4 \<Rightarrow>
                    Some (s4\<lparr>logger := logger s4 @
                               [(LOG_INFO, TelemetryProviderIs (telemetryProviderName s4))]\<rparr>)))"


section \<open>Browser telemetry (src/backend/devices/webgpu/base.cc, lines 56-89 and 123-155)\<close>

text \<open>
  The telemetry part of the \<^verbatim>\<open>WebGPU\<close> object (\<^verbatim>\<open>webgpu/base.hh\<close>, lines 51-66).
  Fields that have a namesake in the Vulkan record carry the prefix \<open>w_\<close>.
  \<open>pending_callbacks\<close> counts the calls of \<^verbatim>\<open>emscripten_async_call\<close> that the host has
  not fired yet and \<open>refreshes\<close> the calls of \<^verbatim>\<open>refreshTelemetry\<close>; both only observe
  the code, as does the log.
\<close>

record webgpu =
  telemetryActive :: bool
  lowPowerWarningLogged :: bool
  thermalWarningLogged :: bool
  w_lowPowerStatus :: bool
  w_getThermalState :: U64
  w_telemetryProviderType :: Provider
  w_telemetryProviderName :: string
  pending_callbacks :: nat
  refreshes :: nat
  w_logger :: "log_entry list"

text \<open>
  What the two \<^verbatim>\<open>EM_JS\<close> queries return at one refresh (a C \<^verbatim>\<open>int\<close>; \<open>-1\<close> when
  the browser exposes nothing).
\<close>

record browser_hints =
  jetstream_webgpu_query_low_power_hint :: int
  jetstream_webgpu_query_thermal_bucket :: int

definition refreshTelemetry :: "browser_hints \<Rightarrow> webgpu \<Rightarrow> webgpu" where
  "refreshTelemetry h w =
     (let lowPowerHint = jetstream_webgpu_query_low_power_hint h;
          w1 = (if lowPowerHint \<ge> 0 then w\<lparr>w_lowPowerStatus := (lowPowerHint = 1)\<rparr>
                else if \<not> lowPowerWarningLogged w
                then w\<lparr>w_logger := w_logger w @ [(LOG_WARN, BrowserNoPowerHints)],
                       lowPowerWarningLogged := True\<rparr>
                else w);
          thermalBucket = jetstream_webgpu_query_thermal_bucket h
      in if thermalBucket \<ge> 0 then w1\<lparr>w_getThermalState := word_of_int thermalBucket\<rparr>
         else if \<not> thermalWarningLogged w1
         then w1\<lparr>w_logger := w_logger w1 @ [(LOG_WARN, BrowserNoThermalHints)],
                 thermalWarningLogged := True\<rparr>
         else w1)"

definition scheduleTelemetryRefresh :: "webgpu \<Rightarrow> webgpu" where
  "scheduleTelemetryRefresh w =
     (if \<not> telemetryActive w then w
      else w\<lparr>pending_callbacks := pending_callbacks w + 1\<rparr>)"

text \<open>
  \<^verbatim>\<open>TelemetryPump(void* userData)\<close>: \<open>None\<close> is a null \<^verbatim>\<open>userData\<close>, \<open>Some self\<close> the
  object it points to.
\<close>

definition TelemetryPump :: "browser_hints \<Rightarrow> webgpu option \<Rightarrow> webgpu option" where
  "TelemetryPump h userData =
     (case userData of
        None \<Rightarrow> None
      | Some self \<Rightarrow>
          if \<not> telemetryActive self then Some self
          else Some (scheduleTelemetryRefresh ((refreshTelemetry h self)\<lparr>refreshes := refreshes self + 1\<rparr>)))"

text \<open>The object before the constructor's body: the member initialisers of \<^verbatim>\<open>base.hh\<close>.\<close>

definition webgpu_initial :: webgpu where
  "webgpu_initial =
     \<lparr>telemetryActive = False, lowPowerWarningLogged = False, thermalWarningLogged = False,
      w_lowPowerStatus = False, w_getThermalState = 0,
      w_telemetryProviderType = NONE, w_telemetryProviderName = [],
      pending_callbacks = 0, refreshes = 0, w_logger = []\<rparr>"

text \<open>The telemetry lines of the constructor (64-69) and the destructor.\<close>

definition WebGPU_constructor :: "webgpu \<Rightarrow> webgpu" where
  "WebGPU_constructor w =
     scheduleTelemetryRefresh
       (w\<lparr>w_lowPowerStatus := False,
          w_getThermalState := 0,
          w_telemetryProviderType := BROWSER,
          w_telemetryProviderName := ''Navigator'',
          telemetryActive := True\<rparr>)"

definition WebGPU_destructor :: "webgpu \<Rightarrow> webgpu" where
  "WebGPU_destructor w = w\<lparr>telemetryActive := False\<rparr>"

text \<open>
  The host's event loop: it fires one pending callback, which runs \<^verbatim>\<open>TelemetryPump\<close> on
  the object; or the owner destroys the object.
\<close>

datatype host_event = Fire browser_hints | Destroy

fun host_step :: "host_event \<Rightarrow> webgpu \<Rightarrow> webgpu" where
  "host_step (Fire h) w =
     (if pending_callbacks w = 0 then w
      else case TelemetryPump h (Some (w\<lparr>pending_callbacks := pending_callbacks w - 1\<rparr>)) of
             None \<Rightarrow> w
           | Some w' \<Rightarrow> w')"
| "host_step Destroy w = WebGPU_destructor w"

fun host_run :: "host_event list \<Rightarrow> webgpu \<Rightarrow> webgpu" where
  "host_run [] w = w"
| "host_run (e # es) w = host_run es (host_step e w)"

fun refresh_all :: "browser_hints list \<Rightarrow> webgpu \<Rightarrow> webgpu" where
  "refresh_all [] w = w"
| "refresh_all (h # hs) w = refresh_all hs (refreshTelemetry h w)"


section \<open>The constructor up to the instance (vulkan/base.cc, lines 35-148 and 167-289)\<close>

text \<open>
  The messages of the constructor's \<^verbatim>\<open>JST_DEBUG/WARN/ERROR/FATAL\<close> calls. A set of
  names is printed in the order of \<^verbatim>\<open>std::set<std::string>\<close>, its sorted list.
\<close>

datatype ctor_message =
    RequiredInstanceExtensions "string list"
  | OptionalInstanceExtensions "string list"
  | RequiredInstanceExtensionsNotSupported "string list"
  | OptionalInstanceExtensionNotSupported string
  | CouldntFindValidationLayers
  | EnablingPortabilityEnumeration
  | CouldntCreateInstance
  | FailedToCreateValidation
  | CantEnumeratePhysicalDevices
  | NoPhysicalDevicesFound
  | CantFindDesiredDeviceID nat
  | CandidateDevice bool bool
  | NoValidPhysicalDevicesFound
  | CantFindDesiredDeviceID_valid
  | CantCreateDescriptorPool
  | FailedToCreateStagingBuffer
  | FailedToAllocateStagingBufferMemory
  | FailedToBindMemoryToStagingBuffer
  | FailedToMapStagingBufferMemory
  | FailedToCreateDefaultCommandPool
  | FailedToCreateDefaultCommandBuffer
  | FailedToCreateDefaultFence

type_synonym ctor_log = "(level \<times> ctor_message) list"

text \<open>
  Modelled from the spec: \<^verbatim>\<open>JST_VK_CHECK_THROW(call, callback)\<close> is defined in
  \<^verbatim>\<open>jetstream/backend/devices/vulkan/helpers.hh\<close>, which is not among the sources. As
  its name and its uses say, and as section 4.3 has it ("any allocation failure at any step
  is fatal"), when the call does not return \<^verbatim>\<open>VK_SUCCESS\<close> it runs the callback and
  throws. Which value it throws is in neither the sources nor the specification:
  \<open>Vk_check_thrown\<close> stands for it, whatever it is.
  \<^verbatim>\<open>JST_CHECK_THROW(Result::FATAL)\<close>, which the constructor writes out after each
  \<^verbatim>\<open>JST_FATAL\<close> of its own, throws \<open>Result_FATAL\<close>.
\<close>

datatype thrown = Result_FATAL | Vk_check_thrown

text \<open>How a block of the constructor ends: it runs to its end, or it throws.\<close>

datatype exit = Completed | Threw thrown

text \<open>
  The blocks of the constructor run in order; a throw ends the run with the state as it
  is at that point: nothing in the constructor catches it, and the destructor of
  \<^verbatim>\<open>Vulkan\<close> does not run for an object whose constructor threw, so no native handle
  is destroyed on the way out. What leaving the constructor by a throw does to the
  process depends on the worker thread and is \<open>leave_constructor\<close> below; up to line 418
  no worker has been started.
\<close>

fun run_blocks :: "('s \<Rightarrow> exit \<times> 's) list \<Rightarrow> 's \<Rightarrow> exit \<times> 's" where
  "run_blocks [] s = (Completed, s)"
| "run_blocks (b # bs) s =
     (case b s of
        (Completed, s') \<Rightarrow> run_blocks bs s'
      | (Threw t, s') \<Rightarrow> (Threw t, s'))"

text \<open>
  \<^verbatim>\<open>Backend::Config\<close> (\<^verbatim>\<open>jetstream/backend/config.hh\<close>, not among the sources), with
  the fields the constructor reads; the numbers are unsigned.
\<close>

record config =
  deviceId :: nat
  headless :: bool
  validationEnabled :: bool
  multisampling :: nat
  stagingBufferSize :: nat

text \<open>
  What the preprocessor and the window system decide: the operating system macro, the
  answer of \<^verbatim>\<open>Backend::WindowMightBeWayland()\<close>, and whether the Vulkan headers define
  the extension macros that guard the optional extensions.
\<close>

datatype operating_system = JST_OS_LINUX | JST_OS_MAC | JST_OS_IOS | JST_OS_WINDOWS | JST_OS_ANDROID | JST_OS_OTHER

record platform =
  os :: operating_system
  WindowMightBeWayland :: bool
  defined_VK_KHR_portability_enumeration :: bool
  defined_VK_EXT_tooling_info :: bool

text \<open>
  The instance-level answers of the loader: the extension and layer properties, the
  result and handle of \<^verbatim>\<open>vkCreateInstance\<close> for the requested extensions and layers, and
  the debug-report entry point (whether \<^verbatim>\<open>vkGetInstanceProcAddr\<close> finds it, and what
  it returns).
\<close>

record loader =
  vkEnumerateInstanceExtensionProperties :: "string list"
  vkEnumerateInstanceLayerProperties :: "string list"
  vkCreateInstance :: "string list \<Rightarrow> string list \<Rightarrow> VkResult \<times> nat"
  vkCreateDebugReportCallbackEXT_found :: bool
  vkCreateDebugReportCallbackEXT :: "VkResult \<times> nat"

definition getRequiredInstanceExtensions :: "platform \<Rightarrow> config \<Rightarrow> string set" where
  "getRequiredInstanceExtensions plat cfg =
     (if \<not> headless cfg
      then {''VK_KHR_surface''}
           \<union> (if os plat = JST_OS_LINUX
               then {''VK_KHR_xcb_surface''}
                    \<union> (if WindowMightBeWayland plat then {''VK_KHR_wayland_surface''} else {})
               else {})
           \<union> (if os plat = JST_OS_MAC \<or> os plat = JST_OS_IOS then {''VK_EXT_metal_surface''} else {})
           \<union> (if os plat = JST_OS_WINDOWS then {''VK_KHR_win32_surface''} else {})
           \<union> (if os plat = JST_OS_ANDROID then {''VK_KHR_android_surface''} else {})
      else {})
     \<union> (if validationEnabled cfg then {''VK_EXT_debug_report''} else {})"

definition getOptionalInstanceExtensions :: "platform \<Rightarrow> string set" where
  "getOptionalInstanceExtensions plat =
     (if defined_VK_KHR_portability_enumeration plat then {''VK_KHR_portability_enumeration''} else {})
     \<union> (if defined_VK_EXT_tooling_info plat then {''VK_EXT_tooling_info''} else {})"

definition getRequiredValidationLayers :: "string set" where
  "getRequiredValidationLayers = {''VK_LAYER_KHRONOS_validation''}"

text \<open>
  \<^verbatim>\<open>checkInstanceExtensionSupport\<close>, \<^verbatim>\<open>checkValidationLayerSupport\<close> and
  \<^verbatim>\<open>checkDeviceExtensionSupport\<close> are the same loop over the available properties:
  a name is inserted when the requested set contains it.
\<close>

fun check_support_loop :: "string list \<Rightarrow> string set \<Rightarrow> string set \<Rightarrow> string set" where
  "check_support_loop [] extensions supportedExtensions = supportedExtensions"
| "check_support_loop (extensionName # available) extensions supportedExtensions =
     check_support_loop available extensions
       (if extensionName \<in> extensions then insert extensionName supportedExtensions
        else supportedExtensions)"

definition checkInstanceExtensionSupport :: "loader \<Rightarrow> string set \<Rightarrow> string set" where
  "checkInstanceExtensionSupport ld extensions =
     check_support_loop (vkEnumerateInstanceExtensionProperties ld) extensions {}"

definition checkValidationLayerSupport :: "loader \<Rightarrow> string set \<Rightarrow> string set" where
  "checkValidationLayerSupport ld layers =
     check_support_loop (vkEnumerateInstanceLayerProperties ld) layers {}"

text \<open>
  The members and locals of the constructor that the instance stage writes. The handles
  are natural numbers, 0 for \<^verbatim>\<open>VK_NULL_HANDLE\<close>.
\<close>

record instance_stage =
  stage_config :: config
  supported_instance_extensions :: "string set"
  instanceExtensions :: "string list"
  validationLayers :: "string list"
  vk_instance :: nat
  debugReportCallback :: nat
  stage_log :: ctor_log

text \<open>The warnings of lines 196-200, in the order of the set.\<close>

fun warn_unsupported_optional :: "string list \<Rightarrow> string set \<Rightarrow> ctor_log" where
  "warn_unsupported_optional [] supported = []"
| "warn_unsupported_optional (extension # optionalExtensions) supported =
     (if extension \<notin> supported
      then (LOG_WARN, OptionalInstanceExtensionNotSupported extension)
             # warn_unsupported_optional optionalExtensions supported
      else warn_unsupported_optional optionalExtensions supported)"

text \<open>Lines 172-203, for any required and optional sets.\<close>

definition gather_instance_extensions ::
  "string set \<Rightarrow> string set \<Rightarrow> loader \<Rightarrow> instance_stage \<Rightarrow> exit \<times> instance_stage" where
  "gather_instance_extensions requiredExtensions optionalExtensions ld st =
     (let st1 = st\<lparr>stage_log := stage_log st @
                     [(LOG_DEBUG, RequiredInstanceExtensions (sorted_list_of_set requiredExtensions)),
                      (LOG_DEBUG, OptionalInstanceExtensions (sorted_list_of_set optionalExtensions))]\<rparr>;
          st2 = st1\<lparr>supported_instance_extensions :=
                       supported_instance_extensions st1
                       \<union> checkInstanceExtensionSupport ld requiredExtensions\<rparr>;
          unsupportedInstanceExtensions =
            {extension \<in> requiredExtensions. extension \<notin> supported_instance_extensions st2}
      in if unsupportedInstanceExtensions \<noteq> {}
         then (Threw Result_FATAL,
               st2\<lparr>stage_log := stage_log st2 @
                      [(LOG_FATAL, RequiredInstanceExtensionsNotSupported
                                     (sorted_list_of_set unsupportedInstanceExtensions))]\<rparr>)
         else
           let st3 = st2\<lparr>supported_instance_extensions :=
                            supported_instance_extensions st2
                            \<union> checkInstanceExtensionSupport ld optionalExtensions\<rparr>;
               st4 = st3\<lparr>stage_log := stage_log st3 @
                            warn_unsupported_optional (sorted_list_of_set optionalExtensions)
                              (supported_instance_extensions st3)\<rparr>
           in (Completed,
               st4\<lparr>instanceExtensions := instanceExtensions st4 @
                      sorted_list_of_set (supported_instance_extensions st4)\<rparr>))"

text \<open>Lines 209-220.\<close>

definition gather_validation_layers :: "loader \<Rightarrow> instance_stage \<Rightarrow> exit \<times> instance_stage" where
  "gather_validation_layers ld st =
     (let requiredValidationLayers = getRequiredValidationLayers;
          supportedValidationLayers = checkValidationLayerSupport ld requiredValidationLayers;
          validationLayerCheck = (card requiredValidationLayers = card supportedValidationLayers);
          st1 = (if validationEnabled (stage_config st) \<and> \<not> validationLayerCheck
                 then st\<lparr>stage_log := stage_log st @ [(LOG_WARN, CouldntFindValidationLayers)],
                        stage_config := (stage_config st)\<lparr>validationEnabled := False\<rparr>\<rparr>
                 else st)
      in (Completed,
          st1\<lparr>validationLayers := validationLayers st1 @ sorted_list_of_set supportedValidationLayers\<rparr>))"

text \<open>Lines 224-270: the instance is created with the gathered extensions and, when
  validation is still enabled, the gathered layers.\<close>

definition create_application :: "platform \<Rightarrow> loader \<Rightarrow> instance_stage \<Rightarrow> exit \<times> instance_stage" where
  "create_application plat ld st =
     (let st1 = (if defined_VK_KHR_portability_enumeration plat
                    \<and> ''VK_KHR_portability_enumeration'' \<in> supported_instance_extensions st
                 then st\<lparr>stage_log := stage_log st @ [(LOG_DEBUG, EnablingPortabilityEnumeration)]\<rparr>
                 else st);
          enabledLayerNames = (if validationEnabled (stage_config st1) then validationLayers st1 else [])
      in case vkCreateInstance ld (instanceExtensions st1) enabledLayerNames of
           (VK_SUCCESS, handle) \<Rightarrow> (Completed, st1\<lparr>vk_instance := handle\<rparr>)
         | (VK_ERROR err, _) \<Rightarrow>
             (Threw Vk_check_thrown,
              st1\<lparr>stage_log := stage_log st1 @ [(LOG_FATAL, CouldntCreateInstance)]\<rparr>))"

text \<open>Lines 274-289: the debug-report callback, only while validation is enabled.\<close>

definition setup_validation :: "loader \<Rightarrow> instance_stage \<Rightarrow> exit \<times> instance_stage" where
  "setup_validation ld st =
     (if validationEnabled (stage_config st)
      then
        if \<not> vkCreateDebugReportCallbackEXT_found ld
        then (Threw Result_FATAL,
              st\<lparr>stage_log := stage_log st @ [(LOG_FATAL, FailedToCreateValidation)]\<rparr>)
        else
          case vkCreateDebugReportCallbackEXT ld of
            (VK_SUCCESS, callback) \<Rightarrow> (Completed, st\<lparr>debugReportCallback := callback\<rparr>)
          | (VK_ERROR err, _) \<Rightarrow>
              (Threw Vk_check_thrown,
               st\<lparr>stage_log := stage_log st @ [(LOG_FATAL, FailedToCreateValidation)]\<rparr>)
      else (Completed, st))"

text \<open>The object when the constructor's body begins: the configuration copied, nothing else set.\<close>

definition instance_stage_initial :: "config \<Rightarrow> instance_stage" where
  "instance_stage_initial cfg =
     \<lparr>stage_config = cfg, supported_instance_extensions = {}, instanceExtensions = [],
      validationLayers = [], vk_instance = 0, debugReportCallback = 0, stage_log = []\<rparr>"

text \<open>
  The instance stage for given required and optional sets, and the one of the constructor,
  whose sets come from the configuration and the platform.
\<close>

definition instance_stage_for ::
  "string set \<Rightarrow> string set \<Rightarrow> platform \<Rightarrow> loader \<Rightarrow> instance_stage \<Rightarrow> exit \<times> instance_stage" where
  "instance_stage_for requiredExtensions optionalExtensions plat ld st =
     run_blocks
       [gather_instance_extensions requiredExtensions optionalExtensions ld,
        gather_validation_layers ld,
        create_application plat ld,
        setup_validation ld] st"

definition Vulkan_instance_stage :: "platform \<Rightarrow> loader \<Rightarrow> config \<Rightarrow> exit \<times> instance_stage" where
  "Vulkan_instance_stage plat ld cfg =
     instance_stage_for (getRequiredInstanceExtensions plat cfg) (getOptionalInstanceExtensions plat)
       plat ld (instance_stage_initial cfg)"


section \<open>Selecting the physical device (vulkan/base.cc, lines 91-99, 150-165 and 293-337)\<close>

text \<open>
  What the driver reports for one enumerated device: its handle, its extension
  properties, and the queue families that \<^verbatim>\<open>FindQueueFamilies\<close> finds for the three
  roles.
\<close>

record physical_device =
  device_handle :: nat
  device_extension_properties :: "string list"
  graphicFamily :: "U32 option"
  computeFamily :: "U32 option"
  presentFamily :: "U32 option"

text \<open>
  Modelled from the spec: \<^verbatim>\<open>QueueFamilyIndices::isComplete\<close> is declared in
  \<^verbatim>\<open>vulkan/helpers.hh\<close>, which is not among the sources. Section 4.2: a candidate
  exposes "a complete set of needed queue roles (graphics, compute, present - presence of
  all three)".
\<close>

definition isComplete :: "physical_device \<Rightarrow> bool" where
  "isComplete queueFamilyIndices \<longleftrightarrow>
     graphicFamily queueFamilyIndices \<noteq> None
     \<and> computeFamily queueFamilyIndices \<noteq> None
     \<and> presentFamily queueFamilyIndices \<noteq> None"

definition getRequiredDeviceExtensions :: "config \<Rightarrow> string set" where
  "getRequiredDeviceExtensions cfg = (if \<not> headless cfg then {''VK_KHR_swapchain''} else {})"

definition checkDeviceExtensionSupport :: "physical_device \<Rightarrow> string set \<Rightarrow> string set" where
  "checkDeviceExtensionSupport device extensions =
     check_support_loop (device_extension_properties device) extensions {}"

text \<open>The loop of lines 310-325 over the enumerated devices.\<close>

fun candidate_loop ::
  "config \<Rightarrow> physical_device list \<Rightarrow> physical_device list \<Rightarrow> ctor_log
     \<Rightarrow> physical_device list \<times> ctor_log" where
  "candidate_loop cfg [] validPhysicalDevices lg = (validPhysicalDevices, lg)"
| "candidate_loop cfg (candidatePhysicalDevice # physicalDevices) validPhysicalDevices lg =
     (let requiredExtensions = getRequiredDeviceExtensions cfg;
          supportedExtensions = checkDeviceExtensionSupport candidatePhysicalDevice requiredExtensions;
          extensionCheck = (card requiredExtensions = card supportedExtensions);
          queueFamilyCheck = isComplete candidatePhysicalDevice
      in candidate_loop cfg physicalDevices
           (if extensionCheck \<and> queueFamilyCheck
            then validPhysicalDevices @ [candidatePhysicalDevice]
            else validPhysicalDevices)
           (lg @ [(LOG_DEBUG, CandidateDevice extensionCheck queueFamilyCheck)]))"

text \<open>The member \<^verbatim>\<open>physicalDevice\<close> (\<open>None\<close> until it is assigned) and the log.\<close>

record device_stage =
  physicalDevice :: "physical_device option"
  device_log :: ctor_log

text \<open>
  Lines 293-337. The second argument is what \<^verbatim>\<open>vkEnumeratePhysicalDevices\<close> answers:
  its result and the devices.
\<close>

definition get_physical_device ::
  "config \<Rightarrow> VkResult \<times> physical_device list \<Rightarrow> device_stage \<Rightarrow> exit \<times> device_stage" where
  "get_physical_device cfg vkEnumeratePhysicalDevices st =
     (case vkEnumeratePhysicalDevices of
        (VK_ERROR err, _) \<Rightarrow>
          (Threw Vk_check_thrown,
           st\<lparr>device_log := device_log st @ [(LOG_FATAL, CantEnumeratePhysicalDevices)]\<rparr>)
      | (VK_SUCCESS, physicalDevices) \<Rightarrow>
          let physicalDeviceCount = length physicalDevices
          in if physicalDeviceCount = 0
             then (Threw Result_FATAL,
                   st\<lparr>device_log := device_log st @ [(LOG_FATAL, NoPhysicalDevicesFound)]\<rparr>)
             else if physicalDeviceCount \<le> deviceId cfg
             then (Threw Result_FATAL,
                   st\<lparr>device_log := device_log st @
                          [(LOG_FATAL, CantFindDesiredDeviceID (deviceId cfg))]\<rparr>)
             else
               let (validPhysicalDevices, lg) = candidate_loop cfg physicalDevices [] (device_log st)
               in if length validPhysicalDevices = 0
                  then (Threw Result_FATAL,
                        st\<lparr>device_log := lg @ [(LOG_FATAL, NoValidPhysicalDevicesFound)]\<rparr>)
                  else if length validPhysicalDevices \<le> deviceId cfg
                  then (Threw Result_FATAL,
                        st\<lparr>device_log := lg @ [(LOG_FATAL, CantFindDesiredDeviceID_valid)]\<rparr>)
                  else (Completed,
                        st\<lparr>physicalDevice := Some (validPhysicalDevices ! deviceId cfg),
                           device_log := lg\<rparr>))"

definition device_stage_initial :: device_stage where
  "device_stage_initial = \<lparr>physicalDevice = None, device_log = []\<rparr>"


text \<open>
  The specification's valid candidate (section 4.2), to compare the loop with: the device
  supports all required device extensions and exposes all three queue roles.
\<close>

definition passes_both_filters :: "config \<Rightarrow> physical_device \<Rightarrow> bool" where
  "passes_both_filters cfg d \<longleftrightarrow>
     getRequiredDeviceExtensions cfg \<subseteq> set (device_extension_properties d) \<and> isComplete d"


section \<open>Allocating the shared resources (vulkan/base.cc, lines 497-607 and 812-839)\<close>

text \<open>
  The answers of the driver to the eight calls of the resource blocks: the result and,
  where the call creates something, the handle.
\<close>

record driver =
  vkCreateDescriptorPool :: "VkResult \<times> nat"
  vkCreateBuffer :: "VkResult \<times> nat"
  vkAllocateMemory :: "VkResult \<times> nat"
  vkBindBufferMemory :: VkResult
  vkMapMemory :: "VkResult \<times> nat"
  vkCreateCommandPool :: "VkResult \<times> nat"
  vkAllocateCommandBuffers :: "VkResult \<times> nat"
  vkCreateFence :: "VkResult \<times> nat"

text \<open>
  The native objects the blocks create. \<open>MemoryMapping m\<close> is the host mapping of the
  memory object \<open>m\<close>, which \<^verbatim>\<open>vkUnmapMemory\<close> of \<open>m\<close> ends.
\<close>

datatype native_resource =
    DescriptorPool nat
  | Buffer nat
  | DeviceMemory nat
  | MemoryMapping nat
  | CommandPool nat
  | CommandBuffer nat
  | Fence nat

text \<open>
  The members the resource blocks assign and \<^verbatim>\<open>_isAvailable\<close>. \<open>acquired\<close> is not in
  the source: it lists the native objects that were created and not yet destroyed, in
  the order of their creation.
\<close>

record resources =
  descriptorPool :: nat
  stagingBuffer :: nat
  stagingBufferMemory :: nat
  stagingBufferMappedMemory :: nat
  defaultCommandPool :: nat
  defaultCommandBuffer :: nat
  defaultFence :: nat
  isAvailable :: bool
  acquired :: "native_resource list"
  resource_log :: ctor_log

definition create_descriptor_pool :: "driver \<Rightarrow> resources \<Rightarrow> exit \<times> resources" where
  "create_descriptor_pool drv st =
     (case vkCreateDescriptorPool drv of
        (VK_SUCCESS, handle) \<Rightarrow>
          (Completed, st\<lparr>descriptorPool := handle, acquired := acquired st @ [DescriptorPool handle]\<rparr>)
      | (VK_ERROR err, _) \<Rightarrow>
          (Threw Vk_check_thrown,
           st\<lparr>resource_log := resource_log st @ [(LOG_FATAL, CantCreateDescriptorPool)]\<rparr>))"

text \<open>The four calls of the staging-buffer block (lines 528-562), in order.\<close>

definition staging_create_buffer :: "driver \<Rightarrow> resources \<Rightarrow> exit \<times> resources" where
  "staging_create_buffer drv st =
     (case vkCreateBuffer drv of
        (VK_SUCCESS, handle) \<Rightarrow>
          (Completed, st\<lparr>stagingBuffer := handle, acquired := acquired st @ [Buffer handle]\<rparr>)
      | (VK_ERROR err, _) \<Rightarrow>
          (Threw Vk_check_thrown,
           st\<lparr>resource_log := resource_log st @ [(LOG_FATAL, FailedToCreateStagingBuffer)]\<rparr>))"

definition staging_allocate_memory :: "driver \<Rightarrow> resources \<Rightarrow> exit \<times> resources" where
  "staging_allocate_memory drv st =
     (case vkAllocateMemory drv of
        (VK_SUCCESS, handle) \<Rightarrow>
          (Completed, st\<lparr>stagingBufferMemory := handle, acquired := acquired st @ [DeviceMemory handle]\<rparr>)
      | (VK_ERROR err, _) \<Rightarrow>
          (Threw Vk_check_thrown,
           st\<lparr>resource_log := resource_log st @ [(LOG_FATAL, FailedToAllocateStagingBufferMemory)]\<rparr>))"

definition staging_bind_memory :: "driver \<Rightarrow> resources \<Rightarrow> exit \<times> resources" where
  "staging_bind_memory drv st =
     (case vkBindBufferMemory drv of
        VK_SUCCESS \<Rightarrow> (Completed, st)
      | VK_ERROR err \<Rightarrow>
          (Threw Vk_check_thrown,
           st\<lparr>resource_log := resource_log st @ [(LOG_FATAL, FailedToBindMemoryToStagingBuffer)]\<rparr>))"

definition staging_map_memory :: "driver \<Rightarrow> resources \<Rightarrow> exit \<times> resources" where
  "staging_map_memory drv st =
     (case vkMapMemory drv of
        (VK_SUCCESS, pointer) \<Rightarrow>
          (Completed, st\<lparr>stagingBufferMappedMemory := pointer,
                         acquired := acquired st @ [MemoryMapping (stagingBufferMemory st)]\<rparr>)
      | (VK_ERROR err, _) \<Rightarrow>
          (Threw Vk_check_thrown,
           st\<lparr>resource_log := resource_log st @ [(LOG_FATAL, FailedToMapStagingBufferMemory)]\<rparr>))"

definition create_default_command_pool :: "driver \<Rightarrow> resources \<Rightarrow> exit \<times> resources" where
  "create_default_command_pool drv st =
     (case vkCreateCommandPool drv of
        (VK_SUCCESS, handle) \<Rightarrow>
          (Completed, st\<lparr>defaultCommandPool := handle, acquired := acquired st @ [CommandPool handle]\<rparr>)
      | (VK_ERROR err, _) \<Rightarrow>
          (Threw Vk_check_thrown,
           st\<lparr>resource_log := resource_log st @ [(LOG_FATAL, FailedToCreateDefaultCommandPool)]\<rparr>))"

definition create_default_command_buffer :: "driver \<Rightarrow> resources \<Rightarrow> exit \<times> resources" where
  "create_default_command_buffer drv st =
     (case vkAllocateCommandBuffers drv of
        (VK_SUCCESS, handle) \<Rightarrow>
          (Completed, st\<lparr>defaultCommandBuffer := handle, acquired := acquired st @ [CommandBuffer handle]\<rparr>)
      | (VK_ERROR err, _) \<Rightarrow>
          (Threw Vk_check_thrown,
           st\<lparr>resource_log := resource_log st @ [(LOG_ERROR, FailedToCreateDefaultCommandBuffer)]\<rparr>))"

definition create_default_fence :: "driver \<Rightarrow> resources \<Rightarrow> exit \<times> resources" where
  "create_default_fence drv st =
     (case vkCreateFence drv of
        (VK_SUCCESS, handle) \<Rightarrow>
          (Completed, st\<lparr>defaultFence := handle, acquired := acquired st @ [Fence handle]\<rparr>)
      | (VK_ERROR err, _) \<Rightarrow>
          (Threw Vk_check_thrown,
           st\<lparr>resource_log := resource_log st @ [(LOG_ERROR, FailedToCreateDefaultFence)]\<rparr>))"

definition signal_device_is_available :: "resources \<Rightarrow> exit \<times> resources" where
  "signal_device_is_available st = (Completed, st\<lparr>isAvailable := True\<rparr>)"

text \<open>Lines 497-607: the resource blocks of the constructor, in their order.\<close>

definition resource_blocks :: "driver \<Rightarrow> resources \<Rightarrow> exit \<times> resources" where
  "resource_blocks drv st =
     run_blocks
       [create_descriptor_pool drv,
        staging_create_buffer drv,
        staging_allocate_memory drv,
        staging_bind_memory drv,
        staging_map_memory drv,
        create_default_command_pool drv,
        create_default_command_buffer drv,
        create_default_fence drv,
        signal_device_is_available] st"

text \<open>
  How the constructor is left. The resource blocks run after \<^verbatim>\<open>initializeTelemetry\<close>
  (line 418), which starts the worker thread when a provider commits (lines 663, 702).
  An exception that leaves the constructor's body destroys the members that were
  constructed; \<^verbatim>\<open>telemetryRuntime.worker\<close> is a \<^verbatim>\<open>std::thread\<close>, and destroying a joinable
  \<^verbatim>\<open>std::thread\<close> calls \<^verbatim>\<open>std::terminate\<close>. So a throw reaches the caller only when
  the worker is not joinable; otherwise the process is terminated.
\<close>

datatype constructor_outcome = Constructed | Exception_to_caller thrown | Std_terminate

definition leave_constructor :: "vulkan \<Rightarrow> exit \<Rightarrow> constructor_outcome" where
  "leave_constructor tel e =
     (case e of
        Completed \<Rightarrow> Constructed
      | Threw t \<Rightarrow> if worker_joinable tel then Std_terminate else Exception_to_caller t)"

text \<open>
  The resource bootstrap as the constructor runs it: \<open>tel\<close> is the telemetry state that
  \<^verbatim>\<open>initializeTelemetry\<close> left (the turns the worker takes meanwhile do not change
  whether it is joinable).
\<close>

definition resource_bootstrap ::
  "vulkan \<Rightarrow> driver \<Rightarrow> resources \<Rightarrow> constructor_outcome \<times> resources" where
  "resource_bootstrap tel drv st =
     (case resource_blocks drv st of (e, st') \<Rightarrow> (leave_constructor tel e, st'))"




definition resources_initial :: resources where
  "resources_initial =
     \<lparr>descriptorPool = 0, stagingBuffer = 0, stagingBufferMemory = 0,
      stagingBufferMappedMemory = 0, defaultCommandPool = 0, defaultCommandBuffer = 0,
      defaultFence = 0, isAvailable = False, acquired = [], resource_log = []\<rparr>"

text \<open>
  The constructor from its telemetry lines on: lines 364-368, \<^verbatim>\<open>initializeTelemetry\<close>
  (line 418), then, the logical device of lines 420-476 taken as created, the resource
  blocks. A \<^verbatim>\<open>std::terminate\<close> inside \<^verbatim>\<open>startTelemetryPolling\<close> ends it at once.
\<close>

definition Vulkan_constructor_from_telemetry ::
  "telemetry_env \<Rightarrow> string \<Rightarrow> driver \<Rightarrow> constructor_outcome \<times> resources" where
  "Vulkan_constructor_from_telemetry env properties_deviceName drv =
     (case initializeTelemetry env (populate_information_cache properties_deviceName vulkan_initial) of
        None \<Rightarrow> (Std_terminate, resources_initial)
      | Some tel \<Rightarrow> resource_bootstrap tel drv resources_initial)"


section \<open>Concrete constructor scenarios\<close>

text \<open>
  A headless configuration that asks for validation, a Linux build without the optional
  extension macros, and a loader that offers the given extensions and layers and whose
  calls succeed.
\<close>

definition headless_validating :: config where
  "headless_validating =
     \<lparr>deviceId = 0, headless = True, validationEnabled = True, multisampling = 1,
      stagingBufferSize = 1024\<rparr>"

definition plain_linux :: platform where
  "plain_linux =
     \<lparr>os = JST_OS_LINUX, WindowMightBeWayland = False,
      defined_VK_KHR_portability_enumeration = False, defined_VK_EXT_tooling_info = False\<rparr>"

definition always_creates :: "string list \<Rightarrow> string list \<Rightarrow> VkResult \<times> nat" where
  "always_creates enabledExtensionNames enabledLayerNames = (VK_SUCCESS, 1)"

definition loader_offering :: "string list \<Rightarrow> string list \<Rightarrow> loader" where
  "loader_offering extensions layers =
     \<lparr>vkEnumerateInstanceExtensionProperties = extensions,
      vkEnumerateInstanceLayerProperties = layers,
      vkCreateInstance = always_creates,
      vkCreateDebugReportCallbackEXT_found = True,
      vkCreateDebugReportCallbackEXT = (VK_SUCCESS, 2)\<rparr>"

text \<open>
  Devices that offer the swapchain extension and the graphics and compute roles, with or
  without the present role; a windowed configuration asking for the device of a given
  index; and four enumerated devices of which the second cannot present.
\<close>

definition example_device :: "nat \<Rightarrow> bool \<Rightarrow> physical_device" where
  "example_device h presents =
     \<lparr>device_handle = h, device_extension_properties = [''VK_KHR_swapchain''],
      graphicFamily = Some 0, computeFamily = Some 0,
      presentFamily = (if presents then Some 0 else None)\<rparr>"

definition windowed_config :: "nat \<Rightarrow> config" where
  "windowed_config n =
     \<lparr>deviceId = n, headless = False, validationEnabled = False, multisampling = 1,
      stagingBufferSize = 1024\<rparr>"

definition four_devices :: "physical_device list" where
  "four_devices =
     [example_device 1 True, example_device 2 False, example_device 3 True, example_device 4 True]"
text \<open>
  A driver whose \<open>n\<close>-th resource call fails (1 the descriptor pool, 2 to 5 the staging
  buffer's create, allocate, bind and map, 6 the command pool, 7 the command buffer, 8 the
  fence) and whose other calls succeed; with \<open>n = 0\<close> every call succeeds.
\<close>

definition driver_failing_at :: "nat \<Rightarrow> driver" where
  "driver_failing_at n =
     \<lparr>vkCreateDescriptorPool = (if n = 1 then (VK_ERROR (- 1), 0) else (VK_SUCCESS, 11)),
      vkCreateBuffer = (if n = 2 then (VK_ERROR (- 1), 0) else (VK_SUCCESS, 12)),
      vkAllocateMemory = (if n = 3 then (VK_ERROR (- 2), 0) else (VK_SUCCESS, 13)),
      vkBindBufferMemory = (if n = 4 then VK_ERROR (- 1) else VK_SUCCESS),
      vkMapMemory = (if n = 5 then (VK_ERROR (- 5), 0) else (VK_SUCCESS, 15)),
      vkCreateCommandPool = (if n = 6 then (VK_ERROR (- 1), 0) else (VK_SUCCESS, 16)),
      vkAllocateCommandBuffers = (if n = 7 then (VK_ERROR (- 1), 0) else (VK_SUCCESS, 17)),
      vkCreateFence = (if n = 8 then (VK_ERROR (- 1), 0) else (VK_SUCCESS, 18))\<rparr>"


section \<open>Concrete telemetry scenarios\<close>

text \<open>
  A device whose NVML provider has committed, and the answers of four kinds of poll:
  every query answers; no query is supported; only the power state is unsupported; only
  the enforced power limit is unsupported.
\<close>

definition nvml_committed :: vulkan where
  "nvml_committed =
     \<lparr>deviceName = ''GPU'', telemetryProviderType = NVML, telemetryProviderName = ''NVML'',
      telemetryHandle = 1, telemetryLibraryInitialized = True, toolingInfoFn = False,
      lowPowerStatus = False, getThermalState = 0,
      running = False, providerErrorLogged = False,
      worker_joinable = False, live_workers = 0, worker_polls = 0, logger = []\<rparr>"

definition all_answer :: queries where
  "all_answer =
     \<lparr>nvmlDeviceGetPowerState = (NVML_SUCCESS, 9),
      nvmlDeviceGetTemperature = (NVML_SUCCESS, 88),
      nvmlDeviceGetPowerUsage = (NVML_SUCCESS, 40000),
      nvmlDeviceGetEnforcedPowerLimit = (NVML_SUCCESS, 60000),
      toolProperties_count = (VK_SUCCESS, 0),
      toolProperties_tools = (VK_SUCCESS, [])\<rparr>"

definition none_supported :: queries where
  "none_supported =
     \<lparr>nvmlDeviceGetPowerState = (NVML_ERROR 3, 0),
      nvmlDeviceGetTemperature = (NVML_ERROR 3, 0),
      nvmlDeviceGetPowerUsage = (NVML_ERROR 3, 0),
      nvmlDeviceGetEnforcedPowerLimit = (NVML_ERROR 3, 0),
      toolProperties_count = (VK_SUCCESS, 0),
      toolProperties_tools = (VK_SUCCESS, [])\<rparr>"

definition power_state_unsupported :: queries where
  "power_state_unsupported =
     \<lparr>nvmlDeviceGetPowerState = (NVML_ERROR 3, 0),
      nvmlDeviceGetTemperature = (NVML_SUCCESS, 88),
      nvmlDeviceGetPowerUsage = (NVML_SUCCESS, 40000),
      nvmlDeviceGetEnforcedPowerLimit = (NVML_SUCCESS, 60000),
      toolProperties_count = (VK_SUCCESS, 0),
      toolProperties_tools = (VK_SUCCESS, [])\<rparr>"

definition power_limit_unsupported :: queries where
  "power_limit_unsupported =
     \<lparr>nvmlDeviceGetPowerState = (NVML_SUCCESS, 9),
      nvmlDeviceGetTemperature = (NVML_SUCCESS, 88),
      nvmlDeviceGetPowerUsage = (NVML_SUCCESS, 40000),
      nvmlDeviceGetEnforcedPowerLimit = (NVML_ERROR 3, 0),
      toolProperties_count = (VK_SUCCESS, 0),
      toolProperties_tools = (VK_SUCCESS, [])\<rparr>"

text \<open>The same device while its worker polls.\<close>

definition nvml_polling :: vulkan where
  "nvml_polling =
     \<lparr>deviceName = ''GPU'', telemetryProviderType = NVML, telemetryProviderName = ''NVML'',
      telemetryHandle = 1, telemetryLibraryInitialized = True, toolingInfoFn = False,
      lowPowerStatus = False, getThermalState = 0,
      running = True, providerErrorLogged = False,
      worker_joinable = True, live_workers = 1, worker_polls = 0, logger = []\<rparr>"

text \<open>
  An NVIDIA device (vendor 0x10DE) in a build with the vendor library, where the library
  initialises and the power state is unsupported at the first poll; and a device of
  another vendor without the tooling extension.
\<close>

definition nvidia_env :: telemetry_env where
  "nvidia_env =
     \<lparr>JST_BACKEND_HAS_NVML = True, vendorID = 0x10DE,
      nvmlInit_v2 = NVML_SUCCESS, nvmlDeviceGetHandleByIndex = (NVML_SUCCESS, 1),
      supportedInstanceExtensions = {}, toolingFn_found = False,
      selected_physical_device = 1, config_deviceId = 0,
      first_poll = power_state_unsupported\<rparr>"

definition other_vendor_env :: telemetry_env where
  "other_vendor_env =
     \<lparr>JST_BACKEND_HAS_NVML = True, vendorID = 0x8086,
      nvmlInit_v2 = NVML_SUCCESS, nvmlDeviceGetHandleByIndex = (NVML_SUCCESS, 1),
      supportedInstanceExtensions = {''VK_KHR_surface''}, toolingFn_found = True,
      selected_physical_device = 1, config_deviceId = 0,
      first_poll = all_answer\<rparr>"

text \<open>
  The telemetry of one Vulkan handle from its construction on: lines 364-368 and
  \<^verbatim>\<open>initializeTelemetry\<close> on the constructing thread, with the turns \<open>early\<close> of the
  worker that come before line 664, then the turns \<open>late\<close> of the worker.
\<close>

definition telemetry_session :: "telemetry_env \<Rightarrow> string \<Rightarrow> queries list \<Rightarrow> queries list \<Rightarrow> vulkan option" where
  "telemetry_session env properties_deviceName early late =
     (case initializeTelemetry_with_worker env early
             (populate_information_cache properties_deviceName vulkan_initial) of
        None \<Rightarrow> None
      | Some s \<Rightarrow> scheduler_run (JST_BACKEND_HAS_NVML env) (map Worker late) s)"

text \<open>
  A poll in which only the temperature is unsupported. A device whose tooling-info
  provider has committed and has published one poll without a monitoring tool, and a
  poll in which the count call of \<^verbatim>\<open>vkGetPhysicalDeviceToolPropertiesEXT\<close> fails.
\<close>

definition temperature_unsupported :: queries where
  "temperature_unsupported =
     \<lparr>nvmlDeviceGetPowerState = (NVML_SUCCESS, 9),
      nvmlDeviceGetTemperature = (NVML_ERROR 3, 0),
      nvmlDeviceGetPowerUsage = (NVML_SUCCESS, 40000),
      nvmlDeviceGetEnforcedPowerLimit = (NVML_SUCCESS, 60000),
      toolProperties_count = (VK_SUCCESS, 0),
      toolProperties_tools = (VK_SUCCESS, [])\<rparr>"

definition tooling_committed :: vulkan where
  "tooling_committed =
     \<lparr>deviceName = ''GPU'', telemetryProviderType = TOOLING_INFO,
      telemetryProviderName = ''VK_EXT_tooling_info'',
      telemetryHandle = 1, telemetryLibraryInitialized = False, toolingInfoFn = True,
      lowPowerStatus = True, getThermalState = 0,
      running = False, providerErrorLogged = False,
      worker_joinable = False, live_workers = 0, worker_polls = 0, logger = []\<rparr>"

definition tool_count_fails :: queries where
  "tool_count_fails =
     \<lparr>nvmlDeviceGetPowerState = (NVML_SUCCESS, 9),
      nvmlDeviceGetTemperature = (NVML_SUCCESS, 88),
      nvmlDeviceGetPowerUsage = (NVML_SUCCESS, 40000),
      nvmlDeviceGetEnforcedPowerLimit = (NVML_SUCCESS, 60000),
      toolProperties_count = (VK_ERROR (- 3), 0),
      toolProperties_tools = (VK_SUCCESS, [])\<rparr>"

text \<open>Browser hints: nothing exposed, and both exposed.\<close>

definition nothing_exposed :: browser_hints where
  "nothing_exposed =
     \<lparr>jetstream_webgpu_query_low_power_hint = - 1, jetstream_webgpu_query_thermal_bucket = - 1\<rparr>"

definition hints_exposed :: browser_hints where
  "hints_exposed =
     \<lparr>jetstream_webgpu_query_low_power_hint = 1, jetstream_webgpu_query_thermal_bucket = 2\<rparr>"


section \<open>Invariants of the telemetry state\<close>

text \<open>
  Between a state and a later one either nothing was logged and a set flag stayed set, or
  the flag was clear, is now set, and exactly one warning was appended.
\<close>

definition quiet_or_first :: "vulkan \<Rightarrow> vulkan \<Rightarrow> bool" where
  "quiet_or_first s s' \<longleftrightarrow>
     (logger s' = logger s \<and> (providerErrorLogged s \<longrightarrow> providerErrorLogged s'))
     \<or> (\<not> providerErrorLogged s \<and> providerErrorLogged s'
         \<and> (\<exists>m. logger s' = logger s @ [(LOG_WARN, m)]))"

text \<open>
  In the states the scheduler reaches the worker handle is joinable exactly while
  \<open>running\<close> is set, and there is one live worker then and none otherwise.
\<close>

definition one_worker :: "vulkan \<Rightarrow> bool" where
  "one_worker s \<longleftrightarrow>
     worker_joinable s = running s \<and> live_workers s = (if running s then 1 else 0)"


section \<open>Thermal buckets\<close>

lemma ThermalBucketFromCelsius_unat:
  "unat (ThermalBucketFromCelsius t) =
     (if 95 \<le> unat t then 3
      else if 85 \<le> unat t then 2
      else if 75 \<le> unat t then 1
      else 0)"
  by (simp add: ThermalBucketFromCelsius_def word_le_nat_alt)

lemma ThermalBucketFromCelsius_mono:
  "t \<le> t' \<Longrightarrow> ThermalBucketFromCelsius t \<le> ThermalBucketFromCelsius t'"
  by (auto simp: ThermalBucketFromCelsius_def)

text \<open>
  C6. For every temperature \<open>t\<close> (an unsigned 32-bit number of degrees Celsius) the
  bucket is 3 from 95 up, 2 on 85..94, 1 on 75..84 and 0 below 75; the table
  60, 76, 88, 100 gives 0, 1, 2, 3; the boundaries 75, 85 and 95 fall into the higher
  bucket; and the function is monotonic non-decreasing.
\<close>

theorem ThermalBucketFromCelsius_buckets:
  "unat (ThermalBucketFromCelsius t) =
     (if 95 \<le> unat t then 3
      else if 85 \<le> unat t \<and> unat t < 95 then 2
      else if 75 \<le> unat t \<and> unat t < 85 then 1
      else 0)
   \<and> ThermalBucketFromCelsius 60 = 0 \<and> ThermalBucketFromCelsius 76 = 1
   \<and> ThermalBucketFromCelsius 88 = 2 \<and> ThermalBucketFromCelsius 100 = 3
   \<and> ThermalBucketFromCelsius 75 = 1 \<and> ThermalBucketFromCelsius 85 = 2
   \<and> ThermalBucketFromCelsius 95 = 3
   \<and> ThermalBucketFromCelsius 74 = 0 \<and> ThermalBucketFromCelsius 84 = 1
   \<and> ThermalBucketFromCelsius 94 = 2
   \<and> (\<forall>t'. t \<le> t' \<longrightarrow> ThermalBucketFromCelsius t \<le> ThermalBucketFromCelsius t')"
proof -
  have table: "unat (ThermalBucketFromCelsius t) =
     (if 95 \<le> unat t then 3
      else if 85 \<le> unat t \<and> unat t < 95 then 2
      else if 75 \<le> unat t \<and> unat t < 85 then 1
      else 0)"
    by (simp add: ThermalBucketFromCelsius_unat)
  have points: "ThermalBucketFromCelsius 60 = 0 \<and> ThermalBucketFromCelsius 76 = 1
   \<and> ThermalBucketFromCelsius 88 = 2 \<and> ThermalBucketFromCelsius 100 = 3
   \<and> ThermalBucketFromCelsius 75 = 1 \<and> ThermalBucketFromCelsius 85 = 2
   \<and> ThermalBucketFromCelsius 95 = 3
   \<and> ThermalBucketFromCelsius 74 = 0 \<and> ThermalBucketFromCelsius 84 = 1
   \<and> ThermalBucketFromCelsius 94 = 2"
    by (simp add: ThermalBucketFromCelsius_def)
  have mono: "\<forall>t'. t \<le> t' \<longrightarrow> ThermalBucketFromCelsius t \<le> ThermalBucketFromCelsius t'"
    by (simp add: ThermalBucketFromCelsius_mono)
  from table points mono show ?thesis by blast
qed

theorem ThermalBucketFromCelsius_buckets_witness:
  "(84 :: U32) \<le> 85
   \<and> ThermalBucketFromCelsius 84 \<le> ThermalBucketFromCelsius 85
   \<and> unat (ThermalBucketFromCelsius 84) = 1"
proof -
  have le: "(84 :: U32) \<le> 85" by simp
  have all: "\<forall>t'. (84 :: U32) \<le> t' \<longrightarrow> ThermalBucketFromCelsius 84 \<le> ThermalBucketFromCelsius t'"
    using ThermalBucketFromCelsius_buckets [of 84] by blast
  have val: "unat (ThermalBucketFromCelsius 84) = 1"
    using ThermalBucketFromCelsius_buckets [of 84] by simp
  from le all val show ?thesis by blast
qed


section \<open>Low-power classification from the power budget\<close>

lemma unat_ucast_U32_U64: "unat (ucast (x :: U32) :: U64) = unat x"
proof -
  have "unat x < 2 ^ 32" using unsigned_less [of x, where ?'a = nat] by simp
  then have "unat x < 2 ^ 64" by simp
  then show ?thesis by (simp add: unsigned_ucast_eq take_bit_nat_eq_self)
qed

lemma power_product_no_overflow:
  "unat ((ucast (x :: U32) :: U64) * 100) = unat x * 100"
proof -
  have "unat x < 2 ^ 32" using unsigned_less [of x, where ?'a = nat] by simp
  then have "unat x * 100 < 2 ^ 64" by simp
  then have "unat (ucast x :: U64) * unat (100 :: U64) < 2 ^ LENGTH(64)"
    by (simp add: unat_ucast_U32_U64)
  then have "unat ((ucast x :: U64) * 100) = unat (ucast x :: U64) * unat (100 :: U64)"
    by (simp only: unat_mult_lem)
  then show ?thesis by (simp add: unat_ucast_U32_U64)
qed

lemma utilization_quotient:
  "unat (((ucast (x :: U32) :: U64) * 100) div (ucast (b :: U32) :: U64)) = unat x * 100 div unat b"
  by (simp add: unat_div power_product_no_overflow unat_ucast_U32_U64)

lemma low_32_bits: "unat (ucast (w :: U64) :: U32) = unat w mod 2 ^ 32"
  by (simp add: unsigned_ucast_eq take_bit_eq_mod)

text \<open>
  What the function computes, in natural numbers: the 64-bit quotient is exact, and the
  comparison is made on its low 32 bits.
\<close>

lemma IsLowPowerFromPowerBudget_nat:
  "IsLowPowerFromPowerBudget x b thr =
     (b \<noteq> 0 \<and> (unat x * 100 div unat b) mod 2 ^ 32 < unat thr)"
proof (cases "b = 0")
  case True
  then show ?thesis by (simp add: IsLowPowerFromPowerBudget_def)
next
  case False
  have "unat (ucast (((ucast x :: U64) * 100) div (ucast b :: U64)) :: U32)
          = (unat x * 100 div unat b) mod 2 ^ 32"
    by (simp add: low_32_bits utilization_quotient)
  with False show ?thesis
    by (simp add: IsLowPowerFromPowerBudget_def Let_def word_less_nat_alt)
qed

text \<open>
  Where the percentage fits 32 bits the function is the rule of the specification;
  in particular whenever the budget is at least 100 mW.
\<close>

lemma IsLowPowerFromPowerBudget_in_range:
  assumes "b \<noteq> 0" and "unat x * 100 div unat b < 2 ^ 32"
  shows "IsLowPowerFromPowerBudget_default x b = (unat x * 100 div unat b < 30)"
  using assms by (simp add: IsLowPowerFromPowerBudget_default_def IsLowPowerFromPowerBudget_nat)

lemma IsLowPowerFromPowerBudget_zero_budget:
  "IsLowPowerFromPowerBudget_default x 0 = False"
  by (simp add: IsLowPowerFromPowerBudget_default_def IsLowPowerFromPowerBudget_def)

lemma IsLowPowerFromPowerBudget_tests:
  "IsLowPowerFromPowerBudget_default 10000 60000 = True"
  "IsLowPowerFromPowerBudget_default 40000 60000 = False"
  by (simp_all add: IsLowPowerFromPowerBudget_default_def IsLowPowerFromPowerBudget_def)

text \<open>
  C7 (the code at the failing input). With a usage of 42949673 mW and a budget of 1 mW
  the exact percentage is 4294967300, which is not below 30; its low 32 bits are 4, so
  the function answers true.
\<close>

theorem IsLowPowerFromPowerBudget_truncates_percentage:
  "IsLowPowerFromPowerBudget_default 42949673 1 = True
   \<and> \<not> (unat (42949673 :: U32) * 100 div unat (1 :: U32) < 30)
   \<and> (1 :: U32) \<noteq> 0"
  by (simp add: IsLowPowerFromPowerBudget_default_def IsLowPowerFromPowerBudget_def)


section \<open>One NVML poll: which classification is published\<close>

lemma nvml_temperature_lowPower:
  "lowPowerStatus (nvml_temperature q s) = lowPowerStatus s"
  by (cases "nvmlDeviceGetTemperature q"; cases "fst (nvmlDeviceGetTemperature q)")
     (simp_all add: nvml_temperature_def)

lemma nvml_budget_overwrites:
  assumes "nv" "telemetryHandle s \<noteq> 0"
    and "nvmlDeviceGetPowerUsage q = (NVML_SUCCESS, u)"
    and "nvmlDeviceGetEnforcedPowerLimit q = (NVML_SUCCESS, b)"
  shows "lowPowerStatus (updateTelemetryFromNvml nv q s) = IsLowPowerFromPowerBudget_default u b"
  using assms by (simp add: updateTelemetryFromNvml_def nvml_power_budget_def)

lemma nvml_power_budget_failed_lowPower:
  assumes "fst (nvmlDeviceGetPowerUsage q) \<noteq> NVML_SUCCESS
           \<or> fst (nvmlDeviceGetEnforcedPowerLimit q) \<noteq> NVML_SUCCESS"
  shows "lowPowerStatus (nvml_power_budget q s) = lowPowerStatus s"
  using assms
  by (cases "nvmlDeviceGetPowerUsage q"; cases "fst (nvmlDeviceGetPowerUsage q)";
      cases "nvmlDeviceGetEnforcedPowerLimit q"; cases "fst (nvmlDeviceGetEnforcedPowerLimit q)")
     (simp_all add: nvml_power_budget_def Let_def)

lemma nvml_pstate_final:
  assumes "nv" "telemetryHandle s \<noteq> 0"
    and "nvmlDeviceGetPowerState q = (NVML_SUCCESS, p)"
    and "fst (nvmlDeviceGetPowerUsage q) \<noteq> NVML_SUCCESS
         \<or> fst (nvmlDeviceGetEnforcedPowerLimit q) \<noteq> NVML_SUCCESS"
  shows "lowPowerStatus (updateTelemetryFromNvml nv q s) = IsLowPowerFromPState p"
  using assms
  by (simp add: updateTelemetryFromNvml_def nvml_power_budget_failed_lowPower
      nvml_temperature_lowPower nvml_power_state_def)

text \<open>
  C10. In one poll of the NVML provider (vendor library built in, device handle bound):
  when the power-state query and both the usage and the budget query succeed, the
  published \<open>lowPowerStatus\<close> is the power-budget classification of usage and budget,
  which overwrites the one stored from the power state earlier in the same poll; the
  power-state classification is the final value when the usage or the budget query fails.
\<close>

theorem nvml_budget_classification_overrides_pstate:
  "(nv \<and> telemetryHandle s \<noteq> 0
      \<and> nvmlDeviceGetPowerState q = (NVML_SUCCESS, p)
      \<and> nvmlDeviceGetPowerUsage q = (NVML_SUCCESS, u)
      \<and> nvmlDeviceGetEnforcedPowerLimit q = (NVML_SUCCESS, b)
      \<longrightarrow> lowPowerStatus (updateTelemetryFromNvml nv q s) = IsLowPowerFromPowerBudget_default u b)
   \<and> (nv \<and> telemetryHandle s \<noteq> 0
      \<and> nvmlDeviceGetPowerState q = (NVML_SUCCESS, p)
      \<and> (fst (nvmlDeviceGetPowerUsage q) \<noteq> NVML_SUCCESS
          \<or> fst (nvmlDeviceGetEnforcedPowerLimit q) \<noteq> NVML_SUCCESS)
      \<longrightarrow> lowPowerStatus (updateTelemetryFromNvml nv q s) = IsLowPowerFromPState p)"
proof (intro conjI impI)
  assume "nv \<and> telemetryHandle s \<noteq> 0
      \<and> nvmlDeviceGetPowerState q = (NVML_SUCCESS, p)
      \<and> nvmlDeviceGetPowerUsage q = (NVML_SUCCESS, u)
      \<and> nvmlDeviceGetEnforcedPowerLimit q = (NVML_SUCCESS, b)"
  then show "lowPowerStatus (updateTelemetryFromNvml nv q s) = IsLowPowerFromPowerBudget_default u b"
    by (simp add: nvml_budget_overwrites)
next
  assume a: "nv \<and> telemetryHandle s \<noteq> 0
      \<and> nvmlDeviceGetPowerState q = (NVML_SUCCESS, p)
      \<and> (fst (nvmlDeviceGetPowerUsage q) \<noteq> NVML_SUCCESS
          \<or> fst (nvmlDeviceGetEnforcedPowerLimit q) \<noteq> NVML_SUCCESS)"
  then have "nv" "telemetryHandle s \<noteq> 0" "nvmlDeviceGetPowerState q = (NVML_SUCCESS, p)"
    "fst (nvmlDeviceGetPowerUsage q) \<noteq> NVML_SUCCESS
          \<or> fst (nvmlDeviceGetEnforcedPowerLimit q) \<noteq> NVML_SUCCESS"
    by simp_all
  then show "lowPowerStatus (updateTelemetryFromNvml nv q s) = IsLowPowerFromPState p"
    by (rule nvml_pstate_final)
qed

text \<open>
  At power state 9 with 40000 mW used of 60000 mW the power state says low power and
  the budget says not: the budget wins. When the limit query fails the power state stays.
\<close>

theorem nvml_budget_classification_overrides_pstate_witness:
  "telemetryHandle nvml_committed \<noteq> 0
   \<and> nvmlDeviceGetPowerState all_answer = (NVML_SUCCESS, 9)
   \<and> nvmlDeviceGetPowerUsage all_answer = (NVML_SUCCESS, 40000)
   \<and> nvmlDeviceGetEnforcedPowerLimit all_answer = (NVML_SUCCESS, 60000)
   \<and> IsLowPowerFromPState 9 = True
   \<and> lowPowerStatus (updateTelemetryFromNvml True all_answer nvml_committed) = False
   \<and> nvmlDeviceGetPowerState power_limit_unsupported = (NVML_SUCCESS, 9)
   \<and> fst (nvmlDeviceGetEnforcedPowerLimit power_limit_unsupported) \<noteq> NVML_SUCCESS
   \<and> lowPowerStatus (updateTelemetryFromNvml True power_limit_unsupported nvml_committed) = True"
proof -
  have h: "telemetryHandle nvml_committed \<noteq> 0" by (simp add: nvml_committed_def)
  have q1: "nvmlDeviceGetPowerState all_answer = (NVML_SUCCESS, 9)"
    "nvmlDeviceGetPowerUsage all_answer = (NVML_SUCCESS, 40000)"
    "nvmlDeviceGetEnforcedPowerLimit all_answer = (NVML_SUCCESS, 60000)"
    by (simp_all add: all_answer_def)
  have q2: "nvmlDeviceGetPowerState power_limit_unsupported = (NVML_SUCCESS, 9)"
    "fst (nvmlDeviceGetEnforcedPowerLimit power_limit_unsupported) \<noteq> NVML_SUCCESS"
    by (simp_all add: power_limit_unsupported_def)
  have p: "IsLowPowerFromPState 9 = True" by (simp add: IsLowPowerFromPState_def)
  have b: "IsLowPowerFromPowerBudget_default 40000 60000 = False"
    by (simp add: IsLowPowerFromPowerBudget_default_def IsLowPowerFromPowerBudget_def)
  have r1: "lowPowerStatus (updateTelemetryFromNvml True all_answer nvml_committed) = False"
    using nvml_budget_classification_overrides_pstate
            [of True nvml_committed all_answer 9 40000 60000] h q1 b
    by simp
  have r2: "lowPowerStatus (updateTelemetryFromNvml True power_limit_unsupported nvml_committed) = True"
    using nvml_budget_classification_overrides_pstate
            [of True nvml_committed power_limit_unsupported 9 0 0] h q2 p
    by simp
  from h q1 q2 p r1 r2 show ?thesis by simp
qed


section \<open>What a poll leaves alone\<close>

lemma nvml_power_state_frame:
  "running (nvml_power_state q s) = running s
   \<and> live_workers (nvml_power_state q s) = live_workers s
   \<and> worker_joinable (nvml_power_state q s) = worker_joinable s
   \<and> worker_polls (nvml_power_state q s) = worker_polls s"
  by (cases "nvmlDeviceGetPowerState q"; cases "fst (nvmlDeviceGetPowerState q)")
     (simp_all add: nvml_power_state_def)

lemma nvml_temperature_frame:
  "running (nvml_temperature q s) = running s
   \<and> live_workers (nvml_temperature q s) = live_workers s
   \<and> worker_joinable (nvml_temperature q s) = worker_joinable s
   \<and> worker_polls (nvml_temperature q s) = worker_polls s"
  by (cases "nvmlDeviceGetTemperature q"; cases "fst (nvmlDeviceGetTemperature q)")
     (simp_all add: nvml_temperature_def)

lemma nvml_power_budget_frame:
  "running (nvml_power_budget q s) = running s
   \<and> live_workers (nvml_power_budget q s) = live_workers s
   \<and> worker_joinable (nvml_power_budget q s) = worker_joinable s
   \<and> worker_polls (nvml_power_budget q s) = worker_polls s"
  by (cases "nvmlDeviceGetPowerUsage q"; cases "fst (nvmlDeviceGetPowerUsage q)";
      cases "nvmlDeviceGetEnforcedPowerLimit q"; cases "fst (nvmlDeviceGetEnforcedPowerLimit q)")
     (simp_all add: nvml_power_budget_def Let_def)

lemma updateTelemetryFromToolingInfo_frame:
  "running (updateTelemetryFromToolingInfo q s) = running s
   \<and> live_workers (updateTelemetryFromToolingInfo q s) = live_workers s
   \<and> worker_joinable (updateTelemetryFromToolingInfo q s) = worker_joinable s
   \<and> worker_polls (updateTelemetryFromToolingInfo q s) = worker_polls s"
  by (cases "toolProperties_count q"; cases "fst (toolProperties_count q)";
      cases "toolProperties_tools q"; cases "fst (toolProperties_tools q)")
     (simp_all add: updateTelemetryFromToolingInfo_def Let_def)

lemma pollTelemetry_frame:
  "running (pollTelemetry nv q s) = running s
   \<and> live_workers (pollTelemetry nv q s) = live_workers s
   \<and> worker_joinable (pollTelemetry nv q s) = worker_joinable s
   \<and> worker_polls (pollTelemetry nv q s) = worker_polls s"
  by (cases "telemetryProviderType s")
     (simp_all add: pollTelemetry_def updateTelemetryFromNvml_def nvml_power_state_frame
        nvml_temperature_frame nvml_power_budget_frame updateTelemetryFromToolingInfo_frame)


section \<open>Provider failures: the warning and the snapshot\<close>

lemma quiet_or_first_refl: "quiet_or_first s s"
  by (simp add: quiet_or_first_def)

lemma quiet_or_first_trans:
  "quiet_or_first a b \<Longrightarrow> quiet_or_first b c \<Longrightarrow> quiet_or_first a c"
  unfolding quiet_or_first_def by auto

lemma nvml_power_state_quiet_or_first: "quiet_or_first s (nvml_power_state q s)"
  by (simp add: quiet_or_first_def nvml_power_state_def split: prod.splits nvmlReturn_t.splits)

lemma nvml_temperature_quiet_or_first: "quiet_or_first s (nvml_temperature q s)"
  by (simp add: quiet_or_first_def nvml_temperature_def split: prod.splits nvmlReturn_t.splits)

lemma nvml_power_budget_quiet_or_first: "quiet_or_first s (nvml_power_budget q s)"
  by (simp add: quiet_or_first_def nvml_power_budget_def Let_def split: prod.splits nvmlReturn_t.splits)

lemma updateTelemetryFromNvml_quiet_or_first: "quiet_or_first s (updateTelemetryFromNvml nv q s)"
  unfolding updateTelemetryFromNvml_def
  using nvml_power_state_quiet_or_first nvml_temperature_quiet_or_first
    nvml_power_budget_quiet_or_first quiet_or_first_trans quiet_or_first_refl
  by (metis (full_types))

lemma updateTelemetryFromToolingInfo_quiet_or_first:
  "quiet_or_first s (updateTelemetryFromToolingInfo q s)"
  by (simp add: quiet_or_first_def updateTelemetryFromToolingInfo_def Let_def
      split: prod.splits VkResult.splits)

lemma pollTelemetry_quiet_or_first: "quiet_or_first s (pollTelemetry nv q s)"
  by (simp add: pollTelemetry_def updateTelemetryFromNvml_quiet_or_first
      updateTelemetryFromToolingInfo_quiet_or_first quiet_or_first_refl split: Provider.splits)

lemma poll_all_quiet_or_first: "quiet_or_first s (poll_all nv qs s)"
proof (induction qs arbitrary: s)
  case Nil
  show ?case by (simp add: quiet_or_first_refl)
next
  case (Cons q qs)
  have "quiet_or_first s (pollTelemetry nv q s)" by (rule pollTelemetry_quiet_or_first)
  moreover have "quiet_or_first (pollTelemetry nv q s) (poll_all nv qs (pollTelemetry nv q s))"
    by (rule Cons.IH)
  ultimately show ?case by (auto intro: quiet_or_first_trans)
qed

lemma poll_all_at_most_one_warning:
  "\<exists>ws. logger (poll_all nv qs s) = logger s @ ws \<and> length ws \<le> 1
        \<and> (providerErrorLogged s \<longrightarrow> ws = [])
        \<and> (\<forall>e \<in> set ws. fst e = LOG_WARN)"
  using poll_all_quiet_or_first [of s nv qs] unfolding quiet_or_first_def by auto

lemma nvml_power_state_effect:
  "providerErrorLogged (nvml_power_state q s) =
     (providerErrorLogged s \<or> fst (nvmlDeviceGetPowerState q) \<noteq> NVML_SUCCESS)
   \<and> length (logger (nvml_power_state q s)) = length (logger s) +
     (if \<not> providerErrorLogged s \<and> fst (nvmlDeviceGetPowerState q) \<noteq> NVML_SUCCESS then 1 else 0)
   \<and> getThermalState (nvml_power_state q s) = getThermalState s
   \<and> (fst (nvmlDeviceGetPowerState q) \<noteq> NVML_SUCCESS \<longrightarrow>
        lowPowerStatus (nvml_power_state q s) = lowPowerStatus s)"
  by (cases "nvmlDeviceGetPowerState q"; cases "fst (nvmlDeviceGetPowerState q)")
     (simp_all add: nvml_power_state_def)

lemma nvml_temperature_effect:
  "providerErrorLogged (nvml_temperature q s) =
     (providerErrorLogged s \<or> fst (nvmlDeviceGetTemperature q) \<noteq> NVML_SUCCESS)
   \<and> length (logger (nvml_temperature q s)) = length (logger s) +
     (if \<not> providerErrorLogged s \<and> fst (nvmlDeviceGetTemperature q) \<noteq> NVML_SUCCESS then 1 else 0)
   \<and> lowPowerStatus (nvml_temperature q s) = lowPowerStatus s
   \<and> (fst (nvmlDeviceGetTemperature q) \<noteq> NVML_SUCCESS \<longrightarrow>
        getThermalState (nvml_temperature q s) = getThermalState s)"
  by (cases "nvmlDeviceGetTemperature q"; cases "fst (nvmlDeviceGetTemperature q)")
     (simp_all add: nvml_temperature_def)

lemma nvml_power_budget_effect:
  "providerErrorLogged (nvml_power_budget q s) =
     (providerErrorLogged s \<or> fst (nvmlDeviceGetPowerUsage q) \<noteq> NVML_SUCCESS
        \<or> fst (nvmlDeviceGetEnforcedPowerLimit q) \<noteq> NVML_SUCCESS)
   \<and> length (logger (nvml_power_budget q s)) = length (logger s) +
     (if \<not> providerErrorLogged s \<and> (fst (nvmlDeviceGetPowerUsage q) \<noteq> NVML_SUCCESS
        \<or> fst (nvmlDeviceGetEnforcedPowerLimit q) \<noteq> NVML_SUCCESS) then 1 else 0)
   \<and> getThermalState (nvml_power_budget q s) = getThermalState s
   \<and> (fst (nvmlDeviceGetPowerUsage q) \<noteq> NVML_SUCCESS
        \<or> fst (nvmlDeviceGetEnforcedPowerLimit q) \<noteq> NVML_SUCCESS \<longrightarrow>
        lowPowerStatus (nvml_power_budget q s) = lowPowerStatus s)"
  by (cases "nvmlDeviceGetPowerUsage q"; cases "fst (nvmlDeviceGetPowerUsage q)";
      cases "nvmlDeviceGetEnforcedPowerLimit q"; cases "fst (nvmlDeviceGetEnforcedPowerLimit q)")
     (simp_all add: nvml_power_budget_def Let_def)

lemma nvml_flag_after:
  assumes "nv" "telemetryHandle s \<noteq> 0"
  shows "providerErrorLogged (updateTelemetryFromNvml nv q s) =
          (providerErrorLogged s
           \<or> fst (nvmlDeviceGetPowerState q) \<noteq> NVML_SUCCESS
           \<or> fst (nvmlDeviceGetTemperature q) \<noteq> NVML_SUCCESS
           \<or> fst (nvmlDeviceGetPowerUsage q) \<noteq> NVML_SUCCESS
           \<or> fst (nvmlDeviceGetEnforcedPowerLimit q) \<noteq> NVML_SUCCESS)"
  using assms
  by (auto simp add: updateTelemetryFromNvml_def nvml_power_budget_effect nvml_temperature_effect
      nvml_power_state_effect)

lemma nvml_first_failure_logged:
  assumes "nv" "telemetryHandle s \<noteq> 0"
  shows "length (logger (updateTelemetryFromNvml nv q s)) = length (logger s) +
          (if \<not> providerErrorLogged s
              \<and> (fst (nvmlDeviceGetPowerState q) \<noteq> NVML_SUCCESS
                 \<or> fst (nvmlDeviceGetTemperature q) \<noteq> NVML_SUCCESS
                 \<or> fst (nvmlDeviceGetPowerUsage q) \<noteq> NVML_SUCCESS
                 \<or> fst (nvmlDeviceGetEnforcedPowerLimit q) \<noteq> NVML_SUCCESS)
           then 1 else 0)"
  using assms
  by (auto simp add: updateTelemetryFromNvml_def nvml_power_budget_effect nvml_temperature_effect
      nvml_power_state_effect)

lemma nvml_temperature_failed_keeps:
  assumes "fst (nvmlDeviceGetTemperature q) \<noteq> NVML_SUCCESS"
  shows "getThermalState (updateTelemetryFromNvml nv q s) = getThermalState s"
  using assms
  by (simp add: updateTelemetryFromNvml_def nvml_power_budget_effect nvml_temperature_effect
      nvml_power_state_effect)

lemma nvml_power_failed_keeps:
  assumes "fst (nvmlDeviceGetPowerState q) \<noteq> NVML_SUCCESS"
    and "fst (nvmlDeviceGetPowerUsage q) \<noteq> NVML_SUCCESS \<or> fst (nvmlDeviceGetEnforcedPowerLimit q) \<noteq> NVML_SUCCESS"
  shows "lowPowerStatus (updateTelemetryFromNvml nv q s) = lowPowerStatus s"
  using assms
  by (simp add: updateTelemetryFromNvml_def nvml_power_budget_effect nvml_temperature_effect
      nvml_power_state_effect)

lemma refreshTelemetry_power_warning:
  "count_list (w_logger (refreshTelemetry h w)) (LOG_WARN, BrowserNoPowerHints) =
     count_list (w_logger w) (LOG_WARN, BrowserNoPowerHints)
     + (if \<not> lowPowerWarningLogged w \<and> jetstream_webgpu_query_low_power_hint h < 0 then 1 else 0)
   \<and> lowPowerWarningLogged (refreshTelemetry h w) =
       (lowPowerWarningLogged w \<or> jetstream_webgpu_query_low_power_hint h < 0)"
  by (auto simp add: refreshTelemetry_def Let_def)

lemma refreshTelemetry_thermal_warning:
  "count_list (w_logger (refreshTelemetry h w)) (LOG_WARN, BrowserNoThermalHints) =
     count_list (w_logger w) (LOG_WARN, BrowserNoThermalHints)
     + (if \<not> thermalWarningLogged w \<and> jetstream_webgpu_query_thermal_bucket h < 0 then 1 else 0)
   \<and> thermalWarningLogged (refreshTelemetry h w) =
       (thermalWarningLogged w \<or> jetstream_webgpu_query_thermal_bucket h < 0)"
  by (auto simp add: refreshTelemetry_def Let_def)

lemma refresh_all_power_warning:
  "count_list (w_logger (refresh_all hs w)) (LOG_WARN, BrowserNoPowerHints) =
     count_list (w_logger w) (LOG_WARN, BrowserNoPowerHints)
     + (if \<not> lowPowerWarningLogged w \<and> (\<exists>h \<in> set hs. jetstream_webgpu_query_low_power_hint h < 0)
        then 1 else 0)"
proof (induction hs arbitrary: w)
  case Nil
  show ?case by simp
next
  case (Cons h hs)
  show ?case
    using Cons.IH [of "refreshTelemetry h w"] refreshTelemetry_power_warning [of h w]
    by auto
qed

lemma refresh_all_thermal_warning:
  "count_list (w_logger (refresh_all hs w)) (LOG_WARN, BrowserNoThermalHints) =
     count_list (w_logger w) (LOG_WARN, BrowserNoThermalHints)
     + (if \<not> thermalWarningLogged w \<and> (\<exists>h \<in> set hs. jetstream_webgpu_query_thermal_bucket h < 0)
        then 1 else 0)"
proof (induction hs arbitrary: w)
  case Nil
  show ?case by simp
next
  case (Cons h hs)
  show ?case
    using Cons.IH [of "refreshTelemetry h w"] refreshTelemetry_thermal_warning [of h w]
    by auto
qed

lemma refreshTelemetry_failed_keeps:
  "(jetstream_webgpu_query_low_power_hint h < 0 \<longrightarrow>
      w_lowPowerStatus (refreshTelemetry h w) = w_lowPowerStatus w)
   \<and> (jetstream_webgpu_query_thermal_bucket h < 0 \<longrightarrow>
      w_getThermalState (refreshTelemetry h w) = w_getThermalState w)"
  by (auto simp add: refreshTelemetry_def Let_def)

lemma refreshTelemetry_only_warns:
  "\<exists>ws. w_logger (refreshTelemetry h w) = w_logger w @ ws \<and> (\<forall>e \<in> set ws. fst e = LOG_WARN)"
  by (auto simp add: refreshTelemetry_def Let_def)

lemma nvml_power_state_log:
  "logger (nvml_power_state q s) =
     (case fst (nvmlDeviceGetPowerState q) of
        NVML_SUCCESS \<Rightarrow> logger s
      | NVML_ERROR e \<Rightarrow>
          if providerErrorLogged s then logger s
          else logger s @ [(LOG_WARN, NvmlPowerStateFailed e)])"
  by (cases "nvmlDeviceGetPowerState q"; cases "fst (nvmlDeviceGetPowerState q)")
     (simp_all add: nvml_power_state_def)

lemma nvml_temperature_log:
  "logger (nvml_temperature q s) =
     (case fst (nvmlDeviceGetTemperature q) of
        NVML_SUCCESS \<Rightarrow> logger s
      | NVML_ERROR e \<Rightarrow>
          if providerErrorLogged s then logger s
          else logger s @ [(LOG_WARN, NvmlTemperatureFailed e)])"
  by (cases "nvmlDeviceGetTemperature q"; cases "fst (nvmlDeviceGetTemperature q)")
     (simp_all add: nvml_temperature_def)

lemma nvml_power_budget_log:
  "logger (nvml_power_budget q s) =
     (if providerErrorLogged s then logger s
      else case fst (nvmlDeviceGetPowerUsage q) of
             NVML_ERROR e \<Rightarrow> logger s @ [(LOG_WARN, NvmlPowerBudgetFailed e)]
           | NVML_SUCCESS \<Rightarrow>
               (case fst (nvmlDeviceGetEnforcedPowerLimit q) of
                  NVML_ERROR e \<Rightarrow> logger s @ [(LOG_WARN, NvmlPowerBudgetFailed e)]
                | NVML_SUCCESS \<Rightarrow> logger s))"
  by (cases "nvmlDeviceGetPowerUsage q"; cases "fst (nvmlDeviceGetPowerUsage q)";
      cases "nvmlDeviceGetEnforcedPowerLimit q"; cases "fst (nvmlDeviceGetEnforcedPowerLimit q)")
     (simp_all add: nvml_power_budget_def Let_def)

text \<open>
  Which warning one NVML poll logs when the flag is clear: that of the first query, in
  the order of the code, that fails.
\<close>

lemma nvml_first_failure_message:
  "nv \<and> telemetryHandle s \<noteq> 0 \<and> \<not> providerErrorLogged s \<longrightarrow>
     (fst (nvmlDeviceGetPowerState q) = NVML_ERROR e \<longrightarrow>
        logger (updateTelemetryFromNvml nv q s) = logger s @ [(LOG_WARN, NvmlPowerStateFailed e)])
     \<and> (fst (nvmlDeviceGetPowerState q) = NVML_SUCCESS
          \<and> fst (nvmlDeviceGetTemperature q) = NVML_ERROR e \<longrightarrow>
        logger (updateTelemetryFromNvml nv q s) = logger s @ [(LOG_WARN, NvmlTemperatureFailed e)])
     \<and> (fst (nvmlDeviceGetPowerState q) = NVML_SUCCESS
          \<and> fst (nvmlDeviceGetTemperature q) = NVML_SUCCESS
          \<and> fst (nvmlDeviceGetPowerUsage q) = NVML_ERROR e \<longrightarrow>
        logger (updateTelemetryFromNvml nv q s) = logger s @ [(LOG_WARN, NvmlPowerBudgetFailed e)])
     \<and> (fst (nvmlDeviceGetPowerState q) = NVML_SUCCESS
          \<and> fst (nvmlDeviceGetTemperature q) = NVML_SUCCESS
          \<and> fst (nvmlDeviceGetPowerUsage q) = NVML_SUCCESS
          \<and> fst (nvmlDeviceGetEnforcedPowerLimit q) = NVML_ERROR e \<longrightarrow>
        logger (updateTelemetryFromNvml nv q s) = logger s @ [(LOG_WARN, NvmlPowerBudgetFailed e)])
     \<and> (fst (nvmlDeviceGetPowerState q) = NVML_SUCCESS
          \<and> fst (nvmlDeviceGetTemperature q) = NVML_SUCCESS
          \<and> fst (nvmlDeviceGetPowerUsage q) = NVML_SUCCESS
          \<and> fst (nvmlDeviceGetEnforcedPowerLimit q) = NVML_SUCCESS \<longrightarrow>
        logger (updateTelemetryFromNvml nv q s) = logger s)"
  by (auto simp add: updateTelemetryFromNvml_def nvml_power_budget_log nvml_temperature_log
      nvml_power_state_log nvml_power_state_effect nvml_temperature_effect
      split: nvmlReturn_t.splits)

text \<open>The same for one poll of the tooling-info provider, and what a failed call stores.\<close>

lemma tooling_first_failure_message:
  "toolingInfoFn s \<and> \<not> providerErrorLogged s \<longrightarrow>
     (fst (toolProperties_count q) = VK_ERROR r \<longrightarrow>
        logger (updateTelemetryFromToolingInfo q s)
          = logger s @ [(LOG_WARN, ToolPropertiesCountFailed r)])
     \<and> (fst (toolProperties_count q) = VK_SUCCESS
          \<and> fst (toolProperties_tools q) = VK_ERROR r \<longrightarrow>
        logger (updateTelemetryFromToolingInfo q s)
          = logger s @ [(LOG_WARN, ToolPropertiesFailed r)])
     \<and> (fst (toolProperties_count q) = VK_SUCCESS
          \<and> fst (toolProperties_tools q) = VK_SUCCESS \<longrightarrow>
        logger (updateTelemetryFromToolingInfo q s) = logger s)"
  by (cases "toolProperties_count q"; cases "fst (toolProperties_count q)";
      cases "toolProperties_tools q"; cases "fst (toolProperties_tools q)")
     (simp_all add: updateTelemetryFromToolingInfo_def Let_def)

lemma tooling_failed_keeps:
  "fst (toolProperties_count q) \<noteq> VK_SUCCESS \<or> fst (toolProperties_tools q) \<noteq> VK_SUCCESS \<longrightarrow>
     lowPowerStatus (updateTelemetryFromToolingInfo q s) = lowPowerStatus s
     \<and> getThermalState (updateTelemetryFromToolingInfo q s) = getThermalState s"
  by (cases "toolProperties_count q"; cases "fst (toolProperties_count q)";
      cases "toolProperties_tools q"; cases "fst (toolProperties_tools q)")
     (simp_all add: updateTelemetryFromToolingInfo_def Let_def)

lemma refresh_all_only_warns:
  "\<exists>ws. w_logger (refresh_all hs w) = w_logger w @ ws \<and> (\<forall>e \<in> set ws. fst e = LOG_WARN)"
proof (induction hs arbitrary: w)
  case Nil
  show ?case by simp
next
  case (Cons h hs)
  obtain ws1 where 1: "w_logger (refreshTelemetry h w) = w_logger w @ ws1"
      "\<forall>e \<in> set ws1. fst e = LOG_WARN"
    using refreshTelemetry_only_warns [of h w] by blast
  obtain ws2 where 2:
      "w_logger (refresh_all hs (refreshTelemetry h w)) = w_logger (refreshTelemetry h w) @ ws2"
      "\<forall>e \<in> set ws2. fst e = LOG_WARN"
    using Cons.IH [of "refreshTelemetry h w"] by blast
  from 1 2 have "w_logger (refresh_all (h # hs) w) = w_logger w @ (ws1 @ ws2)
      \<and> (\<forall>e \<in> set (ws1 @ ws2). fst e = LOG_WARN)"
    by auto
  then show ?case by (rule exI)
qed

lemma refreshTelemetry_active:
  "telemetryActive (refreshTelemetry h w) = telemetryActive w"
  by (simp add: refreshTelemetry_def Let_def)

text \<open>
  With no turn of the worker before line 664, the two-thread view of
  \<^verbatim>\<open>initializeTelemetry\<close> is \<open>initializeTelemetry\<close> itself.
\<close>

lemma initializeTelemetry_no_early_turn:
  "initializeTelemetry_with_worker env [] s = initializeTelemetry env s"
  unfolding initializeTelemetry_with_worker_def initializeTelemetry_def
  by (simp only: list.map scheduler_run.simps option.case)

text \<open>
  C4 as stated fails on the Vulkan providers, in both directions. The suppression flag
  is one flag for all queries of the provider: when the worker polls a device on which no
  query is supported, with the flag clear as \<^verbatim>\<open>startTelemetryPolling\<close> leaves it, only
  the power-state failure is logged, and the first failure of the temperature query and
  of the power-budget query is never logged, however often the poll is repeated. And
  the flag is cleared by \<^verbatim>\<open>startTelemetryPolling\<close> after the first poll of
  \<^verbatim>\<open>initializeTelemetry\<close> has run: a power-state query that keeps failing is logged by
  that first poll and again by the first poll of the worker, twice in the lifetime of one
  handle, whether the worker's first poll comes after line 664 has logged the provider
  or before it.
\<close>

theorem provider_warning_per_class_counterexample:
  "fst (nvmlDeviceGetTemperature none_supported) \<noteq> NVML_SUCCESS
   \<and> providerErrorLogged nvml_polling = False
   \<and> logger (poll_all True [none_supported, none_supported, none_supported] nvml_polling)
       = [(LOG_WARN, NvmlPowerStateFailed 3)]
   \<and> count_list (logger (poll_all True [none_supported, none_supported, none_supported] nvml_polling))
        (LOG_WARN, NvmlTemperatureFailed 3) = 0
   \<and> map_option logger (telemetry_session nvidia_env ''GPU'' [] [power_state_unsupported])
       = Some [(LOG_WARN, NvmlPowerStateFailed 3),
               (LOG_INFO, TelemetryProviderIs ''NVML''),
               (LOG_WARN, NvmlPowerStateFailed 3)]
   \<and> map_option logger (telemetry_session nvidia_env ''GPU'' [power_state_unsupported] [])
       = Some [(LOG_WARN, NvmlPowerStateFailed 3),
               (LOG_WARN, NvmlPowerStateFailed 3),
               (LOG_INFO, TelemetryProviderIs ''NVML'')]"
  by (simp add: telemetry_session_def nvidia_env_def initializeTelemetry_with_worker_def
      setupNvmlTelemetry_def
      populate_information_cache_def vulkan_initial_def power_state_unsupported_def
      none_supported_def nvml_polling_def
      startTelemetryPolling_def worker_iteration_def
      pollTelemetry_def updateTelemetryFromNvml_def
      nvml_power_state_def nvml_temperature_def nvml_power_budget_def
      IsLowPowerFromPowerBudget_default_def IsLowPowerFromPowerBudget_def ThermalBucketFromCelsius_def)

text \<open>
  C4, amended. Vulkan providers: over any run of polls in which \<^verbatim>\<open>startTelemetryPolling\<close>
  does not clear the flag, at most one entry is logged in all, it is a warning, and none
  is logged when the flag was already set; in one NVML poll with the flag clear a warning
  is logged exactly when some query fails. A failed temperature query leaves
  \<open>getThermalState\<close> as it was, and \<open>lowPowerStatus\<close> stays as it was when the
  power-state query and the usage or budget query fail. A poll returns normally and
  leaves \<open>running\<close> alone: \<open>pollTelemetry\<close> has no failing outcome. Browser provider:
  over any run of refreshes each of the two hints is warned about exactly once if it is
  ever missing while its own flag is clear, and a missing hint leaves its field as it was.

  The warning of one poll with the flag clear is that of the first call that fails, in
  the order of the code. NVML: the power state; else the temperature; else the power
  budget with the status of the usage query; else the power budget with the status of
  the limit query; and nothing is logged when all four succeed. Tooling info: the count
  call; else the list call; and nothing is logged when both succeed. A failed count or
  list call of the tooling-info provider leaves \<open>lowPowerStatus\<close> and
  \<open>getThermalState\<close> as they were. Over any run of browser refreshes only warnings are
  logged, and a refresh leaves \<open>telemetryActive\<close> alone.
\<close>

theorem provider_failure_warns_once_and_keeps_snapshot:
  "(\<exists>ws. logger (poll_all nv qs s) = logger s @ ws \<and> length ws \<le> 1
        \<and> (providerErrorLogged s \<longrightarrow> ws = [])
        \<and> (\<forall>e \<in> set ws. fst e = LOG_WARN))
   \<and> (nv \<and> telemetryHandle s \<noteq> 0 \<longrightarrow>
        length (logger (updateTelemetryFromNvml nv q s)) = length (logger s) +
          (if \<not> providerErrorLogged s
              \<and> (fst (nvmlDeviceGetPowerState q) \<noteq> NVML_SUCCESS
                 \<or> fst (nvmlDeviceGetTemperature q) \<noteq> NVML_SUCCESS
                 \<or> fst (nvmlDeviceGetPowerUsage q) \<noteq> NVML_SUCCESS
                 \<or> fst (nvmlDeviceGetEnforcedPowerLimit q) \<noteq> NVML_SUCCESS)
           then 1 else 0))
   \<and> (fst (nvmlDeviceGetTemperature q) \<noteq> NVML_SUCCESS \<longrightarrow>
        getThermalState (updateTelemetryFromNvml nv q s) = getThermalState s)
   \<and> (fst (nvmlDeviceGetPowerState q) \<noteq> NVML_SUCCESS
        \<and> (fst (nvmlDeviceGetPowerUsage q) \<noteq> NVML_SUCCESS
            \<or> fst (nvmlDeviceGetEnforcedPowerLimit q) \<noteq> NVML_SUCCESS) \<longrightarrow>
        lowPowerStatus (updateTelemetryFromNvml nv q s) = lowPowerStatus s)
   \<and> running (pollTelemetry nv q s) = running s
   \<and> count_list (w_logger (refresh_all hs w)) (LOG_WARN, BrowserNoPowerHints) =
        count_list (w_logger w) (LOG_WARN, BrowserNoPowerHints)
        + (if \<not> lowPowerWarningLogged w
              \<and> (\<exists>h \<in> set hs. jetstream_webgpu_query_low_power_hint h < 0)
           then 1 else 0)
   \<and> count_list (w_logger (refresh_all hs w)) (LOG_WARN, BrowserNoThermalHints) =
        count_list (w_logger w) (LOG_WARN, BrowserNoThermalHints)
        + (if \<not> thermalWarningLogged w
              \<and> (\<exists>h \<in> set hs. jetstream_webgpu_query_thermal_bucket h < 0)
           then 1 else 0)
   \<and> (jetstream_webgpu_query_low_power_hint h < 0 \<longrightarrow>
        w_lowPowerStatus (refreshTelemetry h w) = w_lowPowerStatus w)
   \<and> (jetstream_webgpu_query_thermal_bucket h < 0 \<longrightarrow>
        w_getThermalState (refreshTelemetry h w) = w_getThermalState w)
   \<and> (nv \<and> telemetryHandle s \<noteq> 0 \<and> \<not> providerErrorLogged s \<longrightarrow>
        (fst (nvmlDeviceGetPowerState q) = NVML_ERROR e \<longrightarrow>
           logger (updateTelemetryFromNvml nv q s) = logger s @ [(LOG_WARN, NvmlPowerStateFailed e)])
        \<and> (fst (nvmlDeviceGetPowerState q) = NVML_SUCCESS
             \<and> fst (nvmlDeviceGetTemperature q) = NVML_ERROR e \<longrightarrow>
           logger (updateTelemetryFromNvml nv q s) = logger s @ [(LOG_WARN, NvmlTemperatureFailed e)])
        \<and> (fst (nvmlDeviceGetPowerState q) = NVML_SUCCESS
             \<and> fst (nvmlDeviceGetTemperature q) = NVML_SUCCESS
             \<and> fst (nvmlDeviceGetPowerUsage q) = NVML_ERROR e \<longrightarrow>
           logger (updateTelemetryFromNvml nv q s) = logger s @ [(LOG_WARN, NvmlPowerBudgetFailed e)])
        \<and> (fst (nvmlDeviceGetPowerState q) = NVML_SUCCESS
             \<and> fst (nvmlDeviceGetTemperature q) = NVML_SUCCESS
             \<and> fst (nvmlDeviceGetPowerUsage q) = NVML_SUCCESS
             \<and> fst (nvmlDeviceGetEnforcedPowerLimit q) = NVML_ERROR e \<longrightarrow>
           logger (updateTelemetryFromNvml nv q s) = logger s @ [(LOG_WARN, NvmlPowerBudgetFailed e)])
        \<and> (fst (nvmlDeviceGetPowerState q) = NVML_SUCCESS
             \<and> fst (nvmlDeviceGetTemperature q) = NVML_SUCCESS
             \<and> fst (nvmlDeviceGetPowerUsage q) = NVML_SUCCESS
             \<and> fst (nvmlDeviceGetEnforcedPowerLimit q) = NVML_SUCCESS \<longrightarrow>
           logger (updateTelemetryFromNvml nv q s) = logger s))
   \<and> (toolingInfoFn s \<and> \<not> providerErrorLogged s \<longrightarrow>
        (fst (toolProperties_count q) = VK_ERROR r \<longrightarrow>
           logger (updateTelemetryFromToolingInfo q s)
             = logger s @ [(LOG_WARN, ToolPropertiesCountFailed r)])
        \<and> (fst (toolProperties_count q) = VK_SUCCESS
             \<and> fst (toolProperties_tools q) = VK_ERROR r \<longrightarrow>
           logger (updateTelemetryFromToolingInfo q s)
             = logger s @ [(LOG_WARN, ToolPropertiesFailed r)])
        \<and> (fst (toolProperties_count q) = VK_SUCCESS
             \<and> fst (toolProperties_tools q) = VK_SUCCESS \<longrightarrow>
           logger (updateTelemetryFromToolingInfo q s) = logger s))
   \<and> (fst (toolProperties_count q) \<noteq> VK_SUCCESS \<or> fst (toolProperties_tools q) \<noteq> VK_SUCCESS \<longrightarrow>
        lowPowerStatus (updateTelemetryFromToolingInfo q s) = lowPowerStatus s
        \<and> getThermalState (updateTelemetryFromToolingInfo q s) = getThermalState s)
   \<and> (\<exists>ws. w_logger (refresh_all hs w) = w_logger w @ ws \<and> (\<forall>e \<in> set ws. fst e = LOG_WARN))
   \<and> telemetryActive (refreshTelemetry h w) = telemetryActive w"
proof (intro conjI)
  show "\<exists>ws. logger (poll_all nv qs s) = logger s @ ws \<and> length ws \<le> 1
        \<and> (providerErrorLogged s \<longrightarrow> ws = [])
        \<and> (\<forall>e \<in> set ws. fst e = LOG_WARN)"
    by (rule poll_all_at_most_one_warning)
  show "nv \<and> telemetryHandle s \<noteq> 0 \<longrightarrow>
        length (logger (updateTelemetryFromNvml nv q s)) = length (logger s) +
          (if \<not> providerErrorLogged s
              \<and> (fst (nvmlDeviceGetPowerState q) \<noteq> NVML_SUCCESS
                 \<or> fst (nvmlDeviceGetTemperature q) \<noteq> NVML_SUCCESS
                 \<or> fst (nvmlDeviceGetPowerUsage q) \<noteq> NVML_SUCCESS
                 \<or> fst (nvmlDeviceGetEnforcedPowerLimit q) \<noteq> NVML_SUCCESS)
           then 1 else 0)"
    using nvml_first_failure_logged [of nv s q] by blast
  show "fst (nvmlDeviceGetTemperature q) \<noteq> NVML_SUCCESS \<longrightarrow>
        getThermalState (updateTelemetryFromNvml nv q s) = getThermalState s"
    using nvml_temperature_failed_keeps [of q nv s] by blast
  show "fst (nvmlDeviceGetPowerState q) \<noteq> NVML_SUCCESS
        \<and> (fst (nvmlDeviceGetPowerUsage q) \<noteq> NVML_SUCCESS
            \<or> fst (nvmlDeviceGetEnforcedPowerLimit q) \<noteq> NVML_SUCCESS) \<longrightarrow>
        lowPowerStatus (updateTelemetryFromNvml nv q s) = lowPowerStatus s"
    using nvml_power_failed_keeps [of q nv s] by blast
  show "running (pollTelemetry nv q s) = running s"
    by (simp add: pollTelemetry_frame)
  show "count_list (w_logger (refresh_all hs w)) (LOG_WARN, BrowserNoPowerHints) =
        count_list (w_logger w) (LOG_WARN, BrowserNoPowerHints)
        + (if \<not> lowPowerWarningLogged w
              \<and> (\<exists>h \<in> set hs. jetstream_webgpu_query_low_power_hint h < 0)
           then 1 else 0)"
    by (rule refresh_all_power_warning)
  show "count_list (w_logger (refresh_all hs w)) (LOG_WARN, BrowserNoThermalHints) =
        count_list (w_logger w) (LOG_WARN, BrowserNoThermalHints)
        + (if \<not> thermalWarningLogged w
              \<and> (\<exists>h \<in> set hs. jetstream_webgpu_query_thermal_bucket h < 0)
           then 1 else 0)"
    by (rule refresh_all_thermal_warning)
  show "jetstream_webgpu_query_low_power_hint h < 0 \<longrightarrow>
        w_lowPowerStatus (refreshTelemetry h w) = w_lowPowerStatus w"
    using refreshTelemetry_failed_keeps [of h w] by blast
  show "jetstream_webgpu_query_thermal_bucket h < 0 \<longrightarrow>
        w_getThermalState (refreshTelemetry h w) = w_getThermalState w"
    using refreshTelemetry_failed_keeps [of h w] by blast
  show "nv \<and> telemetryHandle s \<noteq> 0 \<and> \<not> providerErrorLogged s \<longrightarrow>
        (fst (nvmlDeviceGetPowerState q) = NVML_ERROR e \<longrightarrow>
           logger (updateTelemetryFromNvml nv q s) = logger s @ [(LOG_WARN, NvmlPowerStateFailed e)])
        \<and> (fst (nvmlDeviceGetPowerState q) = NVML_SUCCESS
             \<and> fst (nvmlDeviceGetTemperature q) = NVML_ERROR e \<longrightarrow>
           logger (updateTelemetryFromNvml nv q s) = logger s @ [(LOG_WARN, NvmlTemperatureFailed e)])
        \<and> (fst (nvmlDeviceGetPowerState q) = NVML_SUCCESS
             \<and> fst (nvmlDeviceGetTemperature q) = NVML_SUCCESS
             \<and> fst (nvmlDeviceGetPowerUsage q) = NVML_ERROR e \<longrightarrow>
           logger (updateTelemetryFromNvml nv q s) = logger s @ [(LOG_WARN, NvmlPowerBudgetFailed e)])
        \<and> (fst (nvmlDeviceGetPowerState q) = NVML_SUCCESS
             \<and> fst (nvmlDeviceGetTemperature q) = NVML_SUCCESS
             \<and> fst (nvmlDeviceGetPowerUsage q) = NVML_SUCCESS
             \<and> fst (nvmlDeviceGetEnforcedPowerLimit q) = NVML_ERROR e \<longrightarrow>
           logger (updateTelemetryFromNvml nv q s) = logger s @ [(LOG_WARN, NvmlPowerBudgetFailed e)])
        \<and> (fst (nvmlDeviceGetPowerState q) = NVML_SUCCESS
             \<and> fst (nvmlDeviceGetTemperature q) = NVML_SUCCESS
             \<and> fst (nvmlDeviceGetPowerUsage q) = NVML_SUCCESS
             \<and> fst (nvmlDeviceGetEnforcedPowerLimit q) = NVML_SUCCESS \<longrightarrow>
           logger (updateTelemetryFromNvml nv q s) = logger s)"
    by (rule nvml_first_failure_message)
  show "toolingInfoFn s \<and> \<not> providerErrorLogged s \<longrightarrow>
        (fst (toolProperties_count q) = VK_ERROR r \<longrightarrow>
           logger (updateTelemetryFromToolingInfo q s)
             = logger s @ [(LOG_WARN, ToolPropertiesCountFailed r)])
        \<and> (fst (toolProperties_count q) = VK_SUCCESS
             \<and> fst (toolProperties_tools q) = VK_ERROR r \<longrightarrow>
           logger (updateTelemetryFromToolingInfo q s)
             = logger s @ [(LOG_WARN, ToolPropertiesFailed r)])
        \<and> (fst (toolProperties_count q) = VK_SUCCESS
             \<and> fst (toolProperties_tools q) = VK_SUCCESS \<longrightarrow>
           logger (updateTelemetryFromToolingInfo q s) = logger s)"
    by (rule tooling_first_failure_message)
  show "fst (toolProperties_count q) \<noteq> VK_SUCCESS \<or> fst (toolProperties_tools q) \<noteq> VK_SUCCESS \<longrightarrow>
        lowPowerStatus (updateTelemetryFromToolingInfo q s) = lowPowerStatus s
        \<and> getThermalState (updateTelemetryFromToolingInfo q s) = getThermalState s"
    by (rule tooling_failed_keeps)
  show "\<exists>ws. w_logger (refresh_all hs w) = w_logger w @ ws \<and> (\<forall>e \<in> set ws. fst e = LOG_WARN)"
    by (rule refresh_all_only_warns)
  show "telemetryActive (refreshTelemetry h w) = telemetryActive w"
    by (rule refreshTelemetry_active)
qed

text \<open>
  Three polls of a device on which NVML supports nothing, and three refreshes in a
  browser that exposes nothing; then one poll each in which the first call that fails
  is the power state, the temperature and the power limit, one in which every query
  answers, and one poll of the tooling-info provider whose count call fails.
\<close>

theorem provider_failure_warns_once_and_keeps_snapshot_witness:
  "providerErrorLogged nvml_committed = False
   \<and> telemetryHandle nvml_committed \<noteq> 0
   \<and> fst (nvmlDeviceGetPowerState none_supported) \<noteq> NVML_SUCCESS
   \<and> fst (nvmlDeviceGetTemperature none_supported) \<noteq> NVML_SUCCESS
   \<and> fst (nvmlDeviceGetPowerUsage none_supported) \<noteq> NVML_SUCCESS
   \<and> length (logger (poll_all True [none_supported, none_supported, none_supported] nvml_committed)) \<le> 1
   \<and> length (logger (updateTelemetryFromNvml True none_supported nvml_committed)) = 1
   \<and> getThermalState (updateTelemetryFromNvml True none_supported nvml_committed) = 0
   \<and> lowPowerStatus (updateTelemetryFromNvml True none_supported nvml_committed) = False
   \<and> jetstream_webgpu_query_low_power_hint nothing_exposed < 0
   \<and> jetstream_webgpu_query_thermal_bucket nothing_exposed < 0
   \<and> nothing_exposed \<in> set [nothing_exposed, hints_exposed, nothing_exposed]
   \<and> count_list (w_logger (refresh_all [nothing_exposed, hints_exposed, nothing_exposed]
                              (WebGPU_constructor webgpu_initial)))
        (LOG_WARN, BrowserNoPowerHints) = 1
   \<and> count_list (w_logger (refresh_all [nothing_exposed, hints_exposed, nothing_exposed]
                              (WebGPU_constructor webgpu_initial)))
        (LOG_WARN, BrowserNoThermalHints) = 1
   \<and> w_lowPowerStatus (refreshTelemetry nothing_exposed (WebGPU_constructor webgpu_initial)) = False
   \<and> w_getThermalState (refreshTelemetry nothing_exposed (WebGPU_constructor webgpu_initial)) = 0
   \<and> fst (nvmlDeviceGetPowerState none_supported) = NVML_ERROR 3
   \<and> logger (updateTelemetryFromNvml True none_supported nvml_committed)
       = [(LOG_WARN, NvmlPowerStateFailed 3)]
   \<and> fst (nvmlDeviceGetPowerState temperature_unsupported) = NVML_SUCCESS
   \<and> fst (nvmlDeviceGetTemperature temperature_unsupported) = NVML_ERROR 3
   \<and> logger (updateTelemetryFromNvml True temperature_unsupported nvml_committed)
       = [(LOG_WARN, NvmlTemperatureFailed 3)]
   \<and> fst (nvmlDeviceGetPowerUsage power_limit_unsupported) = NVML_SUCCESS
   \<and> fst (nvmlDeviceGetEnforcedPowerLimit power_limit_unsupported) = NVML_ERROR 3
   \<and> logger (updateTelemetryFromNvml True power_limit_unsupported nvml_committed)
       = [(LOG_WARN, NvmlPowerBudgetFailed 3)]
   \<and> fst (nvmlDeviceGetEnforcedPowerLimit all_answer) = NVML_SUCCESS
   \<and> logger (updateTelemetryFromNvml True all_answer nvml_committed) = []
   \<and> toolingInfoFn tooling_committed
   \<and> providerErrorLogged tooling_committed = False
   \<and> fst (toolProperties_count tool_count_fails) = VK_ERROR (- 3)
   \<and> logger (updateTelemetryFromToolingInfo tool_count_fails tooling_committed)
       = [(LOG_WARN, ToolPropertiesCountFailed (- 3))]
   \<and> lowPowerStatus (updateTelemetryFromToolingInfo tool_count_fails tooling_committed) = True
   \<and> getThermalState (updateTelemetryFromToolingInfo tool_count_fails tooling_committed) = 0
   \<and> set (map fst (w_logger (refresh_all [nothing_exposed, hints_exposed, nothing_exposed]
                                 (WebGPU_constructor webgpu_initial)))) \<subseteq> {LOG_WARN}
   \<and> telemetryActive (refreshTelemetry nothing_exposed (WebGPU_constructor webgpu_initial)) = True"
proof -
  note inst = provider_failure_warns_once_and_keeps_snapshot
               [where nv = True and qs = "[none_supported, none_supported, none_supported]"
                  and s = nvml_committed and q = none_supported
                  and hs = "[nothing_exposed, hints_exposed, nothing_exposed]"
                  and w = "WebGPU_constructor webgpu_initial" and h = nothing_exposed
                  and e = 3]
  note inst_temperature = provider_failure_warns_once_and_keeps_snapshot
               [where nv = True and s = nvml_committed and q = temperature_unsupported and e = 3,
                THEN conjunct2, THEN conjunct2, THEN conjunct2, THEN conjunct2, THEN conjunct2,
                THEN conjunct2, THEN conjunct2, THEN conjunct2, THEN conjunct2, THEN conjunct1]
  note inst_limit = provider_failure_warns_once_and_keeps_snapshot
               [where nv = True and s = nvml_committed and q = power_limit_unsupported and e = 3,
                THEN conjunct2, THEN conjunct2, THEN conjunct2, THEN conjunct2, THEN conjunct2,
                THEN conjunct2, THEN conjunct2, THEN conjunct2, THEN conjunct2, THEN conjunct1]
  note inst_all = provider_failure_warns_once_and_keeps_snapshot
               [where nv = True and s = nvml_committed and q = all_answer,
                THEN conjunct2, THEN conjunct2, THEN conjunct2, THEN conjunct2, THEN conjunct2,
                THEN conjunct2, THEN conjunct2, THEN conjunct2, THEN conjunct2, THEN conjunct1]
  note inst_tooling = provider_failure_warns_once_and_keeps_snapshot
               [where s = tooling_committed and q = tool_count_fails and r = "- 3",
                THEN conjunct2, THEN conjunct2, THEN conjunct2, THEN conjunct2, THEN conjunct2,
                THEN conjunct2, THEN conjunct2, THEN conjunct2, THEN conjunct2, THEN conjunct2]
  have s: "providerErrorLogged nvml_committed = False" "telemetryHandle nvml_committed \<noteq> 0"
    "logger nvml_committed = []" "getThermalState nvml_committed = 0"
    "lowPowerStatus nvml_committed = False"
    by (simp_all add: nvml_committed_def)
  have q: "fst (nvmlDeviceGetPowerState none_supported) \<noteq> NVML_SUCCESS"
    "fst (nvmlDeviceGetTemperature none_supported) \<noteq> NVML_SUCCESS"
    "fst (nvmlDeviceGetPowerUsage none_supported) \<noteq> NVML_SUCCESS"
    "fst (nvmlDeviceGetPowerState none_supported) = NVML_ERROR 3"
    by (simp_all add: none_supported_def)
  have qt: "fst (nvmlDeviceGetPowerState temperature_unsupported) = NVML_SUCCESS"
    "fst (nvmlDeviceGetTemperature temperature_unsupported) = NVML_ERROR 3"
    by (simp_all add: temperature_unsupported_def)
  have ql: "fst (nvmlDeviceGetPowerState power_limit_unsupported) = NVML_SUCCESS"
    "fst (nvmlDeviceGetTemperature power_limit_unsupported) = NVML_SUCCESS"
    "fst (nvmlDeviceGetPowerUsage power_limit_unsupported) = NVML_SUCCESS"
    "fst (nvmlDeviceGetEnforcedPowerLimit power_limit_unsupported) = NVML_ERROR 3"
    by (simp_all add: power_limit_unsupported_def)
  have qa: "fst (nvmlDeviceGetPowerState all_answer) = NVML_SUCCESS"
    "fst (nvmlDeviceGetTemperature all_answer) = NVML_SUCCESS"
    "fst (nvmlDeviceGetPowerUsage all_answer) = NVML_SUCCESS"
    "fst (nvmlDeviceGetEnforcedPowerLimit all_answer) = NVML_SUCCESS"
    by (simp_all add: all_answer_def)
  have t: "toolingInfoFn tooling_committed" "providerErrorLogged tooling_committed = False"
    "logger tooling_committed = []" "lowPowerStatus tooling_committed = True"
    "getThermalState tooling_committed = 0"
    by (simp_all add: tooling_committed_def)
  have qc: "fst (toolProperties_count tool_count_fails) = VK_ERROR (- 3)"
    by (simp add: tool_count_fails_def)
  have h: "jetstream_webgpu_query_low_power_hint nothing_exposed < 0"
    "jetstream_webgpu_query_thermal_bucket nothing_exposed < 0"
    by (simp_all add: nothing_exposed_def)
  have w: "lowPowerWarningLogged (WebGPU_constructor webgpu_initial) = False"
    "thermalWarningLogged (WebGPU_constructor webgpu_initial) = False"
    "w_logger (WebGPU_constructor webgpu_initial) = []"
    "w_lowPowerStatus (WebGPU_constructor webgpu_initial) = False"
    "w_getThermalState (WebGPU_constructor webgpu_initial) = 0"
    "telemetryActive (WebGPU_constructor webgpu_initial) = True"
    by (simp_all add: WebGPU_constructor_def webgpu_initial_def scheduleTelemetryRefresh_def)
  have r1: "length (logger (poll_all True [none_supported, none_supported, none_supported] nvml_committed)) \<le> 1"
    using inst [THEN conjunct1] s by auto
  have r2: "length (logger (updateTelemetryFromNvml True none_supported nvml_committed)) = 1"
    using inst [THEN conjunct2, THEN conjunct1] s q by simp
  have r3: "getThermalState (updateTelemetryFromNvml True none_supported nvml_committed) = 0"
    using inst [THEN conjunct2, THEN conjunct2, THEN conjunct1] s q by simp
  have r4: "lowPowerStatus (updateTelemetryFromNvml True none_supported nvml_committed) = False"
    using inst [THEN conjunct2, THEN conjunct2, THEN conjunct2, THEN conjunct1] s q by simp
  have r5: "count_list (w_logger (refresh_all [nothing_exposed, hints_exposed, nothing_exposed]
                              (WebGPU_constructor webgpu_initial)))
        (LOG_WARN, BrowserNoPowerHints) = 1"
    using inst [THEN conjunct2, THEN conjunct2, THEN conjunct2, THEN conjunct2, THEN conjunct2,
                THEN conjunct1] w h by simp
  have r6: "count_list (w_logger (refresh_all [nothing_exposed, hints_exposed, nothing_exposed]
                              (WebGPU_constructor webgpu_initial)))
        (LOG_WARN, BrowserNoThermalHints) = 1"
    using inst [THEN conjunct2, THEN conjunct2, THEN conjunct2, THEN conjunct2, THEN conjunct2,
                THEN conjunct2, THEN conjunct1] w h by simp
  have r7: "w_lowPowerStatus (refreshTelemetry nothing_exposed (WebGPU_constructor webgpu_initial)) = False"
    using inst [THEN conjunct2, THEN conjunct2, THEN conjunct2, THEN conjunct2, THEN conjunct2,
                THEN conjunct2, THEN conjunct2, THEN conjunct1] w h by simp
  have r8: "w_getThermalState (refreshTelemetry nothing_exposed (WebGPU_constructor webgpu_initial)) = 0"
    using inst [THEN conjunct2, THEN conjunct2, THEN conjunct2, THEN conjunct2, THEN conjunct2,
                THEN conjunct2, THEN conjunct2, THEN conjunct2, THEN conjunct1] w h by simp
  have r9: "logger (updateTelemetryFromNvml True none_supported nvml_committed)
       = [(LOG_WARN, NvmlPowerStateFailed 3)]"
    using inst [THEN conjunct2, THEN conjunct2, THEN conjunct2, THEN conjunct2, THEN conjunct2,
                THEN conjunct2, THEN conjunct2, THEN conjunct2, THEN conjunct2, THEN conjunct1]
          s q by simp
  have r10: "logger (updateTelemetryFromNvml True temperature_unsupported nvml_committed)
       = [(LOG_WARN, NvmlTemperatureFailed 3)]"
    using inst_temperature s qt by simp
  have r11: "logger (updateTelemetryFromNvml True power_limit_unsupported nvml_committed)
       = [(LOG_WARN, NvmlPowerBudgetFailed 3)]"
    using inst_limit s ql by simp
  have r12: "logger (updateTelemetryFromNvml True all_answer nvml_committed) = []"
    using inst_all s qa by simp
  have r13: "logger (updateTelemetryFromToolingInfo tool_count_fails tooling_committed)
       = [(LOG_WARN, ToolPropertiesCountFailed (- 3))]"
    using inst_tooling [THEN conjunct1] t qc by simp
  have r14: "lowPowerStatus (updateTelemetryFromToolingInfo tool_count_fails tooling_committed) = True"
    "getThermalState (updateTelemetryFromToolingInfo tool_count_fails tooling_committed) = 0"
    using inst_tooling [THEN conjunct2, THEN conjunct1] t qc by simp_all
  have r15: "set (map fst (w_logger (refresh_all [nothing_exposed, hints_exposed, nothing_exposed]
                                 (WebGPU_constructor webgpu_initial)))) \<subseteq> {LOG_WARN}"
    using inst [THEN conjunct2, THEN conjunct2, THEN conjunct2, THEN conjunct2, THEN conjunct2,
                THEN conjunct2, THEN conjunct2, THEN conjunct2, THEN conjunct2, THEN conjunct2,
                THEN conjunct2, THEN conjunct2, THEN conjunct1] w by auto
  have r16: "telemetryActive (refreshTelemetry nothing_exposed (WebGPU_constructor webgpu_initial)) = True"
    using inst [THEN conjunct2, THEN conjunct2, THEN conjunct2, THEN conjunct2, THEN conjunct2,
                THEN conjunct2, THEN conjunct2, THEN conjunct2, THEN conjunct2, THEN conjunct2,
                THEN conjunct2, THEN conjunct2, THEN conjunct2] w by simp
  from s q qt ql qa t qc h r1 r2 r3 r4 r5 r6 r7 r8 r9 r10 r11 r12 r13 r14 r15 r16
  show ?thesis by simp
qed


section \<open>No provider: defaults and no background work\<close>

lemma setupNvmlTelemetry_fails:
  assumes "\<not> (JST_BACKEND_HAS_NVML env \<and> nvmlInit_v2 env = NVML_SUCCESS
               \<and> fst (nvmlDeviceGetHandleByIndex env) = NVML_SUCCESS)"
  shows "\<exists>l. setupNvmlTelemetry env s = (False, s\<lparr>logger := l\<rparr>)"
proof (cases "JST_BACKEND_HAS_NVML env")
  case False
  then have "setupNvmlTelemetry env s = (False, s\<lparr>logger := logger s\<rparr>)"
    by (simp add: setupNvmlTelemetry_def)
  then show ?thesis by (rule exI)
next
  case True
  show ?thesis
  proof (cases "nvmlInit_v2 env")
    case (NVML_ERROR e)
    with True have "setupNvmlTelemetry env s =
        (False, s\<lparr>logger := logger s @ [(LOG_ERROR, NvmlInitFailed e)]\<rparr>)"
      by (simp add: setupNvmlTelemetry_def)
    then show ?thesis by (rule exI)
  next
    case NVML_SUCCESS
    with True assms obtain e h where "nvmlDeviceGetHandleByIndex env = (NVML_ERROR e, h)"
      by (cases "nvmlDeviceGetHandleByIndex env"; cases "fst (nvmlDeviceGetHandleByIndex env)") auto
    with True NVML_SUCCESS have "setupNvmlTelemetry env s =
        (False, s\<lparr>logger := logger s @ [(LOG_ERROR, NvmlCannotAccessDevice (config_deviceId env) e)]\<rparr>)"
      by (simp add: setupNvmlTelemetry_def)
    then show ?thesis by (rule exI)
  qed
qed

lemma initializeTelemetry_not_ready:
  assumes s0: "s0 = s\<lparr>telemetryProviderType := NONE,
                  telemetryProviderName := ''Unavailable'',
                  telemetryHandle := 0,
                  telemetryLibraryInitialized := False,
                  toolingInfoFn := False\<rparr>"
    and first: "(if JST_BACKEND_HAS_NVML env \<and> vendorID env = 0x10DE
             then setupNvmlTelemetry env s0 else (False, s0)) = (False, s1)"
    and tooling: "\<not> (VK_EXT_TOOLING_INFO_EXTENSION_NAME \<in> supportedInstanceExtensions env
                     \<and> toolingFn_found env)"
  shows "initializeTelemetry env s =
           Some (s1\<lparr>logger := logger s1 @ [(LOG_WARN, TelemetryUnavailable (deviceName s1))]\<rparr>)"
proof -
  from tooling have no: "(VK_EXT_TOOLING_INFO_EXTENSION_NAME \<in> supportedInstanceExtensions env
                     \<and> toolingFn_found env) = False" by simp
  show ?thesis
    unfolding initializeTelemetry_def Let_def s0 [symmetric] first by (simp add: no)
qed

lemma initializeTelemetry_no_provider:
  assumes nvml: "\<not> (JST_BACKEND_HAS_NVML env \<and> vendorID env = 0x10DE
                     \<and> nvmlInit_v2 env = NVML_SUCCESS
                     \<and> fst (nvmlDeviceGetHandleByIndex env) = NVML_SUCCESS)"
    and tooling: "\<not> (VK_EXT_TOOLING_INFO_EXTENSION_NAME \<in> supportedInstanceExtensions env
                     \<and> toolingFn_found env)"
  shows "\<exists>l. initializeTelemetry env s =
           Some (s\<lparr>telemetryProviderType := NONE,
                  telemetryProviderName := ''Unavailable'',
                  telemetryHandle := 0,
                  telemetryLibraryInitialized := False,
                  toolingInfoFn := False\<rparr>\<lparr>logger := l\<rparr>)"
proof -
  define s0 where "s0 = s\<lparr>telemetryProviderType := NONE,
                  telemetryProviderName := ''Unavailable'',
                  telemetryHandle := 0,
                  telemetryLibraryInitialized := False,
                  toolingInfoFn := False\<rparr>"
  have "\<exists>l. (if JST_BACKEND_HAS_NVML env \<and> vendorID env = 0x10DE
             then setupNvmlTelemetry env s0 else (False, s0)) = (False, s0\<lparr>logger := l\<rparr>)"
  proof (cases "JST_BACKEND_HAS_NVML env \<and> vendorID env = 0x10DE")
    case False
    then have "(if JST_BACKEND_HAS_NVML env \<and> vendorID env = 0x10DE
             then setupNvmlTelemetry env s0 else (False, s0)) = (False, s0)"
      by (rule if_not_P)
    moreover have eq: "s0\<lparr>logger := logger s0\<rparr> = s0" by simp
    ultimately have "(if JST_BACKEND_HAS_NVML env \<and> vendorID env = 0x10DE
             then setupNvmlTelemetry env s0 else (False, s0)) = (False, s0\<lparr>logger := logger s0\<rparr>)"
      by (simp only: eq)
    then show ?thesis by (rule exI)
  next
    case True
    with nvml have "\<not> (JST_BACKEND_HAS_NVML env \<and> nvmlInit_v2 env = NVML_SUCCESS
               \<and> fst (nvmlDeviceGetHandleByIndex env) = NVML_SUCCESS)" by blast
    from setupNvmlTelemetry_fails [OF this, of s0] True show ?thesis by simp
  qed
  then obtain l where first: "(if JST_BACKEND_HAS_NVML env \<and> vendorID env = 0x10DE
             then setupNvmlTelemetry env s0 else (False, s0)) = (False, s0\<lparr>logger := l\<rparr>)"
    by blast
  have "initializeTelemetry env s =
           Some (s0\<lparr>logger := l\<rparr>\<lparr>logger := logger (s0\<lparr>logger := l\<rparr>) @
                   [(LOG_WARN, TelemetryUnavailable (deviceName (s0\<lparr>logger := l\<rparr>)))]\<rparr>)"
    by (rule initializeTelemetry_not_ready [OF s0_def first tooling])
  then have "initializeTelemetry env s =
           Some (s0\<lparr>logger := l @ [(LOG_WARN, TelemetryUnavailable (deviceName s0))]\<rparr>)"
    by simp
  then have "\<exists>l. initializeTelemetry env s = Some (s0\<lparr>logger := l\<rparr>)"
    by (rule exI)
  then show ?thesis unfolding s0_def .
qed

text \<open>
  C9. When no provider commits (the vendor library is not built in, or the device is not
  the vendor's, or the library fails to initialise or to bind the device; and the tooling
  extension was not negotiated or its function is not found), the constructor's telemetry
  lines leave \<open>lowPowerStatus = false\<close> and \<open>thermalBucket = 0\<close>, the provider is
  \<open>NONE\<close>, and nothing is started: \<open>running\<close>, the worker and the count of its polls are
  what they were before the constructor.
\<close>

theorem no_provider_keeps_defaults_and_starts_nothing:
  assumes nvml: "\<not> (JST_BACKEND_HAS_NVML env \<and> vendorID env = 0x10DE
                     \<and> nvmlInit_v2 env = NVML_SUCCESS
                     \<and> fst (nvmlDeviceGetHandleByIndex env) = NVML_SUCCESS)"
    and tooling: "\<not> (VK_EXT_TOOLING_INFO_EXTENSION_NAME \<in> supportedInstanceExtensions env
                     \<and> toolingFn_found env)"
  shows "\<exists>s'. initializeTelemetry env (populate_information_cache name s) = Some s'
           \<and> lowPowerStatus s' = False \<and> getThermalState s' = 0
           \<and> telemetryProviderType s' = NONE
           \<and> running s' = running s \<and> worker_joinable s' = worker_joinable s
           \<and> live_workers s' = live_workers s \<and> worker_polls s' = worker_polls s"
proof -
  from initializeTelemetry_no_provider [OF nvml tooling, of "populate_information_cache name s"]
  obtain l where "initializeTelemetry env (populate_information_cache name s) =
           Some ((populate_information_cache name s)\<lparr>telemetryProviderType := NONE,
                  telemetryProviderName := ''Unavailable'',
                  telemetryHandle := 0,
                  telemetryLibraryInitialized := False,
                  toolingInfoFn := False\<rparr>\<lparr>logger := l\<rparr>)" by blast
  then show ?thesis by (simp add: populate_information_cache_def)
qed

text \<open>
  A device of another vendor (0x8086) whose instance offers only the surface extension:
  the handle stays stopped, with no worker and the default snapshot.
\<close>

theorem no_provider_keeps_defaults_and_starts_nothing_witness:
  "vendorID other_vendor_env \<noteq> 0x10DE
   \<and> VK_EXT_TOOLING_INFO_EXTENSION_NAME \<notin> supportedInstanceExtensions other_vendor_env
   \<and> map_option lowPowerStatus
        (initializeTelemetry other_vendor_env (populate_information_cache ''GPU'' vulkan_initial))
       = Some False
   \<and> map_option getThermalState
        (initializeTelemetry other_vendor_env (populate_information_cache ''GPU'' vulkan_initial))
       = Some 0
   \<and> map_option running
        (initializeTelemetry other_vendor_env (populate_information_cache ''GPU'' vulkan_initial))
       = Some False
   \<and> map_option live_workers
        (initializeTelemetry other_vendor_env (populate_information_cache ''GPU'' vulkan_initial))
       = Some 0"
proof -
  have v: "vendorID other_vendor_env \<noteq> 0x10DE"
    by (simp add: other_vendor_env_def)
  have t: "VK_EXT_TOOLING_INFO_EXTENSION_NAME \<notin> supportedInstanceExtensions other_vendor_env"
    by (simp add: other_vendor_env_def VK_EXT_TOOLING_INFO_EXTENSION_NAME_def)
  have i: "running vulkan_initial = False" "live_workers vulkan_initial = 0"
    by (simp_all add: vulkan_initial_def)
  from v have nvml: "\<not> (JST_BACKEND_HAS_NVML other_vendor_env \<and> vendorID other_vendor_env = 0x10DE
                     \<and> nvmlInit_v2 other_vendor_env = NVML_SUCCESS
                     \<and> fst (nvmlDeviceGetHandleByIndex other_vendor_env) = NVML_SUCCESS)"
    by simp
  from t have tooling: "\<not> (VK_EXT_TOOLING_INFO_EXTENSION_NAME \<in> supportedInstanceExtensions other_vendor_env
                     \<and> toolingFn_found other_vendor_env)"
    by simp
  from no_provider_keeps_defaults_and_starts_nothing [OF nvml tooling, of "''GPU''" vulkan_initial]
  obtain s' where
    "initializeTelemetry other_vendor_env (populate_information_cache ''GPU'' vulkan_initial) = Some s'"
    "lowPowerStatus s' = False" "getThermalState s' = 0"
    "running s' = running vulkan_initial" "live_workers s' = live_workers vulkan_initial"
    by blast
  with v t i show ?thesis by simp
qed


section \<open>The telemetry scheduler\<close>

lemma one_worker_initial: "one_worker vulkan_initial"
  by (simp add: one_worker_def vulkan_initial_def)

lemma start_one_worker:
  "one_worker s \<Longrightarrow> \<exists>s'. startTelemetryPolling s = Some s' \<and> one_worker s' \<and> running s'"
  by (auto simp add: one_worker_def startTelemetryPolling_def)

lemma stop_one_worker:
  "one_worker s \<Longrightarrow> one_worker (stopTelemetryPolling s) \<and> live_workers (stopTelemetryPolling s) = 0"
  by (auto simp add: one_worker_def stopTelemetryPolling_def Let_def)

lemma worker_iteration_one_worker:
  "one_worker s \<Longrightarrow> one_worker (worker_iteration nv q s)"
  by (auto simp add: one_worker_def worker_iteration_def pollTelemetry_frame)

lemma scheduler_step_one_worker:
  "one_worker s \<Longrightarrow> \<exists>s'. scheduler_step nv e s = Some s' \<and> one_worker s'"
  using start_one_worker [of s] stop_one_worker [of s] worker_iteration_one_worker [of s]
  by (cases e) auto

lemma scheduler_run_one_worker:
  "one_worker s \<Longrightarrow> \<exists>s'. scheduler_run nv es s = Some s' \<and> one_worker s'"
proof (induction es arbitrary: s)
  case Nil
  then show ?case by simp
next
  case (Cons e es)
  from scheduler_step_one_worker [OF Cons.prems, of nv e]
  obtain s1 where s1: "scheduler_step nv e s = Some s1" "one_worker s1" by blast
  from Cons.IH [OF s1(2)] s1(1) show ?case by simp
qed

lemma start_noop: "running s \<Longrightarrow> startTelemetryPolling s = Some s"
  by (simp add: startTelemetryPolling_def)

lemma start_from_stopped:
  "\<not> running s \<Longrightarrow> \<not> worker_joinable s \<Longrightarrow>
   startTelemetryPolling s =
     Some (s\<lparr>running := True, providerErrorLogged := False,
             worker_joinable := True, live_workers := live_workers s + 1\<rparr>)"
  by (simp add: startTelemetryPolling_def)

lemma stop_clears: "running (stopTelemetryPolling s) = False"
  by (simp add: stopTelemetryPolling_def Let_def)

lemma stopped_step_no_poll:
  assumes "\<not> running s" "e \<noteq> Start" "scheduler_step nv e s = Some s'"
  shows "\<not> running s' \<and> worker_polls s' = worker_polls s \<and> logger s' = logger s
         \<and> lowPowerStatus s' = lowPowerStatus s \<and> getThermalState s' = getThermalState s"
  using assms
  by (cases e) (auto simp add: stopTelemetryPolling_def worker_iteration_def Let_def split: if_splits)

lemma stopped_run_no_poll:
  assumes "\<not> running s" "Start \<notin> set es" "scheduler_run nv es s = Some s'"
  shows "\<not> running s' \<and> worker_polls s' = worker_polls s \<and> logger s' = logger s
         \<and> lowPowerStatus s' = lowPowerStatus s \<and> getThermalState s' = getThermalState s"
  using assms
proof (induction es arbitrary: s)
  case Nil
  then show ?case by simp
next
  case (Cons e es)
  from Cons.prems(3) obtain s1 where s1: "scheduler_step nv e s = Some s1"
    and run: "scheduler_run nv es s1 = Some s'"
    by (auto split: option.splits)
  from Cons.prems(2) have e: "e \<noteq> Start" and es: "Start \<notin> set es" by auto
  from stopped_step_no_poll [OF Cons.prems(1) e s1] have
    st: "\<not> running s1" and eq: "worker_polls s1 = worker_polls s" "logger s1 = logger s"
      "lowPowerStatus s1 = lowPowerStatus s" "getThermalState s1 = getThermalState s"
    by simp_all
  from Cons.IH [OF st es run] eq show ?case by simp
qed

lemma stop_frame:
  "worker_polls (stopTelemetryPolling s) = worker_polls s
   \<and> logger (stopTelemetryPolling s) = logger s
   \<and> lowPowerStatus (stopTelemetryPolling s) = lowPowerStatus s
   \<and> getThermalState (stopTelemetryPolling s) = getThermalState s"
  by (simp add: stopTelemetryPolling_def Let_def)

lemma refreshTelemetry_frame:
  "telemetryActive (refreshTelemetry h w) = telemetryActive w
   \<and> pending_callbacks (refreshTelemetry h w) = pending_callbacks w
   \<and> refreshes (refreshTelemetry h w) = refreshes w"
  by (simp add: refreshTelemetry_def Let_def)

lemma TelemetryPump_null: "TelemetryPump h None = None"
  by (simp add: TelemetryPump_def)

lemma TelemetryPump_inactive: "\<not> telemetryActive w \<Longrightarrow> TelemetryPump h (Some w) = Some w"
  by (simp add: TelemetryPump_def)

lemma host_step_pending: "pending_callbacks w \<le> 1 \<Longrightarrow> pending_callbacks (host_step e w) \<le> 1"
  by (cases e)
     (auto simp add: TelemetryPump_def scheduleTelemetryRefresh_def refreshTelemetry_frame
        WebGPU_destructor_def)

lemma host_run_pending: "pending_callbacks w \<le> 1 \<Longrightarrow> pending_callbacks (host_run es w) \<le> 1"
proof (induction es arbitrary: w)
  case Nil
  then show ?case by simp
next
  case (Cons e es)
  from Cons.prems have "pending_callbacks (host_step e w) \<le> 1" by (rule host_step_pending)
  then have "pending_callbacks (host_run es (host_step e w)) \<le> 1" by (rule Cons.IH)
  then show ?case by simp
qed

lemma WebGPU_constructor_pending:
  "pending_callbacks w = 0 \<Longrightarrow> pending_callbacks (WebGPU_constructor w) = 1
     \<and> telemetryActive (WebGPU_constructor w)"
  by (simp add: WebGPU_constructor_def scheduleTelemetryRefresh_def)

lemma host_step_destroyed:
  "\<not> telemetryActive w \<Longrightarrow>
     \<not> telemetryActive (host_step e w) \<and> refreshes (host_step e w) = refreshes w
     \<and> pending_callbacks (host_step e w) \<le> pending_callbacks w
     \<and> w_logger (host_step e w) = w_logger w
     \<and> w_lowPowerStatus (host_step e w) = w_lowPowerStatus w
     \<and> w_getThermalState (host_step e w) = w_getThermalState w"
  by (cases e) (auto simp add: TelemetryPump_def WebGPU_destructor_def)

lemma host_run_destroyed:
  "\<not> telemetryActive w \<Longrightarrow>
     \<not> telemetryActive (host_run es w) \<and> refreshes (host_run es w) = refreshes w
     \<and> pending_callbacks (host_run es w) \<le> pending_callbacks w
     \<and> w_logger (host_run es w) = w_logger w
     \<and> w_lowPowerStatus (host_run es w) = w_lowPowerStatus w
     \<and> w_getThermalState (host_run es w) = w_getThermalState w"
proof (induction es arbitrary: w)
  case Nil
  then show ?case by simp
next
  case (Cons e es)
  from host_step_destroyed [OF Cons.prems, of e] Cons.IH [of "host_step e w"]
  show ?case by auto
qed

text \<open>
  C8. The scheduler is a machine with the states Stopped and Running, Stopped at first
  (no worker, no pending callback). \<open>start\<close> while Running changes nothing; \<open>start\<close> from
  Stopped sets \<open>running\<close>, clears the suppressed-error flag and spawns one worker; whatever
  the calls of \<open>start\<close> and \<open>stop\<close> and the turns of the worker, no run ends in
  \<^verbatim>\<open>std::terminate\<close> and there is one live worker while Running and none while Stopped.
  \<open>stop\<close> clears \<open>running\<close>, and after it, until the next \<open>start\<close>, no turn of the worker
  polls: the count of polls, the log and the snapshot stay as they are. In the cooperative
  model a null self-reference and a cleared flag make \<open>TelemetryPump\<close> do nothing (no
  refresh, no new callback), at most one callback is pending at any time, and after the
  destructor no refresh happens any more.
\<close>

theorem telemetry_scheduler_state_machine:
  "running vulkan_initial = False \<and> live_workers vulkan_initial = 0
   \<and> telemetryActive webgpu_initial = False \<and> pending_callbacks webgpu_initial = 0
   \<and> (running s \<longrightarrow> startTelemetryPolling s = Some s)
   \<and> (\<not> running s \<and> \<not> worker_joinable s \<longrightarrow>
        startTelemetryPolling s =
          Some (s\<lparr>running := True, providerErrorLogged := False,
                  worker_joinable := True, live_workers := live_workers s + 1\<rparr>))
   \<and> (\<exists>s'. scheduler_run nv es vulkan_initial = Some s'
           \<and> live_workers s' = (if running s' then 1 else 0))
   \<and> running (stopTelemetryPolling s) = False
   \<and> (Start \<notin> set es' \<and> scheduler_run nv es' (stopTelemetryPolling s) = Some s2 \<longrightarrow>
        \<not> running s2 \<and> worker_polls s2 = worker_polls s \<and> logger s2 = logger s
        \<and> lowPowerStatus s2 = lowPowerStatus s \<and> getThermalState s2 = getThermalState s)
   \<and> TelemetryPump h None = None
   \<and> (\<not> telemetryActive w \<longrightarrow> TelemetryPump h (Some w) = Some w)
   \<and> pending_callbacks (host_run hes (WebGPU_constructor webgpu_initial)) \<le> 1
   \<and> refreshes (host_run hes (WebGPU_destructor w)) = refreshes w"
proof (intro conjI)
  show "running vulkan_initial = False" "live_workers vulkan_initial = 0"
    by (simp_all add: vulkan_initial_def)
  show "telemetryActive webgpu_initial = False" "pending_callbacks webgpu_initial = 0"
    by (simp_all add: webgpu_initial_def)
  show "running s \<longrightarrow> startTelemetryPolling s = Some s"
    by (simp add: start_noop)
  show "\<not> running s \<and> \<not> worker_joinable s \<longrightarrow>
        startTelemetryPolling s =
          Some (s\<lparr>running := True, providerErrorLogged := False,
                  worker_joinable := True, live_workers := live_workers s + 1\<rparr>)"
    using start_from_stopped [of s] by blast
  show "\<exists>s'. scheduler_run nv es vulkan_initial = Some s'
           \<and> live_workers s' = (if running s' then 1 else 0)"
    using scheduler_run_one_worker [OF one_worker_initial, of nv es]
    unfolding one_worker_def by blast
  show "running (stopTelemetryPolling s) = False"
    by (rule stop_clears)
  show "Start \<notin> set es' \<and> scheduler_run nv es' (stopTelemetryPolling s) = Some s2 \<longrightarrow>
        \<not> running s2 \<and> worker_polls s2 = worker_polls s \<and> logger s2 = logger s
        \<and> lowPowerStatus s2 = lowPowerStatus s \<and> getThermalState s2 = getThermalState s"
  proof
    assume a: "Start \<notin> set es' \<and> scheduler_run nv es' (stopTelemetryPolling s) = Some s2"
    have "\<not> running (stopTelemetryPolling s)" by (simp add: stop_clears)
    from stopped_run_no_poll [OF this, of es' nv s2] a stop_frame [of s]
    show "\<not> running s2 \<and> worker_polls s2 = worker_polls s \<and> logger s2 = logger s
        \<and> lowPowerStatus s2 = lowPowerStatus s \<and> getThermalState s2 = getThermalState s"
      by simp
  qed
  show "TelemetryPump h None = None"
    by (rule TelemetryPump_null)
  show "\<not> telemetryActive w \<longrightarrow> TelemetryPump h (Some w) = Some w"
    by (simp add: TelemetryPump_inactive)
  show "pending_callbacks (host_run hes (WebGPU_constructor webgpu_initial)) \<le> 1"
  proof (rule host_run_pending)
    have "pending_callbacks webgpu_initial = 0" by (simp add: webgpu_initial_def)
    from WebGPU_constructor_pending [OF this]
    show "pending_callbacks (WebGPU_constructor webgpu_initial) \<le> 1" by simp
  qed
  show "refreshes (host_run hes (WebGPU_destructor w)) = refreshes w"
  proof -
    have "\<not> telemetryActive (WebGPU_destructor w)" by (simp add: WebGPU_destructor_def)
    from host_run_destroyed [OF this, of hes]
    show ?thesis by (simp add: WebGPU_destructor_def)
  qed
qed

text \<open>
  A handle that is polling and one that is stopped; a run that starts twice, stops and
  lets the worker take turns; and a browser handle whose callbacks fire before and after
  its destruction.
\<close>

theorem telemetry_scheduler_state_machine_witness:
  "running nvml_polling
   \<and> startTelemetryPolling nvml_polling = Some nvml_polling
   \<and> \<not> running nvml_committed \<and> \<not> worker_joinable nvml_committed
   \<and> map_option running (startTelemetryPolling nvml_committed) = Some True
   \<and> map_option live_workers (startTelemetryPolling nvml_committed) = Some 1
   \<and> map_option live_workers
        (scheduler_run True [Start, Worker all_answer, Start, Stop, Worker all_answer] vulkan_initial)
       = Some 0
   \<and> Start \<notin> set [Worker all_answer, Stop, Worker all_answer]
   \<and> map_option worker_polls
        (scheduler_run True [Worker all_answer, Stop, Worker all_answer] (stopTelemetryPolling nvml_polling))
       = Some 0
   \<and> \<not> telemetryActive (WebGPU_destructor (WebGPU_constructor webgpu_initial))
   \<and> TelemetryPump nothing_exposed (Some (WebGPU_destructor (WebGPU_constructor webgpu_initial)))
       = Some (WebGPU_destructor (WebGPU_constructor webgpu_initial))
   \<and> pending_callbacks (host_run [Fire hints_exposed, Fire hints_exposed, Destroy, Fire hints_exposed]
        (WebGPU_constructor webgpu_initial)) \<le> 1"
proof -
  have r: "running nvml_polling" by (simp add: nvml_polling_def)
  have c: "\<not> running nvml_committed" "\<not> worker_joinable nvml_committed"
    "live_workers nvml_committed = 0"
    by (simp_all add: nvml_committed_def)
  have n: "Start \<notin> set [Worker all_answer, Stop, Worker all_answer]" by simp
  have p0: "worker_polls nvml_polling = 0" by (simp add: nvml_polling_def)
  have d: "\<not> telemetryActive (WebGPU_destructor (WebGPU_constructor webgpu_initial))"
    by (simp add: WebGPU_destructor_def)
  have a1: "startTelemetryPolling nvml_polling = Some nvml_polling"
    using telemetry_scheduler_state_machine [of nvml_polling] r by blast
  have a2: "startTelemetryPolling nvml_committed =
          Some (nvml_committed\<lparr>running := True, providerErrorLogged := False,
                  worker_joinable := True, live_workers := live_workers nvml_committed + 1\<rparr>)"
    using telemetry_scheduler_state_machine [of nvml_committed] c by blast
  obtain s' where s': "scheduler_run True [Start, Worker all_answer, Start, Stop, Worker all_answer]
             vulkan_initial = Some s'" "live_workers s' = (if running s' then 1 else 0)"
    using telemetry_scheduler_state_machine
            [of _ True "[Start, Worker all_answer, Start, Stop, Worker all_answer]"]
    by blast
  have "running s' = False"
    using s'(1)
    by (auto simp add: startTelemetryPolling_def stopTelemetryPolling_def worker_iteration_def
        vulkan_initial_def pollTelemetry_frame Let_def)
  with s' have a3: "map_option live_workers
        (scheduler_run True [Start, Worker all_answer, Start, Stop, Worker all_answer] vulkan_initial)
       = Some 0" by simp
  obtain s2 where s2: "scheduler_run True [Worker all_answer, Stop, Worker all_answer]
           (stopTelemetryPolling nvml_polling) = Some s2"
    by simp
  from telemetry_scheduler_state_machine
         [of nvml_polling True _ "[Worker all_answer, Stop, Worker all_answer]" s2] n s2
  have "worker_polls s2 = worker_polls nvml_polling" by blast
  with s2 p0 have a4: "map_option worker_polls
        (scheduler_run True [Worker all_answer, Stop, Worker all_answer] (stopTelemetryPolling nvml_polling))
       = Some 0" by simp
  have a5: "TelemetryPump nothing_exposed (Some (WebGPU_destructor (WebGPU_constructor webgpu_initial)))
       = Some (WebGPU_destructor (WebGPU_constructor webgpu_initial))"
    using telemetry_scheduler_state_machine
            [of _ _ _ _ _ nothing_exposed "WebGPU_destructor (WebGPU_constructor webgpu_initial)"] d
    by blast
  have a6: "pending_callbacks (host_run [Fire hints_exposed, Fire hints_exposed, Destroy, Fire hints_exposed]
        (WebGPU_constructor webgpu_initial)) \<le> 1"
    using telemetry_scheduler_state_machine
            [of _ _ _ _ _ _ _ "[Fire hints_exposed, Fire hints_exposed, Destroy, Fire hints_exposed]"]
    by blast
  from r c n d a1 a2 a3 a4 a5 a6 show ?thesis by simp
qed


section \<open>Negotiating the instance capabilities\<close>

lemma check_support_loop_eq:
  "check_support_loop available extensions acc = acc \<union> (set available \<inter> extensions)"
  by (induction available arbitrary: acc) auto

lemma checkInstanceExtensionSupport_eq:
  "checkInstanceExtensionSupport ld extensions =
     set (vkEnumerateInstanceExtensionProperties ld) \<inter> extensions"
  by (simp add: checkInstanceExtensionSupport_def check_support_loop_eq)

lemma checkValidationLayerSupport_eq:
  "checkValidationLayerSupport ld layers = set (vkEnumerateInstanceLayerProperties ld) \<inter> layers"
  by (simp add: checkValidationLayerSupport_def check_support_loop_eq)

lemma warn_unsupported_optional_count:
  "count_list (warn_unsupported_optional xs supported) (LOG_WARN, OptionalInstanceExtensionNotSupported e)
     = (if e \<notin> supported then count_list xs e else 0)"
  by (induction xs) auto

lemma warn_unsupported_optional_levels:
  "\<forall>entry \<in> set (warn_unsupported_optional xs supported). fst entry = LOG_WARN"
  by (induction xs) auto

lemma count_list_distinct: "distinct xs \<Longrightarrow> count_list xs e = (if e \<in> set xs then 1 else 0)"
  by (induction xs) auto

lemma count_sorted_list_of_set:
  "finite A \<Longrightarrow> count_list (sorted_list_of_set A) e = (if e \<in> A then 1 else 0)"
  by (simp add: count_list_distinct)

lemma gather_throws:
  assumes "\<not> req \<subseteq> supported_instance_extensions st \<union> set (vkEnumerateInstanceExtensionProperties ld)"
  shows "\<exists>st'. gather_instance_extensions req opt ld st = (Threw Result_FATAL, st')
           \<and> vk_instance st' = vk_instance st
           \<and> stage_log st' = stage_log st @
               [(LOG_DEBUG, RequiredInstanceExtensions (sorted_list_of_set req)),
                (LOG_DEBUG, OptionalInstanceExtensions (sorted_list_of_set opt)),
                (LOG_FATAL, RequiredInstanceExtensionsNotSupported
                   (sorted_list_of_set (req - (supported_instance_extensions st
                       \<union> set (vkEnumerateInstanceExtensionProperties ld)))))]"
proof -
  have eq: "{extension \<in> req. extension \<notin> supported_instance_extensions st
              \<and> (extension \<in> set (vkEnumerateInstanceExtensionProperties ld) \<longrightarrow> extension \<notin> req)}
        = req - (supported_instance_extensions st \<union> set (vkEnumerateInstanceExtensionProperties ld))"
    by auto
  from assms have ne: "req - (supported_instance_extensions st
       \<union> set (vkEnumerateInstanceExtensionProperties ld)) \<noteq> {}" by auto
  show ?thesis
    by (simp add: gather_instance_extensions_def Let_def checkInstanceExtensionSupport_eq eq ne)
       (use assms in blast)
qed

lemma gather_completes:
  assumes "req \<subseteq> supported_instance_extensions st \<union> set (vkEnumerateInstanceExtensionProperties ld)"
  shows "\<exists>st'. gather_instance_extensions req opt ld st = (Completed, st')
           \<and> vk_instance st' = vk_instance st
           \<and> stage_config st' = stage_config st
           \<and> supported_instance_extensions st' =
               supported_instance_extensions st
               \<union> (set (vkEnumerateInstanceExtensionProperties ld) \<inter> (req \<union> opt))
           \<and> instanceExtensions st' = instanceExtensions st @
               sorted_list_of_set (supported_instance_extensions st
                 \<union> (set (vkEnumerateInstanceExtensionProperties ld) \<inter> (req \<union> opt)))
           \<and> stage_log st' = stage_log st @
               [(LOG_DEBUG, RequiredInstanceExtensions (sorted_list_of_set req)),
                (LOG_DEBUG, OptionalInstanceExtensions (sorted_list_of_set opt))]
               @ warn_unsupported_optional (sorted_list_of_set opt)
                   (supported_instance_extensions st
                     \<union> (set (vkEnumerateInstanceExtensionProperties ld) \<inter> (req \<union> opt)))"
proof -
  have eq: "{extension \<in> req. extension \<notin> supported_instance_extensions st
              \<and> (extension \<in> set (vkEnumerateInstanceExtensionProperties ld) \<longrightarrow> extension \<notin> req)}
        = req - (supported_instance_extensions st \<union> set (vkEnumerateInstanceExtensionProperties ld))"
    by auto
  from assms have e: "req - (supported_instance_extensions st
       \<union> set (vkEnumerateInstanceExtensionProperties ld)) = {}" by auto
  have u: "supported_instance_extensions st \<union> set (vkEnumerateInstanceExtensionProperties ld) \<inter> req
             \<union> set (vkEnumerateInstanceExtensionProperties ld) \<inter> opt
         = supported_instance_extensions st
               \<union> (set (vkEnumerateInstanceExtensionProperties ld) \<inter> (req \<union> opt))"
    by auto
  show ?thesis
    by (simp add: gather_instance_extensions_def Let_def checkInstanceExtensionSupport_eq eq e u)
       (use assms in blast)
qed

lemma run_blocks_throw:
  "b s = (Threw t, s') \<Longrightarrow> run_blocks (b # bs) s = (Threw t, s')"
  by simp

lemma run_blocks_continue:
  "b s = (Completed, s') \<Longrightarrow> run_blocks (b # bs) s = run_blocks bs s'"
  by simp

lemma gather_validation_layers_downgrades:
  assumes "validationEnabled (stage_config st)"
    and "''VK_LAYER_KHRONOS_validation'' \<notin> set (vkEnumerateInstanceLayerProperties ld)"
  shows "gather_validation_layers ld st =
           (Completed,
            st\<lparr>stage_log := stage_log st @ [(LOG_WARN, CouldntFindValidationLayers)],
               stage_config := (stage_config st)\<lparr>validationEnabled := False\<rparr>\<rparr>)"
proof -
  from assms(2) have "set (vkEnumerateInstanceLayerProperties ld) \<inter> {''VK_LAYER_KHRONOS_validation''} = {}"
    by simp
  with assms(1) show ?thesis
    by (simp add: gather_validation_layers_def Let_def checkValidationLayerSupport_eq
        getRequiredValidationLayers_def)
qed

lemma gather_validation_layers_completes:
  "fst (gather_validation_layers ld st) = Completed"
  by (simp add: gather_validation_layers_def Let_def)

lemma setup_validation_skipped:
  "\<not> validationEnabled (stage_config st) \<Longrightarrow> setup_validation ld st = (Completed, st)"
  by (simp add: setup_validation_def)

lemma warn_unsupported_optional_length:
  "length (filter (\<lambda>entry. fst entry = LOG_WARN) (warn_unsupported_optional xs supported))
     = length (filter (\<lambda>e. e \<notin> supported) xs)"
  by (induction xs) auto

lemma warn_unsupported_optional_card:
  assumes "finite opt"
  shows "length (filter (\<lambda>entry. fst entry = LOG_WARN)
            (warn_unsupported_optional (sorted_list_of_set opt) supported)) = card (opt - supported)"
proof -
  have "length (filter (\<lambda>e. e \<notin> supported) (sorted_list_of_set opt))
          = card ({e. e \<notin> supported} \<inter> set (sorted_list_of_set opt))"
    by (rule distinct_length_filter) simp
  also have "{e. e \<notin> supported} \<inter> set (sorted_list_of_set opt) = opt - supported"
    using assms by auto
  finally show ?thesis by (simp add: warn_unsupported_optional_length)
qed

text \<open>
  C3. For every finite set of required and of optional instance extensions, from the
  state in which the constructor's body begins: if a required extension is not among
  the available ones, the instance stage throws \<^verbatim>\<open>Result::FATAL\<close> in the negotiation,
  after logging the missing ones at level fatal, and the instance handle is still null
  (\<^verbatim>\<open>vkCreateInstance\<close> is not reached); if all required ones are available, the
  negotiation completes and the constructor goes on with the next blocks, the supported
  set is what is available of the required and optional ones, every optional extension
  that is not available is warned about exactly once and the others never, the number of
  warnings is the number of unavailable optional extensions, and nothing is logged at
  level error or fatal.
\<close>

theorem instance_negotiation_required_and_optional:
  assumes "finite requiredExtensions" "finite optionalExtensions"
  shows
   "(\<not> requiredExtensions \<subseteq> set (vkEnumerateInstanceExtensionProperties ld) \<longrightarrow>
       (\<exists>st'. instance_stage_for requiredExtensions optionalExtensions plat ld
                 (instance_stage_initial cfg) = (Threw Result_FATAL, st')
             \<and> vk_instance st' = 0
             \<and> stage_log st' =
                 [(LOG_DEBUG, RequiredInstanceExtensions (sorted_list_of_set requiredExtensions)),
                  (LOG_DEBUG, OptionalInstanceExtensions (sorted_list_of_set optionalExtensions)),
                  (LOG_FATAL, RequiredInstanceExtensionsNotSupported
                     (sorted_list_of_set
                        (requiredExtensions - set (vkEnumerateInstanceExtensionProperties ld))))]))
    \<and> (requiredExtensions \<subseteq> set (vkEnumerateInstanceExtensionProperties ld) \<longrightarrow>
       (\<exists>st'. gather_instance_extensions requiredExtensions optionalExtensions ld
                 (instance_stage_initial cfg) = (Completed, st')
             \<and> instance_stage_for requiredExtensions optionalExtensions plat ld
                 (instance_stage_initial cfg) =
                 run_blocks [gather_validation_layers ld, create_application plat ld,
                             setup_validation ld] st'
             \<and> supported_instance_extensions st' =
                 set (vkEnumerateInstanceExtensionProperties ld)
                   \<inter> (requiredExtensions \<union> optionalExtensions)
             \<and> (\<forall>e \<in> optionalExtensions.
                   count_list (stage_log st') (LOG_WARN, OptionalInstanceExtensionNotSupported e) =
                     (if e \<in> set (vkEnumerateInstanceExtensionProperties ld) then 0 else 1))
             \<and> length (filter (\<lambda>entry. fst entry = LOG_WARN) (stage_log st')) =
                 card (optionalExtensions - set (vkEnumerateInstanceExtensionProperties ld))
             \<and> (\<forall>entry \<in> set (stage_log st'). fst entry \<noteq> LOG_FATAL \<and> fst entry \<noteq> LOG_ERROR)))"
proof (intro conjI impI)
  assume missing: "\<not> requiredExtensions \<subseteq> set (vkEnumerateInstanceExtensionProperties ld)"
  then have "\<not> requiredExtensions \<subseteq> supported_instance_extensions (instance_stage_initial cfg)
                 \<union> set (vkEnumerateInstanceExtensionProperties ld)"
    by (simp add: instance_stage_initial_def)
  from gather_throws [OF this, of optionalExtensions]
  obtain st' where g: "gather_instance_extensions requiredExtensions optionalExtensions ld
                         (instance_stage_initial cfg) = (Threw Result_FATAL, st')"
    and i: "vk_instance st' = vk_instance (instance_stage_initial cfg)"
    and l: "stage_log st' = stage_log (instance_stage_initial cfg) @
               [(LOG_DEBUG, RequiredInstanceExtensions (sorted_list_of_set requiredExtensions)),
                (LOG_DEBUG, OptionalInstanceExtensions (sorted_list_of_set optionalExtensions)),
                (LOG_FATAL, RequiredInstanceExtensionsNotSupported
                   (sorted_list_of_set (requiredExtensions
                      - (supported_instance_extensions (instance_stage_initial cfg)
                       \<union> set (vkEnumerateInstanceExtensionProperties ld)))))]"
    by blast
  from g have "instance_stage_for requiredExtensions optionalExtensions plat ld
                 (instance_stage_initial cfg) = (Threw Result_FATAL, st')"
    unfolding instance_stage_for_def by (rule run_blocks_throw)
  moreover from i have "vk_instance st' = 0" by (simp add: instance_stage_initial_def)
  moreover from l have "stage_log st' =
                 [(LOG_DEBUG, RequiredInstanceExtensions (sorted_list_of_set requiredExtensions)),
                  (LOG_DEBUG, OptionalInstanceExtensions (sorted_list_of_set optionalExtensions)),
                  (LOG_FATAL, RequiredInstanceExtensionsNotSupported
                     (sorted_list_of_set
                        (requiredExtensions - set (vkEnumerateInstanceExtensionProperties ld))))]"
    by (simp add: instance_stage_initial_def)
  ultimately show "\<exists>st'. instance_stage_for requiredExtensions optionalExtensions plat ld
                 (instance_stage_initial cfg) = (Threw Result_FATAL, st')
             \<and> vk_instance st' = 0
             \<and> stage_log st' =
                 [(LOG_DEBUG, RequiredInstanceExtensions (sorted_list_of_set requiredExtensions)),
                  (LOG_DEBUG, OptionalInstanceExtensions (sorted_list_of_set optionalExtensions)),
                  (LOG_FATAL, RequiredInstanceExtensionsNotSupported
                     (sorted_list_of_set
                        (requiredExtensions - set (vkEnumerateInstanceExtensionProperties ld))))]"
    by blast
next
  let ?avail = "set (vkEnumerateInstanceExtensionProperties ld)"
  let ?supp = "?avail \<inter> (requiredExtensions \<union> optionalExtensions)"
  assume present: "requiredExtensions \<subseteq> ?avail"
  then have "requiredExtensions \<subseteq> supported_instance_extensions (instance_stage_initial cfg) \<union> ?avail"
    by (simp add: instance_stage_initial_def)
  from gather_completes [OF this, of optionalExtensions]
  obtain st' where g: "gather_instance_extensions requiredExtensions optionalExtensions ld
                         (instance_stage_initial cfg) = (Completed, st')"
    and s0: "supported_instance_extensions st' =
               supported_instance_extensions (instance_stage_initial cfg) \<union> ?supp"
    and l0: "stage_log st' = stage_log (instance_stage_initial cfg) @
               [(LOG_DEBUG, RequiredInstanceExtensions (sorted_list_of_set requiredExtensions)),
                (LOG_DEBUG, OptionalInstanceExtensions (sorted_list_of_set optionalExtensions))]
               @ warn_unsupported_optional (sorted_list_of_set optionalExtensions)
                   (supported_instance_extensions (instance_stage_initial cfg) \<union> ?supp)"
    by blast
  from s0 have s: "supported_instance_extensions st' = ?supp"
    by (simp add: instance_stage_initial_def)
  from l0 have l: "stage_log st' =
               [(LOG_DEBUG, RequiredInstanceExtensions (sorted_list_of_set requiredExtensions)),
                (LOG_DEBUG, OptionalInstanceExtensions (sorted_list_of_set optionalExtensions))]
               @ warn_unsupported_optional (sorted_list_of_set optionalExtensions) ?supp"
    by (simp add: instance_stage_initial_def)
  from g have r: "instance_stage_for requiredExtensions optionalExtensions plat ld
                 (instance_stage_initial cfg) =
                 run_blocks [gather_validation_layers ld, create_application plat ld,
                             setup_validation ld] st'"
    unfolding instance_stage_for_def by (rule run_blocks_continue)
  have c: "\<forall>e \<in> optionalExtensions.
                   count_list (stage_log st') (LOG_WARN, OptionalInstanceExtensionNotSupported e) =
                     (if e \<in> ?avail then 0 else 1)"
    using assms(2)
    by (auto simp add: l warn_unsupported_optional_count count_sorted_list_of_set)
  have "optionalExtensions - ?supp = optionalExtensions - ?avail" by auto
  then have n: "length (filter (\<lambda>entry. fst entry = LOG_WARN) (stage_log st')) =
                 card (optionalExtensions - ?avail)"
    using assms(2) by (simp add: l warn_unsupported_optional_card)
  have f: "\<forall>entry \<in> set (stage_log st'). fst entry \<noteq> LOG_FATAL \<and> fst entry \<noteq> LOG_ERROR"
    using warn_unsupported_optional_levels [of "sorted_list_of_set optionalExtensions" ?supp]
    by (auto simp add: l)
  from g r s c n f
  show "\<exists>st'. gather_instance_extensions requiredExtensions optionalExtensions ld
                 (instance_stage_initial cfg) = (Completed, st')
             \<and> instance_stage_for requiredExtensions optionalExtensions plat ld
                 (instance_stage_initial cfg) =
                 run_blocks [gather_validation_layers ld, create_application plat ld,
                             setup_validation ld] st'
             \<and> supported_instance_extensions st' = ?supp
             \<and> (\<forall>e \<in> optionalExtensions.
                   count_list (stage_log st') (LOG_WARN, OptionalInstanceExtensionNotSupported e) =
                     (if e \<in> ?avail then 0 else 1))
             \<and> length (filter (\<lambda>entry. fst entry = LOG_WARN) (stage_log st')) =
                 card (optionalExtensions - ?avail)
             \<and> (\<forall>entry \<in> set (stage_log st'). fst entry \<noteq> LOG_FATAL \<and> fst entry \<noteq> LOG_ERROR)"
    by blast
qed

text \<open>
  The example of the specification: required A and B with only A available; and required
  A, optional B and C, with A and C available.
\<close>

theorem instance_negotiation_required_and_optional_witness:
  "finite {''A'', ''B''} \<and> finite ({} :: string set) \<and> finite {''A''} \<and> finite {''B'', ''C''}
   \<and> \<not> {''A'', ''B''} \<subseteq> set (vkEnumerateInstanceExtensionProperties (loader_offering [''A''] []))
   \<and> fst (instance_stage_for {''A'', ''B''} {} plain_linux (loader_offering [''A''] [])
             (instance_stage_initial headless_validating)) = Threw Result_FATAL
   \<and> vk_instance (snd (instance_stage_for {''A'', ''B''} {} plain_linux (loader_offering [''A''] [])
             (instance_stage_initial headless_validating))) = 0
   \<and> {''A''} \<subseteq> set (vkEnumerateInstanceExtensionProperties (loader_offering [''A'', ''C''] []))
   \<and> ''B'' \<in> {''B'', ''C''} \<and> ''C'' \<in> {''B'', ''C''}
   \<and> fst (gather_instance_extensions {''A''} {''B'', ''C''} (loader_offering [''A'', ''C''] [])
             (instance_stage_initial headless_validating)) = Completed
   \<and> count_list
        (stage_log (snd (gather_instance_extensions {''A''} {''B'', ''C''}
                           (loader_offering [''A'', ''C''] [])
                           (instance_stage_initial headless_validating))))
        (LOG_WARN, OptionalInstanceExtensionNotSupported ''B'') = 1
   \<and> count_list
        (stage_log (snd (gather_instance_extensions {''A''} {''B'', ''C''}
                           (loader_offering [''A'', ''C''] [])
                           (instance_stage_initial headless_validating))))
        (LOG_WARN, OptionalInstanceExtensionNotSupported ''C'') = 0"
proof -
  have f: "finite {''A'', ''B''}" "finite ({} :: string set)" "finite {''A''}" "finite {''B'', ''C''}"
    by simp_all
  have m: "\<not> {''A'', ''B''} \<subseteq> set (vkEnumerateInstanceExtensionProperties (loader_offering [''A''] []))"
    by (simp add: loader_offering_def)
  have p: "{''A''} \<subseteq> set (vkEnumerateInstanceExtensionProperties (loader_offering [''A'', ''C''] []))"
    by (simp add: loader_offering_def)
  have a: "''B'' \<notin> set (vkEnumerateInstanceExtensionProperties (loader_offering [''A'', ''C''] []))"
    "''C'' \<in> set (vkEnumerateInstanceExtensionProperties (loader_offering [''A'', ''C''] []))"
    by (simp_all add: loader_offering_def)
  have o: "''B'' \<in> {''B'', ''C''}" "''C'' \<in> {''B'', ''C''}" by simp_all
  from instance_negotiation_required_and_optional
         [OF f(1) f(2), of "loader_offering [''A''] []" plain_linux headless_validating] m
  obtain st' where t: "instance_stage_for {''A'', ''B''} {} plain_linux (loader_offering [''A''] [])
             (instance_stage_initial headless_validating) = (Threw Result_FATAL, st')"
    "vk_instance st' = 0"
    by blast
  from instance_negotiation_required_and_optional
         [OF f(3) f(4), of "loader_offering [''A'', ''C''] []" plain_linux headless_validating] p
  obtain st2 where c: "gather_instance_extensions {''A''} {''B'', ''C''}
             (loader_offering [''A'', ''C''] []) (instance_stage_initial headless_validating)
             = (Completed, st2)"
    and w: "\<forall>e \<in> {''B'', ''C''}.
                   count_list (stage_log st2) (LOG_WARN, OptionalInstanceExtensionNotSupported e) =
                     (if e \<in> set (vkEnumerateInstanceExtensionProperties
                                    (loader_offering [''A'', ''C''] [])) then 0 else 1)"
    by blast
  from w o a have
    "count_list (stage_log st2) (LOG_WARN, OptionalInstanceExtensionNotSupported ''B'') = 1"
    "count_list (stage_log st2) (LOG_WARN, OptionalInstanceExtensionNotSupported ''C'') = 0"
    by simp_all
  with f m p o t c show ?thesis by simp
qed


section \<open>Validation layers that are not installed\<close>

lemma warn_unsupported_optional_other:
  "count_list (warn_unsupported_optional xs supported) (LOG_WARN, CouldntFindValidationLayers) = 0"
  by (induction xs) auto

lemma create_application_no_layers:
  assumes "\<not> validationEnabled (stage_config st)"
    and "vkCreateInstance ld (instanceExtensions st) [] = (VK_SUCCESS, h)"
  shows "\<exists>st'. create_application plat ld st = (Completed, st')
           \<and> stage_config st' = stage_config st \<and> vk_instance st' = h
           \<and> debugReportCallback st' = debugReportCallback st
           \<and> validationLayers st' = validationLayers st
           \<and> count_list (stage_log st') (LOG_WARN, CouldntFindValidationLayers)
               = count_list (stage_log st) (LOG_WARN, CouldntFindValidationLayers)"
  using assms by (simp add: create_application_def Let_def)

lemma instance_stage_downgrades:
  assumes enabled: "validationEnabled cfg"
    and nolayer: "''VK_LAYER_KHRONOS_validation'' \<notin> set (vkEnumerateInstanceLayerProperties ld)"
    and req: "getRequiredInstanceExtensions plat cfg \<subseteq> set (vkEnumerateInstanceExtensionProperties ld)"
    and create: "fst (vkCreateInstance ld
             (sorted_list_of_set (set (vkEnumerateInstanceExtensionProperties ld)
                \<inter> (getRequiredInstanceExtensions plat cfg \<union> getOptionalInstanceExtensions plat)))
             []) = VK_SUCCESS"
  shows "\<exists>st'. Vulkan_instance_stage plat ld cfg = (Completed, st')
           \<and> \<not> validationEnabled (stage_config st')
           \<and> count_list (stage_log st') (LOG_WARN, CouldntFindValidationLayers) = 1
           \<and> validationLayers st' = [] \<and> debugReportCallback st' = 0"
proof -
  let ?st0 = "instance_stage_initial cfg"
  let ?req = "getRequiredInstanceExtensions plat cfg"
  let ?opt = "getOptionalInstanceExtensions plat"
  from req have "?req \<subseteq> supported_instance_extensions ?st0 \<union> set (vkEnumerateInstanceExtensionProperties ld)"
    by blast
  from gather_completes [OF this, of ?opt]
  obtain st1 where g1: "gather_instance_extensions ?req ?opt ld ?st0 = (Completed, st1)"
    and c1: "stage_config st1 = stage_config ?st0"
    and i1: "instanceExtensions st1 = instanceExtensions ?st0 @
               sorted_list_of_set (supported_instance_extensions ?st0
                 \<union> (set (vkEnumerateInstanceExtensionProperties ld) \<inter> (?req \<union> ?opt)))"
    and l1: "stage_log st1 = stage_log ?st0 @
               [(LOG_DEBUG, RequiredInstanceExtensions (sorted_list_of_set ?req)),
                (LOG_DEBUG, OptionalInstanceExtensions (sorted_list_of_set ?opt))]
               @ warn_unsupported_optional (sorted_list_of_set ?opt)
                   (supported_instance_extensions ?st0
                     \<union> (set (vkEnumerateInstanceExtensionProperties ld) \<inter> (?req \<union> ?opt)))"
    by blast
  have d1: "debugReportCallback st1 = 0" "validationLayers st1 = []"
    using g1 by (auto simp add: gather_instance_extensions_def Let_def instance_stage_initial_def
        split: if_splits)
  from c1 enabled have e1: "validationEnabled (stage_config st1)"
    by (simp add: instance_stage_initial_def)
  define st2 where "st2 = st1\<lparr>stage_log := stage_log st1 @ [(LOG_WARN, CouldntFindValidationLayers)],
               stage_config := (stage_config st1)\<lparr>validationEnabled := False\<rparr>\<rparr>"
  from gather_validation_layers_downgrades [OF e1 nolayer]
  have g2: "gather_validation_layers ld st1 = (Completed, st2)" by (simp add: st2_def)
  have e2: "\<not> validationEnabled (stage_config st2)" by (simp add: st2_def)
  have n2: "count_list (stage_log st2) (LOG_WARN, CouldntFindValidationLayers) = 1"
    by (simp add: st2_def l1 instance_stage_initial_def warn_unsupported_optional_other)
  have i2: "instanceExtensions st2 =
      sorted_list_of_set (set (vkEnumerateInstanceExtensionProperties ld) \<inter> (?req \<union> ?opt))"
    by (simp add: st2_def i1 instance_stage_initial_def)
  from create have "fst (vkCreateInstance ld (instanceExtensions st2) []) = VK_SUCCESS"
    unfolding i2 .
  then obtain h where h: "vkCreateInstance ld (instanceExtensions st2) [] = (VK_SUCCESS, h)"
    by (metis prod.collapse)
  from create_application_no_layers [OF e2 h, of plat]
  obtain st3 where g3: "create_application plat ld st2 = (Completed, st3)"
    and c3: "stage_config st3 = stage_config st2"
    and d3: "debugReportCallback st3 = debugReportCallback st2"
    and v3: "validationLayers st3 = validationLayers st2"
    and n3: "count_list (stage_log st3) (LOG_WARN, CouldntFindValidationLayers)
               = count_list (stage_log st2) (LOG_WARN, CouldntFindValidationLayers)"
    by blast
  from c3 e2 have e3: "\<not> validationEnabled (stage_config st3)" by simp
  then have g4: "setup_validation ld st3 = (Completed, st3)" by (rule setup_validation_skipped)
  have "Vulkan_instance_stage plat ld cfg = (Completed, st3)"
    by (simp add: Vulkan_instance_stage_def instance_stage_for_def g1 g2 g3 g4)
  moreover have "count_list (stage_log st3) (LOG_WARN, CouldntFindValidationLayers) = 1"
    using n3 n2 by simp
  moreover have "validationLayers st3 = []" "debugReportCallback st3 = 0"
    using v3 d3 d1 by (simp_all add: st2_def)
  ultimately show ?thesis using e3 by blast
qed

lemma gather_throws_frame:
  assumes "gather_instance_extensions req opt ld st = (Threw t, st')"
  shows "stage_config st' = stage_config st \<and> validationLayers st' = validationLayers st
         \<and> debugReportCallback st' = debugReportCallback st"
  using assms by (auto simp add: gather_instance_extensions_def Let_def split: if_splits)

text \<open>
  The request for validation makes \<^verbatim>\<open>VK_EXT_debug_report\<close> a required instance
  extension (lines 62-64): where the loader does not offer it, lines 189-192 end the
  construction before the layers are looked at.
\<close>

lemma instance_stage_debug_report_missing:
  assumes enabled: "validationEnabled cfg"
    and missing: "''VK_EXT_debug_report'' \<notin> set (vkEnumerateInstanceExtensionProperties ld)"
  shows "\<exists>st'. Vulkan_instance_stage plat ld cfg = (Threw Result_FATAL, st')
           \<and> stage_config st' = cfg \<and> vk_instance st' = 0
           \<and> validationLayers st' = [] \<and> debugReportCallback st' = 0
           \<and> stage_log st' =
               [(LOG_DEBUG, RequiredInstanceExtensions
                   (sorted_list_of_set (getRequiredInstanceExtensions plat cfg))),
                (LOG_DEBUG, OptionalInstanceExtensions
                   (sorted_list_of_set (getOptionalInstanceExtensions plat))),
                (LOG_FATAL, RequiredInstanceExtensionsNotSupported
                   (sorted_list_of_set (getRequiredInstanceExtensions plat cfg
                      - set (vkEnumerateInstanceExtensionProperties ld))))]"
proof -
  let ?st0 = "instance_stage_initial cfg"
  let ?req = "getRequiredInstanceExtensions plat cfg"
  let ?opt = "getOptionalInstanceExtensions plat"
  from enabled have "''VK_EXT_debug_report'' \<in> ?req"
    by (simp add: getRequiredInstanceExtensions_def)
  with missing
  have "\<not> ?req \<subseteq> supported_instance_extensions ?st0 \<union> set (vkEnumerateInstanceExtensionProperties ld)"
    by (auto simp add: instance_stage_initial_def)
  from gather_throws [OF this, of ?opt]
  obtain st' where g: "gather_instance_extensions ?req ?opt ld ?st0 = (Threw Result_FATAL, st')"
    and v: "vk_instance st' = vk_instance ?st0"
    and l: "stage_log st' = stage_log ?st0 @
               [(LOG_DEBUG, RequiredInstanceExtensions (sorted_list_of_set ?req)),
                (LOG_DEBUG, OptionalInstanceExtensions (sorted_list_of_set ?opt)),
                (LOG_FATAL, RequiredInstanceExtensionsNotSupported
                   (sorted_list_of_set (?req - (supported_instance_extensions ?st0
                       \<union> set (vkEnumerateInstanceExtensionProperties ld)))))]"
    by blast
  note f = gather_throws_frame [OF g]
  have "Vulkan_instance_stage plat ld cfg = (Threw Result_FATAL, st')"
    by (simp add: Vulkan_instance_stage_def instance_stage_for_def g)
  moreover have "stage_config st' = cfg" "vk_instance st' = 0"
    "validationLayers st' = []" "debugReportCallback st' = 0"
    using f v by (simp_all add: instance_stage_initial_def)
  moreover have "stage_log st' =
               [(LOG_DEBUG, RequiredInstanceExtensions (sorted_list_of_set ?req)),
                (LOG_DEBUG, OptionalInstanceExtensions (sorted_list_of_set ?opt)),
                (LOG_FATAL, RequiredInstanceExtensionsNotSupported
                   (sorted_list_of_set (?req - set (vkEnumerateInstanceExtensionProperties ld))))]"
    using l by (simp add: instance_stage_initial_def)
  ultimately show ?thesis by blast
qed

text \<open>
  C5 as stated fails twice. With validation requested and no validation layer installed,
  the constructor does go on, but not silently: it logs the warning "Couldn't find
  validation layers. Disabling Vulkan debug." And the request itself makes
  \<^verbatim>\<open>VK_EXT_debug_report\<close> a required instance extension: where that is missing too, the
  construction fails with \<^verbatim>\<open>Result::FATAL\<close> before the layers are looked at.
\<close>

theorem validation_unavailable_counterexample:
  "validationEnabled headless_validating
   \<and> ''VK_LAYER_KHRONOS_validation''
        \<notin> set (vkEnumerateInstanceLayerProperties
                 (loader_offering [''VK_KHR_surface'', ''VK_EXT_debug_report''] []))
   \<and> Vulkan_instance_stage plain_linux
        (loader_offering [''VK_KHR_surface'', ''VK_EXT_debug_report''] []) headless_validating =
       (Completed,
        \<lparr>stage_config = headless_validating\<lparr>validationEnabled := False\<rparr>,
         supported_instance_extensions = {''VK_EXT_debug_report''},
         instanceExtensions = [''VK_EXT_debug_report''],
         validationLayers = [], vk_instance = 1, debugReportCallback = 0,
         stage_log = [(LOG_DEBUG, RequiredInstanceExtensions [''VK_EXT_debug_report'']),
                      (LOG_DEBUG, OptionalInstanceExtensions []),
                      (LOG_WARN, CouldntFindValidationLayers)]\<rparr>)
   \<and> ''VK_LAYER_KHRONOS_validation''
        \<notin> set (vkEnumerateInstanceLayerProperties (loader_offering [''VK_KHR_surface''] []))
   \<and> fst (Vulkan_instance_stage plain_linux (loader_offering [''VK_KHR_surface''] [])
             headless_validating) = Threw Result_FATAL"
  by (simp add: Vulkan_instance_stage_def instance_stage_for_def instance_stage_initial_def
      getRequiredInstanceExtensions_def getOptionalInstanceExtensions_def
      headless_validating_def plain_linux_def loader_offering_def always_creates_def
      gather_instance_extensions_def gather_validation_layers_def create_application_def
      setup_validation_def checkInstanceExtensionSupport_eq checkValidationLayerSupport_eq
      getRequiredValidationLayers_def Let_def)

text \<open>
  C5, amended. With validation requested and the validation layer not installed, the
  layer step does not fail: it logs one warning and clears \<open>validationEnabled\<close>. The layer
  step never throws, and with \<open>validationEnabled\<close> cleared the debug-report step does
  nothing. If moreover the required instance extensions (among them
  \<^verbatim>\<open>VK_EXT_debug_report\<close>, which the request adds) are available and
  \<^verbatim>\<open>vkCreateInstance\<close> succeeds on the negotiated extensions with no layer, the whole
  instance stage completes, with \<open>validationEnabled\<close> cleared, that warning logged once,
  no layer enabled and no debug callback registered. If validation is requested and the
  loader does not offer \<^verbatim>\<open>VK_EXT_debug_report\<close>, the instance stage throws
  \<^verbatim>\<open>Result::FATAL\<close> in the negotiation, before the layers are examined: no instance is
  created, \<open>validationEnabled\<close> is still set, no layer is gathered, and the log is the two
  debug entries of the negotiation and the fatal entry that lists the missing required
  extensions, without the warning of the layer step.
\<close>

theorem validation_unavailable_downgrades_with_a_warning:
  "(validationEnabled (stage_config st)
      \<and> ''VK_LAYER_KHRONOS_validation'' \<notin> set (vkEnumerateInstanceLayerProperties ld) \<longrightarrow>
      gather_validation_layers ld st =
        (Completed,
         st\<lparr>stage_log := stage_log st @ [(LOG_WARN, CouldntFindValidationLayers)],
            stage_config := (stage_config st)\<lparr>validationEnabled := False\<rparr>\<rparr>))
   \<and> fst (gather_validation_layers ld st) = Completed
   \<and> (\<not> validationEnabled (stage_config st) \<longrightarrow> setup_validation ld st = (Completed, st))
   \<and> (validationEnabled cfg
      \<and> ''VK_LAYER_KHRONOS_validation'' \<notin> set (vkEnumerateInstanceLayerProperties ld)
      \<and> getRequiredInstanceExtensions plat cfg \<subseteq> set (vkEnumerateInstanceExtensionProperties ld)
      \<and> fst (vkCreateInstance ld
                  (sorted_list_of_set (set (vkEnumerateInstanceExtensionProperties ld)
                     \<inter> (getRequiredInstanceExtensions plat cfg \<union> getOptionalInstanceExtensions plat)))
                  []) = VK_SUCCESS
      \<longrightarrow> (\<exists>st'. Vulkan_instance_stage plat ld cfg = (Completed, st')
                \<and> \<not> validationEnabled (stage_config st')
                \<and> count_list (stage_log st') (LOG_WARN, CouldntFindValidationLayers) = 1
                \<and> validationLayers st' = [] \<and> debugReportCallback st' = 0))
   \<and> (validationEnabled cfg
      \<and> ''VK_EXT_debug_report'' \<notin> set (vkEnumerateInstanceExtensionProperties ld)
      \<longrightarrow> (\<exists>st'. Vulkan_instance_stage plat ld cfg = (Threw Result_FATAL, st')
                \<and> stage_config st' = cfg \<and> vk_instance st' = 0
                \<and> validationLayers st' = [] \<and> debugReportCallback st' = 0
                \<and> stage_log st' =
                    [(LOG_DEBUG, RequiredInstanceExtensions
                        (sorted_list_of_set (getRequiredInstanceExtensions plat cfg))),
                     (LOG_DEBUG, OptionalInstanceExtensions
                        (sorted_list_of_set (getOptionalInstanceExtensions plat))),
                     (LOG_FATAL, RequiredInstanceExtensionsNotSupported
                        (sorted_list_of_set (getRequiredInstanceExtensions plat cfg
                           - set (vkEnumerateInstanceExtensionProperties ld))))]))"
proof (intro conjI)
  show "validationEnabled (stage_config st)
      \<and> ''VK_LAYER_KHRONOS_validation'' \<notin> set (vkEnumerateInstanceLayerProperties ld) \<longrightarrow>
      gather_validation_layers ld st =
        (Completed,
         st\<lparr>stage_log := stage_log st @ [(LOG_WARN, CouldntFindValidationLayers)],
            stage_config := (stage_config st)\<lparr>validationEnabled := False\<rparr>\<rparr>)"
    using gather_validation_layers_downgrades [of st ld] by blast
  show "fst (gather_validation_layers ld st) = Completed"
    by (rule gather_validation_layers_completes)
  show "\<not> validationEnabled (stage_config st) \<longrightarrow> setup_validation ld st = (Completed, st)"
    using setup_validation_skipped [of st ld] by blast
  show "validationEnabled cfg
      \<and> ''VK_LAYER_KHRONOS_validation'' \<notin> set (vkEnumerateInstanceLayerProperties ld)
      \<and> getRequiredInstanceExtensions plat cfg \<subseteq> set (vkEnumerateInstanceExtensionProperties ld)
      \<and> fst (vkCreateInstance ld
                  (sorted_list_of_set (set (vkEnumerateInstanceExtensionProperties ld)
                     \<inter> (getRequiredInstanceExtensions plat cfg \<union> getOptionalInstanceExtensions plat)))
                  []) = VK_SUCCESS
      \<longrightarrow> (\<exists>st'. Vulkan_instance_stage plat ld cfg = (Completed, st')
                \<and> \<not> validationEnabled (stage_config st')
                \<and> count_list (stage_log st') (LOG_WARN, CouldntFindValidationLayers) = 1
                \<and> validationLayers st' = [] \<and> debugReportCallback st' = 0)"
    using instance_stage_downgrades [of cfg ld plat] by blast
  show "validationEnabled cfg
      \<and> ''VK_EXT_debug_report'' \<notin> set (vkEnumerateInstanceExtensionProperties ld)
      \<longrightarrow> (\<exists>st'. Vulkan_instance_stage plat ld cfg = (Threw Result_FATAL, st')
                \<and> stage_config st' = cfg \<and> vk_instance st' = 0
                \<and> validationLayers st' = [] \<and> debugReportCallback st' = 0
                \<and> stage_log st' =
                    [(LOG_DEBUG, RequiredInstanceExtensions
                        (sorted_list_of_set (getRequiredInstanceExtensions plat cfg))),
                     (LOG_DEBUG, OptionalInstanceExtensions
                        (sorted_list_of_set (getOptionalInstanceExtensions plat))),
                     (LOG_FATAL, RequiredInstanceExtensionsNotSupported
                        (sorted_list_of_set (getRequiredInstanceExtensions plat cfg
                           - set (vkEnumerateInstanceExtensionProperties ld))))])"
    using instance_stage_debug_report_missing [of cfg ld plat] by blast
qed

text \<open>
  The headless configuration that asks for validation, on a loader with the debug-report
  extension and no layer, and on a loader without the debug-report extension.
\<close>

theorem validation_unavailable_downgrades_with_a_warning_witness:
  "validationEnabled headless_validating
   \<and> validationEnabled (stage_config (instance_stage_initial headless_validating))
   \<and> ''VK_LAYER_KHRONOS_validation''
        \<notin> set (vkEnumerateInstanceLayerProperties
                 (loader_offering [''VK_KHR_surface'', ''VK_EXT_debug_report''] []))
   \<and> getRequiredInstanceExtensions plain_linux headless_validating
        \<subseteq> set (vkEnumerateInstanceExtensionProperties
                 (loader_offering [''VK_KHR_surface'', ''VK_EXT_debug_report''] []))
   \<and> stage_log (snd (gather_validation_layers
                       (loader_offering [''VK_KHR_surface'', ''VK_EXT_debug_report''] [])
                       (instance_stage_initial headless_validating)))
       = [(LOG_WARN, CouldntFindValidationLayers)]
   \<and> \<not> validationEnabled (stage_config (snd (gather_validation_layers
                       (loader_offering [''VK_KHR_surface'', ''VK_EXT_debug_report''] [])
                       (instance_stage_initial headless_validating))))
   \<and> fst (Vulkan_instance_stage plain_linux
             (loader_offering [''VK_KHR_surface'', ''VK_EXT_debug_report''] [])
             headless_validating) = Completed
   \<and> \<not> validationEnabled (stage_config (snd (Vulkan_instance_stage plain_linux
             (loader_offering [''VK_KHR_surface'', ''VK_EXT_debug_report''] [])
             headless_validating)))
   \<and> ''VK_EXT_debug_report''
        \<notin> set (vkEnumerateInstanceExtensionProperties (loader_offering [''VK_KHR_surface''] []))
   \<and> fst (Vulkan_instance_stage plain_linux (loader_offering [''VK_KHR_surface''] [])
             headless_validating) = Threw Result_FATAL
   \<and> vk_instance (snd (Vulkan_instance_stage plain_linux (loader_offering [''VK_KHR_surface''] [])
             headless_validating)) = 0
   \<and> validationEnabled (stage_config (snd (Vulkan_instance_stage plain_linux
             (loader_offering [''VK_KHR_surface''] []) headless_validating)))
   \<and> length (stage_log (snd (Vulkan_instance_stage plain_linux
             (loader_offering [''VK_KHR_surface''] []) headless_validating))) = 3"
proof -
  let ?ld = "loader_offering [''VK_KHR_surface'', ''VK_EXT_debug_report''] []"
  have e: "validationEnabled headless_validating"
    "validationEnabled (stage_config (instance_stage_initial headless_validating))"
    by (simp_all add: headless_validating_def instance_stage_initial_def)
  have n: "''VK_LAYER_KHRONOS_validation'' \<notin> set (vkEnumerateInstanceLayerProperties ?ld)"
    by (simp add: loader_offering_def)
  have r: "getRequiredInstanceExtensions plain_linux headless_validating
        \<subseteq> set (vkEnumerateInstanceExtensionProperties ?ld)"
    by (simp add: getRequiredInstanceExtensions_def headless_validating_def loader_offering_def)
  have c: "fst (vkCreateInstance ?ld
             (sorted_list_of_set (set (vkEnumerateInstanceExtensionProperties ?ld)
                \<inter> (getRequiredInstanceExtensions plain_linux headless_validating
                      \<union> getOptionalInstanceExtensions plain_linux)))
             []) = VK_SUCCESS"
    by (simp add: loader_offering_def always_creates_def)
  let ?bare = "loader_offering [''VK_KHR_surface''] []"
  have m: "''VK_EXT_debug_report'' \<notin> set (vkEnumerateInstanceExtensionProperties ?bare)"
    by (simp add: loader_offering_def)
  have l0: "stage_log (instance_stage_initial headless_validating) = []"
    by (simp add: instance_stage_initial_def)
  from validation_unavailable_downgrades_with_a_warning
         [of "instance_stage_initial headless_validating" ?ld] e n
  have g: "gather_validation_layers ?ld (instance_stage_initial headless_validating) =
        (Completed,
         (instance_stage_initial headless_validating)
           \<lparr>stage_log := stage_log (instance_stage_initial headless_validating)
                           @ [(LOG_WARN, CouldntFindValidationLayers)],
            stage_config := (stage_config (instance_stage_initial headless_validating))
                              \<lparr>validationEnabled := False\<rparr>\<rparr>)"
    by blast
  from validation_unavailable_downgrades_with_a_warning
         [where ld = ?ld and cfg = headless_validating and plat = plain_linux,
          THEN conjunct2, THEN conjunct2, THEN conjunct2, THEN conjunct1] e n r c
  obtain st' where s: "Vulkan_instance_stage plain_linux ?ld headless_validating = (Completed, st')"
    "\<not> validationEnabled (stage_config st')"
    by blast
  from validation_unavailable_downgrades_with_a_warning
         [where ld = ?bare and cfg = headless_validating and plat = plain_linux,
          THEN conjunct2, THEN conjunct2, THEN conjunct2, THEN conjunct2] e m
  obtain st'' where t: "Vulkan_instance_stage plain_linux ?bare headless_validating
        = (Threw Result_FATAL, st'')"
    "stage_config st'' = headless_validating" "vk_instance st'' = 0"
    "length (stage_log st'') = 3"
    by auto
  from e n r g l0 s m t show ?thesis by simp
qed


section \<open>Selecting the device\<close>

lemma card_inter_eq_iff:
  assumes "finite A"
  shows "(card A = card (B \<inter> A)) = (A \<subseteq> B)"
proof
  assume c: "card A = card (B \<inter> A)"
  have "B \<inter> A \<subseteq> A" by blast
  from card_subset_eq [OF assms this] c have "B \<inter> A = A" by simp
  then show "A \<subseteq> B" by blast
next
  assume "A \<subseteq> B"
  then have "B \<inter> A = A" by blast
  then show "card A = card (B \<inter> A)" by simp
qed

lemma finite_getRequiredDeviceExtensions: "finite (getRequiredDeviceExtensions cfg)"
  by (simp add: getRequiredDeviceExtensions_def)

lemma extension_check_iff:
  "(card (getRequiredDeviceExtensions cfg)
      = card (checkDeviceExtensionSupport d (getRequiredDeviceExtensions cfg)))
   = (getRequiredDeviceExtensions cfg \<subseteq> set (device_extension_properties d))"
  using card_inter_eq_iff [OF finite_getRequiredDeviceExtensions, of cfg "set (device_extension_properties d)"]
  by (simp add: checkDeviceExtensionSupport_def check_support_loop_eq)

lemma candidate_loop_valid:
  "fst (candidate_loop cfg ds valid lg) = valid @ filter (passes_both_filters cfg) ds"
  by (induction ds arbitrary: valid lg)
     (simp_all add: Let_def extension_check_iff passes_both_filters_def)

lemma get_physical_device_fails:
  assumes "devs = [] \<or> length devs \<le> deviceId cfg
           \<or> filter (passes_both_filters cfg) devs = []
           \<or> length (filter (passes_both_filters cfg) devs) \<le> deviceId cfg"
  shows "fst (get_physical_device cfg (VK_SUCCESS, devs) st) = Threw Result_FATAL
         \<and> physicalDevice (snd (get_physical_device cfg (VK_SUCCESS, devs) st)) = physicalDevice st
         \<and> fst (last (device_log (snd (get_physical_device cfg (VK_SUCCESS, devs) st)))) = LOG_FATAL"
proof -
  obtain valid lg where c: "candidate_loop cfg devs [] (device_log st) = (valid, lg)"
    by (cases "candidate_loop cfg devs [] (device_log st)")
  from candidate_loop_valid [of cfg devs "[]" "device_log st"] c
  have v: "valid = filter (passes_both_filters cfg) devs" by simp
  from assms v consider "devs = []" | "devs \<noteq> []" "length devs \<le> deviceId cfg"
    | "devs \<noteq> []" "\<not> length devs \<le> deviceId cfg" "valid = []"
    | "devs \<noteq> []" "\<not> length devs \<le> deviceId cfg" "valid \<noteq> []" "length valid \<le> deviceId cfg"
    by blast
  then show ?thesis
    by cases (simp_all add: get_physical_device_def Let_def c)
qed

lemma get_physical_device_selects:
  assumes "devs \<noteq> []" "deviceId cfg < length devs"
    "filter (passes_both_filters cfg) devs \<noteq> []"
    "deviceId cfg < length (filter (passes_both_filters cfg) devs)"
  shows "fst (get_physical_device cfg (VK_SUCCESS, devs) st) = Completed
         \<and> physicalDevice (snd (get_physical_device cfg (VK_SUCCESS, devs) st))
             = Some (filter (passes_both_filters cfg) devs ! deviceId cfg)"
proof -
  obtain valid lg where c: "candidate_loop cfg devs [] (device_log st) = (valid, lg)"
    by (cases "candidate_loop cfg devs [] (device_log st)")
  from candidate_loop_valid [of cfg devs "[]" "device_log st"] c
  have v: "valid = filter (passes_both_filters cfg) devs" by simp
  with assms have "valid \<noteq> []" "\<not> length valid \<le> deviceId cfg" "\<not> length devs \<le> deviceId cfg"
    by simp_all
  with assms(1) v show ?thesis
    by (simp add: get_physical_device_def Let_def c)
qed

lemma get_physical_device_enumeration_fails:
  "fst (get_physical_device cfg (VK_ERROR err, devs) st) = Threw Vk_check_thrown
   \<and> physicalDevice (snd (get_physical_device cfg (VK_ERROR err, devs) st)) = physicalDevice st"
  by (simp add: get_physical_device_def)

text \<open>
  C2. When the enumeration succeeds, the selection throws \<^verbatim>\<open>Result::FATAL\<close> (the
  specification's ConfigurationError), leaves \<^verbatim>\<open>physicalDevice\<close> unassigned and logs at
  level fatal exactly when no device is enumerated, or \<open>deviceId\<close> is not below the number
  of enumerated devices, or no candidate passes both filters, or \<open>deviceId\<close> is not below
  the number of valid candidates; otherwise it completes and the selected device is the
  element at index \<open>deviceId\<close> of the list of valid candidates, in enumeration order.
  The candidates the loop keeps are those that offer every required device extension and
  all three queue roles.
\<close>

theorem device_selection_by_ordinal_index:
  "(devs = [] \<or> length devs \<le> deviceId cfg
      \<or> filter (passes_both_filters cfg) devs = []
      \<or> length (filter (passes_both_filters cfg) devs) \<le> deviceId cfg \<longrightarrow>
      fst (get_physical_device cfg (VK_SUCCESS, devs) st) = Threw Result_FATAL
      \<and> physicalDevice (snd (get_physical_device cfg (VK_SUCCESS, devs) st)) = physicalDevice st
      \<and> fst (last (device_log (snd (get_physical_device cfg (VK_SUCCESS, devs) st)))) = LOG_FATAL)
   \<and> (devs \<noteq> [] \<and> deviceId cfg < length devs
      \<and> filter (passes_both_filters cfg) devs \<noteq> []
      \<and> deviceId cfg < length (filter (passes_both_filters cfg) devs) \<longrightarrow>
      fst (get_physical_device cfg (VK_SUCCESS, devs) st) = Completed
      \<and> physicalDevice (snd (get_physical_device cfg (VK_SUCCESS, devs) st))
          = Some (filter (passes_both_filters cfg) devs ! deviceId cfg))
   \<and> passes_both_filters cfg d =
       (getRequiredDeviceExtensions cfg \<subseteq> set (device_extension_properties d)
        \<and> graphicFamily d \<noteq> None \<and> computeFamily d \<noteq> None \<and> presentFamily d \<noteq> None)"
proof (intro conjI)
  show "devs = [] \<or> length devs \<le> deviceId cfg
      \<or> filter (passes_both_filters cfg) devs = []
      \<or> length (filter (passes_both_filters cfg) devs) \<le> deviceId cfg \<longrightarrow>
      fst (get_physical_device cfg (VK_SUCCESS, devs) st) = Threw Result_FATAL
      \<and> physicalDevice (snd (get_physical_device cfg (VK_SUCCESS, devs) st)) = physicalDevice st
      \<and> fst (last (device_log (snd (get_physical_device cfg (VK_SUCCESS, devs) st)))) = LOG_FATAL"
    using get_physical_device_fails [of devs cfg st] by blast
  show "devs \<noteq> [] \<and> deviceId cfg < length devs
      \<and> filter (passes_both_filters cfg) devs \<noteq> []
      \<and> deviceId cfg < length (filter (passes_both_filters cfg) devs) \<longrightarrow>
      fst (get_physical_device cfg (VK_SUCCESS, devs) st) = Completed
      \<and> physicalDevice (snd (get_physical_device cfg (VK_SUCCESS, devs) st))
          = Some (filter (passes_both_filters cfg) devs ! deviceId cfg)"
    using get_physical_device_selects [of devs cfg st] by blast
  show "passes_both_filters cfg d =
       (getRequiredDeviceExtensions cfg \<subseteq> set (device_extension_properties d)
        \<and> graphicFamily d \<noteq> None \<and> computeFamily d \<noteq> None \<and> presentFamily d \<noteq> None)"
    by (simp add: passes_both_filters_def isComplete_def)
qed

text \<open>
  Three of four devices are valid: index 1 selects the second valid one (the third
  enumerated), index 5 fails.
\<close>

theorem device_selection_by_ordinal_index_witness:
  "filter (passes_both_filters (windowed_config 1)) four_devices
     = [example_device 1 True, example_device 3 True, example_device 4 True]
   \<and> four_devices \<noteq> [] \<and> deviceId (windowed_config 1) < length four_devices
   \<and> deviceId (windowed_config 1) < length (filter (passes_both_filters (windowed_config 1)) four_devices)
   \<and> fst (get_physical_device (windowed_config 1) (VK_SUCCESS, four_devices) device_stage_initial)
       = Completed
   \<and> physicalDevice (snd (get_physical_device (windowed_config 1) (VK_SUCCESS, four_devices)
                              device_stage_initial))
       = Some (example_device 3 True)
   \<and> length (filter (passes_both_filters (windowed_config 5)) four_devices) \<le> deviceId (windowed_config 5)
   \<and> fst (get_physical_device (windowed_config 5) (VK_SUCCESS, four_devices) device_stage_initial)
       = Threw Result_FATAL
   \<and> physicalDevice (snd (get_physical_device (windowed_config 5) (VK_SUCCESS, four_devices)
                              device_stage_initial))
       = None"
proof -
  have p: "passes_both_filters (windowed_config n) (example_device h presents) = presents" for n h presents
    by (simp add: passes_both_filters_def isComplete_def getRequiredDeviceExtensions_def
        windowed_config_def example_device_def)
  have f: "filter (passes_both_filters (windowed_config n)) four_devices
     = [example_device 1 True, example_device 3 True, example_device 4 True]" for n
    by (simp add: four_devices_def p)
  have l: "four_devices \<noteq> []" "length four_devices = 4"
    by (simp_all add: four_devices_def)
  have i: "deviceId (windowed_config 1) = 1" "deviceId (windowed_config 5) = 5"
    by (simp_all add: windowed_config_def)
  have n: "physicalDevice device_stage_initial = None"
    by (simp add: device_stage_initial_def)
  have a: "fst (get_physical_device (windowed_config 1) (VK_SUCCESS, four_devices) device_stage_initial)
       = Completed
   \<and> physicalDevice (snd (get_physical_device (windowed_config 1) (VK_SUCCESS, four_devices)
                              device_stage_initial))
       = Some (example_device 3 True)"
    using device_selection_by_ordinal_index
            [of four_devices "windowed_config 1" device_stage_initial] l i
    by (simp add: f)
  have b: "fst (get_physical_device (windowed_config 5) (VK_SUCCESS, four_devices) device_stage_initial)
       = Threw Result_FATAL
   \<and> physicalDevice (snd (get_physical_device (windowed_config 5) (VK_SUCCESS, four_devices)
                              device_stage_initial))
       = None"
    using device_selection_by_ordinal_index
            [of four_devices "windowed_config 5" device_stage_initial] l i n
    by (simp add: f)
  from a b f l i show ?thesis by simp
qed


section \<open>A failed allocation and the resources acquired before it\<close>

lemmas bootstrap_defs = resource_bootstrap_def resource_blocks_def leave_constructor_def
  create_descriptor_pool_def staging_create_buffer_def staging_allocate_memory_def
  staging_bind_memory_def staging_map_memory_def create_default_command_pool_def
  create_default_command_buffer_def create_default_fence_def signal_device_is_available_def


text \<open>
  With a worker running, a throw out of the resource blocks does not reach the caller:
  the process is terminated. A device whose NVML provider committed is the example.
\<close>

lemma throw_with_joinable_worker_terminates:
  "worker_joinable tel \<Longrightarrow> fst (resource_blocks drv st) = Threw t \<Longrightarrow>
     fst (resource_bootstrap tel drv st) = Std_terminate"
  by (cases "resource_blocks drv st") (simp add: resource_bootstrap_def leave_constructor_def)

lemma committed_provider_failed_step_terminates:
  "fst (Vulkan_constructor_from_telemetry nvidia_env ''GPU'' (driver_failing_at 2)) = Std_terminate"
  by (simp add: Vulkan_constructor_from_telemetry_def bootstrap_defs driver_failing_at_def
      resources_initial_def nvidia_env_def initializeTelemetry_def setupNvmlTelemetry_def
      populate_information_cache_def vulkan_initial_def power_state_unsupported_def
      startTelemetryPolling_def pollTelemetry_def updateTelemetryFromNvml_def
      nvml_power_state_def nvml_temperature_def nvml_power_budget_def
      IsLowPowerFromPowerBudget_default_def IsLowPowerFromPowerBudget_def ThermalBucketFromCelsius_def)




end
